theory Spec2Isabelle
  imports Main "HOL-Library.AList"
begin

section \<open>JavaScript values, requests and responses\<close>

text \<open>
  The handlers of the repository are Express callbacks over dynamically typed values.
  A JavaScript value is modelled by \<open>jsval\<close>; an object is an association list from
  property names to values, in the order the source writes the properties. A Sequelize
  instance is modelled by the object of its \<open>dataValues\<close>, which is what
  \<open>res.json\<close> serialises.
\<close>

datatype jsval =
    JUndefined
  | JNull
  | JBool bool
  | JNum int
  | JStr string
  | JObj "(string \<times> jsval) list"
  | JArr "jsval list"

text \<open>A thrown JavaScript \<open>Error\<close>: its \<open>name\<close> and its \<open>message\<close>.\<close>

datatype js_error = Error (name: string) (message: string)

text \<open>Truthiness, as \<open>if (!x)\<close> tests it.\<close>

fun truthy :: "jsval \<Rightarrow> bool" where
  "truthy JUndefined = False"
| "truthy JNull = False"
| "truthy (JBool b) = b"
| "truthy (JNum n) = (n \<noteq> 0)"
| "truthy (JStr s) = (s \<noteq> [])"
| "truthy (JObj kvs) = True"
| "truthy (JArr xs) = True"

text \<open>
  Property access \<open>v.k\<close>: a \<open>TypeError\<close> on \<open>undefined\<close> and \<open>null\<close>, the stored value
  on an object that has the property, \<open>undefined\<close> otherwise.
\<close>

fun get_prop :: "jsval \<Rightarrow> string \<Rightarrow> js_error + jsval" where
  "get_prop JUndefined k = Inl (Error ''TypeError'' (''Cannot read properties of undefined (reading '' @ k @ '')''))"
| "get_prop JNull k = Inl (Error ''TypeError'' (''Cannot read properties of null (reading '' @ k @ '')''))"
| "get_prop (JObj kvs) k = Inr (case map_of kvs k of Some v \<Rightarrow> v | None \<Rightarrow> JUndefined)"
| "get_prop v k = Inr JUndefined"

text \<open>The property names of an object (the empty list for every other value).\<close>

fun keys :: "jsval \<Rightarrow> string list" where
  "keys (JObj kvs) = map fst kvs"
| "keys v = []"

text \<open>\<open>delete o.k\<close> on an object.\<close>

fun delete_prop :: "string \<Rightarrow> jsval \<Rightarrow> jsval" where
  "delete_prop k (JObj kvs) = JObj (filter (\<lambda>kv. fst kv \<noteq> k) kvs)"
| "delete_prop k v = v"

text \<open>\<open>s.split(c)\<close> for a one-character separator, and \<open>xs[i]\<close> on the resulting array.\<close>

fun split_js :: "char \<Rightarrow> string \<Rightarrow> string list" where
  "split_js c [] = [[]]"
| "split_js c (x # xs) =
     (if x = c then [] # split_js c xs
      else (case split_js c xs of
              [] \<Rightarrow> [[x]]
            | w # ws \<Rightarrow> (x # w) # ws))"

definition index_js :: "'a list \<Rightarrow> nat \<Rightarrow> 'a option" where
  "index_js xs i = (if i < length xs then Some (xs ! i) else None)"

definition startsWith :: "string \<Rightarrow> string \<Rightarrow> bool" where
  "startsWith s p = (take (length p) s = p)"

record response =
  status :: nat
  body :: jsval

text \<open>\<open>res.status(c).send(s)\<close> with a string, and \<open>res.status(c).json(v)\<close>.\<close>

definition send :: "nat \<Rightarrow> string \<Rightarrow> response" where
  "send c s = \<lparr>status = c, body = JStr s\<rparr>"

definition json :: "nat \<Rightarrow> jsval \<Rightarrow> response" where
  "json c v = \<lparr>status = c, body = v\<rparr>"

text \<open>
  The parts of an Express request the handlers read: the \<open>Authorization\<close> header
  (\<open>None\<close> when the header is absent), the parsed body, the route parameter \<open>id\<close>, the
  result of the express-validator chain that ran before the handler, and \<open>req.user\<close>,
  which is \<open>undefined\<close> until the authentication middleware sets it.
\<close>

record request =
  authorization :: "string option"
  req_body :: jsval
  param_id :: jsval
  validation_errors :: "jsval list"
  user :: jsval

text \<open>A middleware either answers the request or calls \<open>next()\<close> on the updated request.\<close>

datatype outcome = Responded response | Next request

section \<open>Authentication middleware\<close>

text \<open>
  \<open>src/middleware/authMiddleware.js\<close>. The two collaborators are parameters:
  \<open>jwt_verify\<close> is \<open>jwt.verify(_, process.env.SECRET)\<close> of the jsonwebtoken library
  (it throws on an expired or invalid token), \<open>findByPk\<close> is \<open>User.findByPk\<close> of the
  data store (it returns \<open>null\<close> when no row has the key and throws when the store fails).
  Everything thrown inside the \<open>try\<close> block reaches the single \<open>catch\<close>.

  The role of a credential record is the property \<open>type\<close> of the row: that is what the
  middleware reads (\<open>user.type\<close>) and what the controllers write (\<open>type: "admin"\<close>) and
  test (\<open>currentUser.type\<close>). The two Sequelize model files of the repository
  (\<open>src/unnamed/part_005\<close>, \<open>src/unnamed/part_006\<close>) declare a column \<open>role\<close> and no
  \<open>type\<close> (\<open>User_attributes\<close> below). The middleware is modelled on whatever object
  the store returns, with or without a \<open>type\<close> property; what it attaches for a row of
  the declared model is the subject of claim C3.
\<close>

text \<open>
  Line 12: \<open>token.startsWith("Bearer ") ? token.split(" ")[1] : token\<close>. \<open>None\<close> stands
  for \<open>undefined\<close>, on which \<open>jwt.verify\<close> throws.
\<close>

definition tokenWithoutBearer :: "string \<Rightarrow> string option" where
  "tokenWithoutBearer token =
     (if startsWith token ''Bearer '' then index_js (split_js CHR '' '' token) 1
      else Some token)"

definition authMiddleware ::
  "(string \<Rightarrow> js_error + jsval) \<Rightarrow> (jsval \<Rightarrow> js_error + jsval) \<Rightarrow> request \<Rightarrow> outcome" where
  "authMiddleware jwt_verify findByPk req =
     (case authorization req of
        None \<Rightarrow> Responded (send 401 ''Access denied. No token provided.'')
      | Some token \<Rightarrow>
          if token = [] then Responded (send 401 ''Access denied. No token provided.'')
          else
            (case tokenWithoutBearer token of
               None \<Rightarrow> Responded (send 400 ''Invalid token.'')
             | Some bare \<Rightarrow>
                 (case jwt_verify bare of
                    Inl ex \<Rightarrow> Responded (send 400 ''Invalid token.'')
                  | Inr decoded \<Rightarrow>
                      (case get_prop decoded ''id'' of
                         Inl ex \<Rightarrow> Responded (send 400 ''Invalid token.'')
                       | Inr decoded_id \<Rightarrow>
                           (case findByPk decoded_id of
                              Inl ex \<Rightarrow> Responded (send 400 ''Invalid token.'')
                            | Inr usr \<Rightarrow>
                                if \<not> truthy usr then Responded (send 404 ''User not found.'')
                                else
                                  (case get_prop usr ''type'' of
                                     Inl ex \<Rightarrow> Responded (send 400 ''Invalid token.'')
                                   | Inr user_type \<Rightarrow>
                                       Next (req\<lparr>user :=
                                         JObj [(''id'', decoded_id), (''type'', user_type)]\<rparr>)))))))"

text \<open>
  \<open>src/unnamed/part_000\<close>: the second copy of the authentication middleware. It always
  takes the second space-separated segment of the header, answers 401 when there is
  none, and its \<open>catch\<close> block puts \<open>error.message\<close> into the response body.
\<close>

definition authMiddleware_part_000 ::
  "(string \<Rightarrow> js_error + jsval) \<Rightarrow> (jsval \<Rightarrow> js_error + jsval) \<Rightarrow> request \<Rightarrow> outcome" where
  "authMiddleware_part_000 jwt_verify findByPk req =
     (let catch = (\<lambda>error. Responded (json 400
            (JObj [(''message'', JStr ''Invalid token.''), (''error'', JStr (message error))])))
      in
      case authorization req of
        None \<Rightarrow> Responded (send 401 ''Access denied. No token provided.'')
      | Some token \<Rightarrow>
          if token = [] then Responded (send 401 ''Access denied. No token provided.'')
          else
            (case index_js (split_js CHR '' '' token) 1 of
               None \<Rightarrow> Responded (json 401 (JObj [(''message'', JStr ''Invalid token format.'')]))
             | Some tokenValue \<Rightarrow>
                 if tokenValue = []
                 then Responded (json 401 (JObj [(''message'', JStr ''Invalid token format.'')]))
                 else
                 (case jwt_verify tokenValue of
                    Inl error \<Rightarrow> catch error
                  | Inr decoded \<Rightarrow>
                      (case get_prop decoded ''id'' of
                         Inl error \<Rightarrow> catch error
                       | Inr decoded_id \<Rightarrow>
                           (case findByPk decoded_id of
                              Inl error \<Rightarrow> catch error
                            | Inr usr \<Rightarrow>
                                if \<not> truthy usr
                                then Responded (json 404 (JObj [(''message'', JStr ''User not found.'')]))
                                else
                                  (case get_prop usr ''type'' of
                                     Inl error \<Rightarrow> catch error
                                   | Inr user_type \<Rightarrow>
                                       Next (req\<lparr>user :=
                                         JObj [(''id'', decoded_id), (''type'', user_type)]\<rparr>)))))))"

section \<open>Authentication controller\<close>

text \<open>
  \<open>exports.login\<close> of \<open>src/unnamed/part_008\<close>. \<open>findOne\<close> is
  \<open>User.findOne({ where: { username } })\<close>, \<open>compareSync\<close> is \<open>bcrypt.compareSync\<close>,
  \<open>jwt_sign payload expiresIn\<close> is \<open>jwt.sign(payload, process.env.SECRET, { expiresIn })\<close>.
  The whole body is inside \<open>try\<close>; whatever is thrown is answered with 500.
\<close>

definition login ::
  "(jsval \<Rightarrow> js_error + jsval) \<Rightarrow> (jsval \<Rightarrow> jsval \<Rightarrow> js_error + bool) \<Rightarrow>
   (jsval \<Rightarrow> nat \<Rightarrow> js_error + string) \<Rightarrow> request \<Rightarrow> response" where
  "login findOne compareSync jwt_sign req =
     (let catch = send 500 ''Error on the server.'' in
      case get_prop (req_body req) ''username'' of Inl err \<Rightarrow> catch | Inr username \<Rightarrow>
      case get_prop (req_body req) ''password'' of Inl err \<Rightarrow> catch | Inr password \<Rightarrow>
      case findOne username of Inl err \<Rightarrow> catch | Inr usr \<Rightarrow>
        if \<not> truthy usr then json 404 (JObj [(''message'', JStr ''User not found.'')])
        else
          case get_prop usr ''password'' of Inl err \<Rightarrow> catch | Inr user_password \<Rightarrow>
          case compareSync password user_password of Inl err \<Rightarrow> catch | Inr passwordIsValid \<Rightarrow>
            if \<not> passwordIsValid then json 401 (JObj [(''auth'', JBool False), (''token'', JNull)])
            else
              case get_prop usr ''id'' of Inl err \<Rightarrow> catch | Inr user_id \<Rightarrow>
              case get_prop usr ''type'' of Inl err \<Rightarrow> catch | Inr user_type \<Rightarrow>
              case jwt_sign (JObj [(''id'', user_id), (''type'', user_type)]) 86400 of
                Inl err \<Rightarrow> catch
              | Inr token \<Rightarrow> json 200 (JObj [(''auth'', JBool True), (''token'', JStr token)]))"

text \<open>
  \<open>exports.login\<close> of \<open>src/unnamed/part_009\<close>: the other copy. It answers an unknown user
  with a plain string, signs only \<open>{ id }\<close>, and sends the same bodies otherwise.
\<close>

definition login_part_009 ::
  "(jsval \<Rightarrow> js_error + jsval) \<Rightarrow> (jsval \<Rightarrow> jsval \<Rightarrow> js_error + bool) \<Rightarrow>
   (jsval \<Rightarrow> nat \<Rightarrow> js_error + string) \<Rightarrow> request \<Rightarrow> response" where
  "login_part_009 findOne compareSync jwt_sign req =
     (let catch = send 500 ''Error on the server.'' in
      case get_prop (req_body req) ''username'' of Inl err \<Rightarrow> catch | Inr username \<Rightarrow>
      case get_prop (req_body req) ''password'' of Inl err \<Rightarrow> catch | Inr password \<Rightarrow>
      case findOne username of Inl err \<Rightarrow> catch | Inr usr \<Rightarrow>
        if \<not> truthy usr then send 404 ''User not found.''
        else
          case get_prop usr ''password'' of Inl err \<Rightarrow> catch | Inr user_password \<Rightarrow>
          case compareSync password user_password of Inl err \<Rightarrow> catch | Inr passwordIsValid \<Rightarrow>
            if \<not> passwordIsValid then json 401 (JObj [(''auth'', JBool False), (''token'', JNull)])
            else
              case get_prop usr ''id'' of Inl err \<Rightarrow> catch | Inr user_id \<Rightarrow>
              case jwt_sign (JObj [(''id'', user_id)]) 86400 of
                Inl err \<Rightarrow> catch
              | Inr token \<Rightarrow> json 200 (JObj [(''auth'', JBool True), (''token'', JStr token)]))"

text \<open>
  The registration handlers. \<open>hashSync\<close> is \<open>bcrypt.hashSync\<close>; \<open>create\<close> is
  \<open>User.create\<close>, which returns the stored instance and the store after the insert, or
  throws. A handler returns its response and the store it leaves behind.

  \<open>exports.adminRegister\<close> (the same code in \<open>part_008\<close> and \<open>part_009\<close>) never reads
  \<open>req.user\<close>.
\<close>

definition adminRegister ::
  "(jsval \<Rightarrow> nat \<Rightarrow> js_error + string) \<Rightarrow> (jsval \<Rightarrow> 'db \<Rightarrow> js_error + jsval \<times> 'db) \<Rightarrow>
   request \<Rightarrow> 'db \<Rightarrow> response \<times> 'db" where
  "adminRegister hashSync create req db =
     (let catch = (send 500 ''Error on the server.'', db) in
      case get_prop (req_body req) ''username'' of Inl err \<Rightarrow> catch | Inr username \<Rightarrow>
      case get_prop (req_body req) ''password'' of Inl err \<Rightarrow> catch | Inr password \<Rightarrow>
      case hashSync password 8 of Inl err \<Rightarrow> catch | Inr hashedPassword \<Rightarrow>
      case create (JObj [(''username'', username), (''password'', JStr hashedPassword),
                         (''type'', JStr ''admin'')]) db of
        Inl err \<Rightarrow> catch
      | Inr (created, db') \<Rightarrow>
          (json 200 (JObj [(''message'', JStr ''User registered successfully as admin.''),
                           (''username'', username)]), db'))"

text \<open>
  The guard \<open>req.user && req.user.type === "admin"\<close> of \<open>ngoAdminRegister\<close> and
  \<open>volunteerRegister\<close>.
\<close>

definition requester_is_admin :: "request \<Rightarrow> bool" where
  "requester_is_admin req = (truthy (user req) \<and> get_prop (user req) ''type'' = Inr (JStr ''admin''))"

text \<open>\<open>exports.ngoAdminRegister\<close> of \<open>src/unnamed/part_008\<close>.\<close>

definition ngoAdminRegister ::
  "(jsval \<Rightarrow> nat \<Rightarrow> js_error + string) \<Rightarrow> (jsval \<Rightarrow> 'db \<Rightarrow> js_error + jsval \<times> 'db) \<Rightarrow>
   request \<Rightarrow> 'db \<Rightarrow> response \<times> 'db" where
  "ngoAdminRegister hashSync create req db =
     (let catch = (send 500 ''Error on the server.'', db) in
      case get_prop (req_body req) ''username'' of Inl err \<Rightarrow> catch | Inr username \<Rightarrow>
      case get_prop (req_body req) ''password'' of Inl err \<Rightarrow> catch | Inr password \<Rightarrow>
      case hashSync password 8 of Inl err \<Rightarrow> catch | Inr hashedPassword \<Rightarrow>
        if requester_is_admin req then
          case create (JObj [(''username'', username), (''password'', JStr hashedPassword),
                             (''type'', JStr ''ngo_admin'')]) db of
            Inl err \<Rightarrow> catch
          | Inr (created, db') \<Rightarrow>
              (json 200 (JObj [(''message'', JStr ''User registered successfully as ngo admin.''),
                               (''username'', username)]), db')
        else (send 403 ''Access denied. Only admin can create school admins.'', db))"

text \<open>\<open>exports.volunteerRegister\<close> of \<open>src/unnamed/part_009\<close>.\<close>

definition volunteerRegister ::
  "(jsval \<Rightarrow> nat \<Rightarrow> js_error + string) \<Rightarrow> (jsval \<Rightarrow> 'db \<Rightarrow> js_error + jsval \<times> 'db) \<Rightarrow>
   request \<Rightarrow> 'db \<Rightarrow> response \<times> 'db" where
  "volunteerRegister hashSync create req db =
     (let catch = (send 500 ''Error on the server.'', db) in
      case get_prop (req_body req) ''username'' of Inl err \<Rightarrow> catch | Inr username \<Rightarrow>
      case get_prop (req_body req) ''password'' of Inl err \<Rightarrow> catch | Inr password \<Rightarrow>
      case hashSync password 8 of Inl err \<Rightarrow> catch | Inr hashedPassword \<Rightarrow>
        if requester_is_admin req then
          case create (JObj [(''username'', username), (''password'', JStr hashedPassword),
                             (''type'', JStr ''volunteer'')]) db of
            Inl err \<Rightarrow> catch
          | Inr (created, db') \<Rightarrow>
              (json 200 (JObj [(''message'', JStr ''User registered successfully as volunteer.''),
                               (''username'', username)]), db')
        else (send 403 ''Access denied. Only admin can create volunteers.'', db))"

text \<open>
  \<open>src/routes/authRoutes.js\<close>: \<open>POST /register/admin\<close> runs \<open>adminRegister\<close> alone;
  \<open>POST /register/ngoadmin\<close> runs the authentication middleware and then
  \<open>ngoAdminRegister\<close>.
\<close>

definition route_register_admin ::
  "(jsval \<Rightarrow> nat \<Rightarrow> js_error + string) \<Rightarrow> (jsval \<Rightarrow> 'db \<Rightarrow> js_error + jsval \<times> 'db) \<Rightarrow>
   request \<Rightarrow> 'db \<Rightarrow> response \<times> 'db" where
  "route_register_admin hashSync create req db = adminRegister hashSync create req db"

definition route_register_ngoadmin ::
  "(string \<Rightarrow> js_error + jsval) \<Rightarrow> (jsval \<Rightarrow> js_error + jsval) \<Rightarrow>
   (jsval \<Rightarrow> nat \<Rightarrow> js_error + string) \<Rightarrow> (jsval \<Rightarrow> 'db \<Rightarrow> js_error + jsval \<times> 'db) \<Rightarrow>
   request \<Rightarrow> 'db \<Rightarrow> response \<times> 'db" where
  "route_register_ngoadmin jwt_verify findByPk hashSync create req db =
     (case authMiddleware jwt_verify findByPk req of
        Responded res \<Rightarrow> (res, db)
      | Next req' \<Rightarrow> ngoAdminRegister hashSync create req' db)"

text \<open>
  \<open>adminMiddleware\<close> of \<open>src/unnamed/part_003\<close>, placed after the authentication
  middleware on every event route. It is synchronous: a \<open>TypeError\<close> on an undefined
  \<open>req.user\<close> is thrown to Express (\<open>Inl\<close>).
\<close>

definition adminMiddleware :: "request \<Rightarrow> js_error + outcome" where
  "adminMiddleware req =
     (case get_prop (user req) ''type'' of
        Inl err \<Rightarrow> Inl err
      | Inr t \<Rightarrow>
          if t = JStr ''admin'' then Inr (Next req)
          else Inr (Responded
                 (send 401 ''Unauthorized. Only admin users can access this resource.'')))"

section \<open>Report controller\<close>

text \<open>
  \<open>src/controllers/reportController.js\<close>. Every handler starts with the result of its
  validator chain and answers 400 when it is not empty. The \<open>catch\<close> block of every
  handler is the same.
\<close>

definition validation_failed :: "request \<Rightarrow> response" where
  "validation_failed req = json 400 (JObj [(''errors'', JArr (validation_errors req))])"

definition internal_error :: "js_error \<Rightarrow> response" where
  "internal_error error =
     json 500 (JObj [(''error'', JStr ''Internal server error''),
                     (''details'', JArr [JStr (message error)])])"

text \<open>
  The condition the three by-id handlers test once the report is loaded:
  \<open>currentUser.type === "admin" || (currentUser.type === "ngo_admin" &&
  currentUser.ngo_id === report.ngo_id)\<close>, evaluated left to right. \<open>scoped_owner\<close> is
  its second disjunct; the properties of the report are read only for an \<open>ngo_admin\<close>.
\<close>

definition scoped_owner :: "jsval \<Rightarrow> jsval \<Rightarrow> js_error + bool" where
  "scoped_owner currentUser report =
     (case get_prop currentUser ''type'' of
        Inl err \<Rightarrow> Inl err
      | Inr t \<Rightarrow>
          if t = JStr ''ngo_admin'' then
            (case get_prop currentUser ''ngo_id'' of
               Inl err \<Rightarrow> Inl err
             | Inr user_ngo \<Rightarrow>
                 (case get_prop report ''ngo_id'' of
                    Inl err \<Rightarrow> Inl err
                  | Inr report_ngo \<Rightarrow> Inr (user_ngo = report_ngo)))
          else Inr False)"

definition report_access :: "jsval \<Rightarrow> jsval \<Rightarrow> js_error + bool" where
  "report_access currentUser report =
     (case get_prop currentUser ''type'' of
        Inl err \<Rightarrow> Inl err
      | Inr t \<Rightarrow>
          if t = JStr ''admin'' then Inr True
          else scoped_owner currentUser report)"

text \<open>\<open>exports.getReportById\<close>; \<open>findByPk\<close> is \<open>Report.findByPk\<close>.\<close>

definition getReportById :: "(jsval \<Rightarrow> js_error + jsval) \<Rightarrow> request \<Rightarrow> response" where
  "getReportById findByPk req =
     (if validation_errors req \<noteq> [] then validation_failed req
      else
        case findByPk (param_id req) of
          Inl error \<Rightarrow> internal_error error
        | Inr report \<Rightarrow>
            if \<not> truthy report then send 404 ''Report not found.''
            else
              (case report_access (user req) report of
                 Inl error \<Rightarrow> internal_error error
               | Inr allowed \<Rightarrow>
                   if allowed then json 200 report
                   else send 401 ''Unauthorized. You do not have access to this report.''))"

text \<open>
  \<open>exports.updateReportById\<close>: the fields present in the body overwrite those of the
  loaded report, and \<open>save\<close> (\<open>report.save()\<close>) writes it back.
\<close>

definition set_if_defined :: "string \<Rightarrow> jsval \<Rightarrow> jsval \<Rightarrow> jsval" where
  "set_if_defined k v obj =
     (if v = JUndefined then obj
      else case obj of
             JObj kvs \<Rightarrow> JObj (AList.update k v kvs)
           | other \<Rightarrow> other)"

definition updateReportById ::
  "(jsval \<Rightarrow> js_error + jsval) \<Rightarrow> (jsval \<Rightarrow> 'db \<Rightarrow> js_error + 'db) \<Rightarrow>
   request \<Rightarrow> 'db \<Rightarrow> js_error + response \<times> 'db" where
  "updateReportById findByPk save req db =
     (if validation_errors req \<noteq> [] then Inr (validation_failed req, db)
      else
        case get_prop (req_body req) ''beneficiary_id'' of Inl thrown \<Rightarrow> Inl thrown
        | Inr beneficiary_id \<Rightarrow>
        case get_prop (req_body req) ''aid_amount'' of Inl thrown \<Rightarrow> Inl thrown
        | Inr aid_amount \<Rightarrow>
        case get_prop (req_body req) ''aid_date'' of Inl thrown \<Rightarrow> Inl thrown
        | Inr aid_date \<Rightarrow>
        case findByPk (param_id req) of
          Inl error \<Rightarrow> Inr (internal_error error, db)
        | Inr report \<Rightarrow>
            if \<not> truthy report then Inr (send 404 ''Report not found.'', db)
            else
              (case report_access (user req) report of
                 Inl error \<Rightarrow> Inr (internal_error error, db)
               | Inr allowed \<Rightarrow>
                   if allowed then
                     (let report' = set_if_defined ''aid_date'' aid_date
                                      (set_if_defined ''aid_amount'' aid_amount
                                        (set_if_defined ''beneficiary_id'' beneficiary_id report))
                      in case save report' db of
                           Inl error \<Rightarrow> Inr (internal_error error, db)
                         | Inr db' \<Rightarrow> Inr (json 200 report', db'))
                   else Inr (send 401
                     ''Unauthorized. You do not have access to update this report.'', db)))"

text \<open>\<open>exports.deleteReportById\<close>; \<open>destroy\<close> is \<open>report.destroy()\<close>.\<close>

definition deleteReportById ::
  "(jsval \<Rightarrow> js_error + jsval) \<Rightarrow> (jsval \<Rightarrow> 'db \<Rightarrow> js_error + 'db) \<Rightarrow>
   request \<Rightarrow> 'db \<Rightarrow> response \<times> 'db" where
  "deleteReportById findByPk destroy req db =
     (if validation_errors req \<noteq> [] then (validation_failed req, db)
      else
        case findByPk (param_id req) of
          Inl error \<Rightarrow> (internal_error error, db)
        | Inr report \<Rightarrow>
            if \<not> truthy report then (send 404 ''Report not found.'', db)
            else
              (case report_access (user req) report of
                 Inl error \<Rightarrow> (internal_error error, db)
               | Inr allowed \<Rightarrow>
                   if allowed then
                     (case destroy report db of
                        Inl error \<Rightarrow> (internal_error error, db)
                      | Inr db' \<Rightarrow> (send 200 ''Report deleted successfully.'', db'))
                   else (send 401
                     ''Unauthorized. You do not have access to delete this report.'', db)))"

text \<open>
  \<open>exports.createReport\<close>; \<open>create\<close> is \<open>Report.create\<close>. The body is destructured
  before the \<open>try\<close> block (a throw there is not caught by the handler: \<open>Inl\<close>);
  \<open>currentUser.ngo_id\<close> is read inside it.
\<close>

definition createReport ::
  "(jsval \<Rightarrow> 'db \<Rightarrow> js_error + jsval \<times> 'db) \<Rightarrow> request \<Rightarrow> 'db \<Rightarrow> js_error + response \<times> 'db" where
  "createReport create req db =
     (if validation_errors req \<noteq> [] then Inr (validation_failed req, db)
      else
        case get_prop (req_body req) ''beneficiary_id'' of Inl thrown \<Rightarrow> Inl thrown
        | Inr beneficiary_id \<Rightarrow>
        case get_prop (req_body req) ''aid_amount'' of Inl thrown \<Rightarrow> Inl thrown
        | Inr aid_amount \<Rightarrow>
        case get_prop (req_body req) ''aid_date'' of Inl thrown \<Rightarrow> Inl thrown
        | Inr aid_date \<Rightarrow>
        case get_prop (user req) ''ngo_id'' of
          Inl error \<Rightarrow> Inr (internal_error error, db)
        | Inr user_ngo \<Rightarrow>
            (case create (JObj [(''beneficiary_id'', beneficiary_id), (''aid_amount'', aid_amount),
                                (''aid_date'', aid_date), (''ngo_id'', user_ngo)]) db of
               Inl error \<Rightarrow> Inr (internal_error error, db)
             | Inr (report, db') \<Rightarrow> Inr (json 201 report, db')))"

section \<open>Beneficiary controller\<close>

text \<open>
  \<open>src/unnamed/part_007\<close>. Every handler tests \<open>currentUser.type !== "admin"\<close> before its
  \<open>try\<close> block, so a \<open>TypeError\<close> on an undefined \<open>req.user\<close> is not caught by the
  handler (\<open>Inl\<close>).
\<close>

text \<open>\<open>exports.createBeneficiary\<close>; \<open>create\<close> is \<open>Beneficiary.create\<close>.\<close>

definition createBeneficiary ::
  "(jsval \<Rightarrow> 'db \<Rightarrow> js_error + jsval \<times> 'db) \<Rightarrow> request \<Rightarrow> 'db \<Rightarrow> js_error + response \<times> 'db" where
  "createBeneficiary create req db =
     (if validation_errors req \<noteq> [] then Inr (validation_failed req, db)
      else
        case get_prop (user req) ''type'' of
          Inl thrown \<Rightarrow> Inl thrown
        | Inr t \<Rightarrow>
            if t \<noteq> JStr ''admin''
            then Inr (send 401 ''Unauthorized. Only admin users can create beneficiaries.'', db)
            else
              (case create (req_body req) db of
                 Inl error \<Rightarrow> Inr (internal_error error, db)
               | Inr (beneficiary, db') \<Rightarrow> Inr (json 201 beneficiary, db')))"

text \<open>\<open>exports.getBeneficiaryById\<close>; \<open>findByPk\<close> is \<open>Beneficiary.findByPk\<close>.\<close>

definition getBeneficiaryById ::
  "(jsval \<Rightarrow> js_error + jsval) \<Rightarrow> request \<Rightarrow> js_error + response" where
  "getBeneficiaryById findByPk req =
     (if validation_errors req \<noteq> [] then Inr (validation_failed req)
      else
        case get_prop (user req) ''type'' of
          Inl thrown \<Rightarrow> Inl thrown
        | Inr t \<Rightarrow>
            if t \<noteq> JStr ''admin''
            then Inr (send 401 ''Unauthorized. Only admin users can view beneficiaries.'')
            else
              (case findByPk (param_id req) of
                 Inl error \<Rightarrow> Inr (internal_error error)
               | Inr beneficiary \<Rightarrow>
                   if \<not> truthy beneficiary then Inr (send 404 ''Beneficiary not found.'')
                   else Inr (json 200 (delete_prop ''password'' beneficiary))))"

text \<open>
  \<open>exports.getAllBeneficiaries\<close>. The page and the limit parsed from the query string are
  the parameters \<open>page\<close> and \<open>limit\<close> (both at least 1 after lines 153-156);
  \<open>findAndCountAll\<close> is the query of lines 179-184 and returns the rows and the count.
\<close>

definition getAllBeneficiaries ::
  "nat \<Rightarrow> nat \<Rightarrow> (js_error + jsval list \<times> nat) \<Rightarrow> request \<Rightarrow> js_error + response" where
  "getAllBeneficiaries page limit findAndCountAll req =
     (if validation_errors req \<noteq> [] then Inr (validation_failed req)
      else
        case get_prop (user req) ''type'' of
          Inl thrown \<Rightarrow> Inl thrown
        | Inr t \<Rightarrow>
            if t \<noteq> JStr ''admin''
            then Inr (send 401 ''Unauthorized. Only admin users can view beneficiaries.'')
            else
              (case findAndCountAll of
                 Inl error \<Rightarrow> Inr (internal_error error)
               | Inr (beneficiaries, count) \<Rightarrow>
                   Inr (json 200 (JObj
                     [(''data'', JArr (map (delete_prop ''password'') beneficiaries)),
                      (''meta'', JObj [(''totalItems'', JNum (int count)),
                                       (''totalPages'', JNum (int ((count + limit - 1) div limit))),
                                       (''currentPage'', JNum (int page))])]))))"

text \<open>
  \<open>exports.updateBeneficiary\<close>; \<open>update\<close> is \<open>beneficiary.update(updateData)\<close>: it
  returns the instance with the new values and the store after the write. The instance
  is sent as it is.
\<close>

definition updateBeneficiary ::
  "(jsval \<Rightarrow> js_error + jsval) \<Rightarrow> (jsval \<Rightarrow> jsval \<Rightarrow> 'db \<Rightarrow> js_error + jsval \<times> 'db) \<Rightarrow>
   request \<Rightarrow> 'db \<Rightarrow> js_error + response \<times> 'db" where
  "updateBeneficiary findByPk update req db =
     (if validation_errors req \<noteq> [] then Inr (validation_failed req, db)
      else
        case get_prop (user req) ''type'' of
          Inl thrown \<Rightarrow> Inl thrown
        | Inr t \<Rightarrow>
            if t \<noteq> JStr ''admin''
            then Inr (send 401 ''Unauthorized. Only admin users can update beneficiaries.'', db)
            else
              (case findByPk (param_id req) of
                 Inl error \<Rightarrow> Inr (internal_error error, db)
               | Inr beneficiary \<Rightarrow>
                   if \<not> truthy beneficiary then Inr (send 404 ''Beneficiary not found.'', db)
                   else
                     (case update beneficiary (req_body req) db of
                        Inl error \<Rightarrow> Inr (internal_error error, db)
                      | Inr (updated, db') \<Rightarrow> Inr (json 200 updated, db'))))"

text \<open>
  \<open>exports.deleteBeneficiary\<close>; \<open>destroy\<close> is \<open>beneficiary.destroy()\<close>. A successful
  delete answers 204 with no body.
\<close>

definition deleteBeneficiary ::
  "(jsval \<Rightarrow> js_error + jsval) \<Rightarrow> (jsval \<Rightarrow> 'db \<Rightarrow> js_error + 'db) \<Rightarrow>
   request \<Rightarrow> 'db \<Rightarrow> js_error + response \<times> 'db" where
  "deleteBeneficiary findByPk destroy req db =
     (if validation_errors req \<noteq> [] then Inr (validation_failed req, db)
      else
        case get_prop (user req) ''type'' of
          Inl thrown \<Rightarrow> Inl thrown
        | Inr t \<Rightarrow>
            if t \<noteq> JStr ''admin''
            then Inr (send 401 ''Unauthorized. Only admin users can delete beneficiaries.'', db)
            else
              (case findByPk (param_id req) of
                 Inl error \<Rightarrow> Inr (internal_error error, db)
               | Inr beneficiary \<Rightarrow>
                   if \<not> truthy beneficiary then Inr (send 404 ''Beneficiary not found.'', db)
                   else
                     (case destroy beneficiary db of
                        Inl error \<Rightarrow> Inr (internal_error error, db)
                      | Inr db' \<Rightarrow> Inr (\<lparr>status = 204, body = JUndefined\<rparr>, db'))))"

section \<open>Volunteer attendance controller\<close>

text \<open>
  \<open>src/unnamed/part_011\<close>. The three by-id handlers load the record and then run the same
  chain of tests with their own messages: a \<open>school_admin\<close> must own the school of the
  record's batch, an \<open>employee\<close> must own the batch, anybody else must be an \<open>admin\<close>.
  \<open>attendance_check\<close> returns the message of the test that refuses, or \<open>None\<close>.
\<close>

definition attendance_check ::
  "jsval \<Rightarrow> jsval \<Rightarrow> string \<Rightarrow> string \<Rightarrow> string \<Rightarrow> js_error + string option" where
  "attendance_check currentUser volunteerAttendance school_msg batch_msg role_msg =
     (case get_prop currentUser ''type'' of
        Inl err \<Rightarrow> Inl err
      | Inr t \<Rightarrow>
          if t = JStr ''school_admin'' then
            (case get_prop volunteerAttendance ''Batch'' of
               Inl err \<Rightarrow> Inl err
             | Inr batch \<Rightarrow>
                 (case get_prop batch ''school_id'' of
                    Inl err \<Rightarrow> Inl err
                  | Inr batch_school \<Rightarrow>
                      (case get_prop currentUser ''school_id'' of
                         Inl err \<Rightarrow> Inl err
                       | Inr user_school \<Rightarrow>
                           if batch_school \<noteq> user_school then Inr (Some school_msg)
                           else Inr None)))
          else if t = JStr ''employee'' then
            (case get_prop volunteerAttendance ''batch_id'' of
               Inl err \<Rightarrow> Inl err
             | Inr record_batch \<Rightarrow>
                 (case get_prop currentUser ''batch_id'' of
                    Inl err \<Rightarrow> Inl err
                  | Inr user_batch \<Rightarrow>
                      if record_batch \<noteq> user_batch then Inr (Some batch_msg) else Inr None))
          else if t \<noteq> JStr ''admin'' then Inr (Some role_msg)
          else Inr None)"

text \<open>\<open>exports.getVolunteerAttendanceById\<close>; \<open>findByPk\<close> is \<open>VolunteerAttendance.findByPk\<close>.\<close>

definition getVolunteerAttendanceById ::
  "(jsval \<Rightarrow> js_error + jsval) \<Rightarrow> request \<Rightarrow> response" where
  "getVolunteerAttendanceById findByPk req =
     (case findByPk (param_id req) of
        Inl error \<Rightarrow> internal_error error
      | Inr volunteerAttendance \<Rightarrow>
          if \<not> truthy volunteerAttendance
          then send 404 ''Volunteer attendance record not found.''
          else
            (case attendance_check (user req) volunteerAttendance
                ''Unauthorized. You can only view volunteer attendance for your school's batches.''
                ''Unauthorized. You can only view volunteer attendance for your batch.''
                ''Unauthorized. Only admins, school admins, and employees can view volunteer attendance.'' of
               Inl error \<Rightarrow> internal_error error
             | Inr (Some refusal) \<Rightarrow> send 401 refusal
             | Inr None \<Rightarrow> json 200 volunteerAttendance))"

text \<open>\<open>record.k = v\<close> on an object, whatever \<open>v\<close> is.\<close>

definition set_prop :: "string \<Rightarrow> jsval \<Rightarrow> jsval \<Rightarrow> jsval" where
  "set_prop k v obj =
     (case obj of
        JObj kvs \<Rightarrow> JObj (AList.update k v kvs)
      | other \<Rightarrow> other)"

text \<open>
  \<open>exports.updateVolunteerAttendance\<close>: the body is destructured before the \<open>try\<close> block;
  the four fields are assigned unconditionally and the record is saved.
\<close>

definition updateVolunteerAttendance ::
  "(jsval \<Rightarrow> js_error + jsval) \<Rightarrow> (jsval \<Rightarrow> 'db \<Rightarrow> js_error + 'db) \<Rightarrow>
   request \<Rightarrow> 'db \<Rightarrow> js_error + response \<times> 'db" where
  "updateVolunteerAttendance findByPk save req db =
     (case get_prop (req_body req) ''batch_id'' of Inl thrown \<Rightarrow> Inl thrown
      | Inr batch_id \<Rightarrow>
      case get_prop (req_body req) ''volunteer_id'' of Inl thrown \<Rightarrow> Inl thrown
      | Inr volunteer_id \<Rightarrow>
      case get_prop (req_body req) ''status'' of Inl thrown \<Rightarrow> Inl thrown
      | Inr status_value \<Rightarrow>
      case get_prop (req_body req) ''date'' of Inl thrown \<Rightarrow> Inl thrown
      | Inr date \<Rightarrow>
      case findByPk (param_id req) of
        Inl error \<Rightarrow> Inr (internal_error error, db)
      | Inr volunteerAttendance \<Rightarrow>
          if \<not> truthy volunteerAttendance
          then Inr (send 404 ''Volunteer attendance record not found.'', db)
          else
            (case attendance_check (user req) volunteerAttendance
                ''Unauthorized. You can only update volunteer attendance for your school's batches.''
                ''Unauthorized. You can only update volunteer attendance for your batch.''
                ''Unauthorized. Only admins, school admins, and employees can update volunteer attendance.'' of
               Inl error \<Rightarrow> Inr (internal_error error, db)
             | Inr (Some refusal) \<Rightarrow> Inr (send 401 refusal, db)
             | Inr None \<Rightarrow>
                 (let updated = set_prop ''date'' date
                                  (set_prop ''status'' status_value
                                    (set_prop ''volunteer_id'' volunteer_id
                                      (set_prop ''batch_id'' batch_id volunteerAttendance)))
                  in case save updated db of
                       Inl error \<Rightarrow> Inr (internal_error error, db)
                     | Inr db' \<Rightarrow> Inr (json 200 updated, db'))))"

text \<open>\<open>exports.deleteVolunteerAttendance\<close>; a successful delete answers 204 with no body.\<close>

definition deleteVolunteerAttendance ::
  "(jsval \<Rightarrow> js_error + jsval) \<Rightarrow> (jsval \<Rightarrow> 'db \<Rightarrow> js_error + 'db) \<Rightarrow>
   request \<Rightarrow> 'db \<Rightarrow> response \<times> 'db" where
  "deleteVolunteerAttendance findByPk destroy req db =
     (case findByPk (param_id req) of
        Inl error \<Rightarrow> (internal_error error, db)
      | Inr volunteerAttendance \<Rightarrow>
          if \<not> truthy volunteerAttendance
          then (send 404 ''Volunteer attendance record not found.'', db)
          else
            (case attendance_check (user req) volunteerAttendance
                ''Unauthorized. You can only delete volunteer attendance for your school's batches.''
                ''Unauthorized. You can only delete volunteer attendance for your batch.''
                ''Unauthorized. Only admins, school admins, and employees can delete volunteer attendance.'' of
               Inl error \<Rightarrow> (internal_error error, db)
             | Inr (Some refusal) \<Rightarrow> (send 401 refusal, db)
             | Inr None \<Rightarrow>
                 (case destroy volunteerAttendance db of
                    Inl error \<Rightarrow> (internal_error error, db)
                  | Inr db' \<Rightarrow> (\<lparr>status = 204, body = JUndefined\<rparr>, db'))))"

text \<open>
  \<open>exports.createVolunteerAttendance\<close>. The body is destructured before the \<open>try\<close>
  block; the tests are inside it. \<open>Batch_findByPk\<close> is \<open>Batch.findByPk\<close> (line 4 binds
  \<open>Batch\<close> to the model of \<open>../models/Beneficiary\<close>). \<open>create_attendance_check\<close>
  returns the message of the test that refuses, or \<open>None\<close>.
\<close>

definition create_attendance_check ::
  "(jsval \<Rightarrow> js_error + jsval) \<Rightarrow> jsval \<Rightarrow> jsval \<Rightarrow> js_error + string option" where
  "create_attendance_check Batch_findByPk currentUser batch_id =
     (case get_prop currentUser ''type'' of
        Inl err \<Rightarrow> Inl err
      | Inr t \<Rightarrow>
          if t = JStr ''school_admin'' then
            (case Batch_findByPk batch_id of
               Inl err \<Rightarrow> Inl err
             | Inr batch \<Rightarrow>
                 if \<not> truthy batch
                 then Inr (Some
                   ''Unauthorized. You can only create volunteer attendance for your school's batches.'')
                 else
                   (case get_prop batch ''school_id'' of
                      Inl err \<Rightarrow> Inl err
                    | Inr batch_school \<Rightarrow>
                        (case get_prop currentUser ''school_id'' of
                           Inl err \<Rightarrow> Inl err
                         | Inr user_school \<Rightarrow>
                             if batch_school \<noteq> user_school
                             then Inr (Some
                               ''Unauthorized. You can only create volunteer attendance for your school's batches.'')
                             else Inr None)))
          else if t = JStr ''employee'' then
            (case get_prop currentUser ''batch_id'' of
               Inl err \<Rightarrow> Inl err
             | Inr user_batch \<Rightarrow>
                 if batch_id \<noteq> user_batch
                 then Inr (Some
                   ''Unauthorized. You can only create volunteer attendance for your batch.'')
                 else Inr None)
          else if t \<noteq> JStr ''admin''
          then Inr (Some
            ''Unauthorized. Only admins, school admins, and employees can create volunteer attendance.'')
          else Inr None)"

definition createVolunteerAttendance ::
  "(jsval \<Rightarrow> js_error + jsval) \<Rightarrow> (jsval \<Rightarrow> 'db \<Rightarrow> js_error + jsval \<times> 'db) \<Rightarrow>
   request \<Rightarrow> 'db \<Rightarrow> js_error + response \<times> 'db" where
  "createVolunteerAttendance Batch_findByPk create req db =
     (case get_prop (req_body req) ''batch_id'' of Inl thrown \<Rightarrow> Inl thrown
      | Inr batch_id \<Rightarrow>
      case get_prop (req_body req) ''volunteer_id'' of Inl thrown \<Rightarrow> Inl thrown
      | Inr volunteer_id \<Rightarrow>
      case get_prop (req_body req) ''status'' of Inl thrown \<Rightarrow> Inl thrown
      | Inr status_value \<Rightarrow>
      case get_prop (req_body req) ''date'' of Inl thrown \<Rightarrow> Inl thrown
      | Inr date \<Rightarrow>
      case create_attendance_check Batch_findByPk (user req) batch_id of
        Inl error \<Rightarrow> Inr (internal_error error, db)
      | Inr (Some refusal) \<Rightarrow> Inr (send 401 refusal, db)
      | Inr None \<Rightarrow>
          (case create (JObj [(''batch_id'', batch_id), (''volunteer_id'', volunteer_id),
                              (''status'', status_value), (''date'', date)]) db of
             Inl error \<Rightarrow> Inr (internal_error error, db)
           | Inr (volunteerAttendance, db') \<Rightarrow> Inr (json 201 volunteerAttendance, db')))"

section \<open>Donor controller\<close>

text \<open>
  The donor controller (\<open>src/controllers/reportController.js\<close> from line 487 on). Its
  handlers have no validator chain; each tests \<open>currentUser.type !== "admin"\<close> first,
  before its \<open>try\<close> block.

  \<open>exports.getAllDonors\<close>. Lines 596-628 parse the query string: \<open>parsed_query\<close> is the
  page and the limit they compute (both at least 1), or the \<open>TypeError\<close> that
  \<open>order.toLowerCase()\<close> throws, outside the \<open>try\<close> block, when the query parameter
  \<open>order\<close> is not a string. \<open>findAndCountAll\<close> is the query of lines 631-638.
\<close>

definition getAllDonors ::
  "(js_error + nat \<times> nat) \<Rightarrow> (js_error + jsval list \<times> nat) \<Rightarrow> request \<Rightarrow> js_error + response" where
  "getAllDonors parsed_query findAndCountAll req =
     (case get_prop (user req) ''type'' of
        Inl thrown \<Rightarrow> Inl thrown
      | Inr t \<Rightarrow>
          if t \<noteq> JStr ''admin''
          then Inr (send 401 ''Unauthorized. Only admin users can view donors.'')
          else
            (case parsed_query of
               Inl thrown \<Rightarrow> Inl thrown
             | Inr (page, limit) \<Rightarrow>
                 (case findAndCountAll of
                    Inl error \<Rightarrow> Inr (internal_error error)
                  | Inr (donors, count) \<Rightarrow>
                      Inr (json 200 (JObj
                        [(''data'', JArr donors),
                         (''meta'', JObj [(''totalItems'', JNum (int count)),
                                          (''totalPages'', JNum (int ((count + limit - 1) div limit))),
                                          (''currentPage'', JNum (int page))])])))))"

text \<open>\<open>exports.getDonorById\<close>; \<open>findByPk\<close> is \<open>Donor.findByPk\<close>.\<close>

definition getDonorById ::
  "(jsval \<Rightarrow> js_error + jsval) \<Rightarrow> request \<Rightarrow> js_error + response" where
  "getDonorById findByPk req =
     (case get_prop (user req) ''type'' of
        Inl thrown \<Rightarrow> Inl thrown
      | Inr t \<Rightarrow>
          if t \<noteq> JStr ''admin''
          then Inr (send 401 ''Unauthorized. Only admin users can view donors.'')
          else
            (case findByPk (param_id req) of
               Inl error \<Rightarrow> Inr (internal_error error)
             | Inr donor \<Rightarrow>
                 if \<not> truthy donor then Inr (send 404 ''Donor not found.'')
                 else Inr (json 200 donor)))"

text \<open>\<open>exports.createDonor\<close>; \<open>create\<close> is \<open>Donor.create\<close>.\<close>

definition createDonor ::
  "(jsval \<Rightarrow> 'db \<Rightarrow> js_error + jsval \<times> 'db) \<Rightarrow> request \<Rightarrow> 'db \<Rightarrow> js_error + response \<times> 'db" where
  "createDonor create req db =
     (case get_prop (user req) ''type'' of
        Inl thrown \<Rightarrow> Inl thrown
      | Inr t \<Rightarrow>
          if t \<noteq> JStr ''admin''
          then Inr (send 401 ''Unauthorized. Only admin users can create new donors.'', db)
          else
            (case create (req_body req) db of
               Inl error \<Rightarrow> Inr (internal_error error, db)
             | Inr (newDonor, db') \<Rightarrow> Inr (json 201 newDonor, db')))"

text \<open>\<open>exports.updateDonor\<close>; \<open>update\<close> is \<open>donor.update(donorData)\<close>.\<close>

definition updateDonor ::
  "(jsval \<Rightarrow> js_error + jsval) \<Rightarrow> (jsval \<Rightarrow> jsval \<Rightarrow> 'db \<Rightarrow> js_error + jsval \<times> 'db) \<Rightarrow>
   request \<Rightarrow> 'db \<Rightarrow> js_error + response \<times> 'db" where
  "updateDonor findByPk update req db =
     (case get_prop (user req) ''type'' of
        Inl thrown \<Rightarrow> Inl thrown
      | Inr t \<Rightarrow>
          if t \<noteq> JStr ''admin''
          then Inr (send 401 ''Unauthorized. Only admin users can update donors.'', db)
          else
            (case findByPk (param_id req) of
               Inl error \<Rightarrow> Inr (internal_error error, db)
             | Inr donor \<Rightarrow>
                 if \<not> truthy donor then Inr (send 404 ''Donor not found.'', db)
                 else
                   (case update donor (req_body req) db of
                      Inl error \<Rightarrow> Inr (internal_error error, db)
                    | Inr (updated, db') \<Rightarrow> Inr (json 200 updated, db'))))"

text \<open>\<open>exports.deleteDonor\<close>; \<open>destroy\<close> is \<open>donor.destroy()\<close>.\<close>

definition deleteDonor ::
  "(jsval \<Rightarrow> js_error + jsval) \<Rightarrow> (jsval \<Rightarrow> 'db \<Rightarrow> js_error + 'db) \<Rightarrow>
   request \<Rightarrow> 'db \<Rightarrow> js_error + response \<times> 'db" where
  "deleteDonor findByPk destroy req db =
     (case get_prop (user req) ''type'' of
        Inl thrown \<Rightarrow> Inl thrown
      | Inr t \<Rightarrow>
          if t \<noteq> JStr ''admin''
          then Inr (send 401 ''Unauthorized. Only admin users can delete donors.'', db)
          else
            (case findByPk (param_id req) of
               Inl error \<Rightarrow> Inr (internal_error error, db)
             | Inr donor \<Rightarrow>
                 if \<not> truthy donor then Inr (send 404 ''Donor not found.'', db)
                 else
                   (case destroy donor db of
                      Inl error \<Rightarrow> Inr (internal_error error, db)
                    | Inr db' \<Rightarrow> Inr (send 200 ''Donor deleted successfully.'', db'))))"

section \<open>Event controller\<close>

text \<open>
  \<open>src/controllers/eventController.js\<close>: the same five handlers over \<open>Event\<close>, without
  validator chains. On the routes of \<open>src/unnamed/part_003\<close> they run after
  \<open>adminMiddleware\<close> and repeat its test.

  \<open>exports.getAllEvents\<close>; \<open>parsed_query\<close> stands for lines 108-139 (as in
  \<open>getAllDonors\<close>), \<open>findAndCountAll\<close> for the query of lines 142-149.
\<close>

definition getAllEvents ::
  "(js_error + nat \<times> nat) \<Rightarrow> (js_error + jsval list \<times> nat) \<Rightarrow> request \<Rightarrow> js_error + response" where
  "getAllEvents parsed_query findAndCountAll req =
     (case get_prop (user req) ''type'' of
        Inl thrown \<Rightarrow> Inl thrown
      | Inr t \<Rightarrow>
          if t \<noteq> JStr ''admin''
          then Inr (send 401 ''Unauthorized. Only admin users can view events.'')
          else
            (case parsed_query of
               Inl thrown \<Rightarrow> Inl thrown
             | Inr (page, limit) \<Rightarrow>
                 (case findAndCountAll of
                    Inl error \<Rightarrow> Inr (internal_error error)
                  | Inr (events, count) \<Rightarrow>
                      Inr (json 200 (JObj
                        [(''data'', JArr events),
                         (''meta'', JObj [(''totalItems'', JNum (int count)),
                                          (''totalPages'', JNum (int ((count + limit - 1) div limit))),
                                          (''currentPage'', JNum (int page))])])))))"

text \<open>\<open>exports.getEventById\<close>; \<open>findByPk\<close> is \<open>Event.findByPk\<close>.\<close>

definition getEventById ::
  "(jsval \<Rightarrow> js_error + jsval) \<Rightarrow> request \<Rightarrow> js_error + response" where
  "getEventById findByPk req =
     (case get_prop (user req) ''type'' of
        Inl thrown \<Rightarrow> Inl thrown
      | Inr t \<Rightarrow>
          if t \<noteq> JStr ''admin''
          then Inr (send 401 ''Unauthorized. Only admin users can view events.'')
          else
            (case findByPk (param_id req) of
               Inl error \<Rightarrow> Inr (internal_error error)
             | Inr event \<Rightarrow>
                 if \<not> truthy event then Inr (send 404 ''Event not found.'')
                 else Inr (json 200 event)))"

text \<open>\<open>exports.createEvent\<close>; \<open>create\<close> is \<open>Event.create\<close>.\<close>

definition createEvent ::
  "(jsval \<Rightarrow> 'db \<Rightarrow> js_error + jsval \<times> 'db) \<Rightarrow> request \<Rightarrow> 'db \<Rightarrow> js_error + response \<times> 'db" where
  "createEvent create req db =
     (case get_prop (user req) ''type'' of
        Inl thrown \<Rightarrow> Inl thrown
      | Inr t \<Rightarrow>
          if t \<noteq> JStr ''admin''
          then Inr (send 401 ''Unauthorized. Only admin users can create new events.'', db)
          else
            (case create (req_body req) db of
               Inl error \<Rightarrow> Inr (internal_error error, db)
             | Inr (newEvent, db') \<Rightarrow> Inr (json 201 newEvent, db')))"

text \<open>\<open>exports.updateEvent\<close>; \<open>update\<close> is \<open>event.update(eventData)\<close>.\<close>

definition updateEvent ::
  "(jsval \<Rightarrow> js_error + jsval) \<Rightarrow> (jsval \<Rightarrow> jsval \<Rightarrow> 'db \<Rightarrow> js_error + jsval \<times> 'db) \<Rightarrow>
   request \<Rightarrow> 'db \<Rightarrow> js_error + response \<times> 'db" where
  "updateEvent findByPk update req db =
     (case get_prop (user req) ''type'' of
        Inl thrown \<Rightarrow> Inl thrown
      | Inr t \<Rightarrow>
          if t \<noteq> JStr ''admin''
          then Inr (send 401 ''Unauthorized. Only admin users can update events.'', db)
          else
            (case findByPk (param_id req) of
               Inl error \<Rightarrow> Inr (internal_error error, db)
             | Inr event \<Rightarrow>
                 if \<not> truthy event then Inr (send 404 ''Event not found.'', db)
                 else
                   (case update event (req_body req) db of
                      Inl error \<Rightarrow> Inr (internal_error error, db)
                    | Inr (updated, db') \<Rightarrow> Inr (json 200 updated, db'))))"

text \<open>\<open>exports.deleteEvent\<close>; \<open>destroy\<close> is \<open>event.destroy()\<close>.\<close>

definition deleteEvent ::
  "(jsval \<Rightarrow> js_error + jsval) \<Rightarrow> (jsval \<Rightarrow> 'db \<Rightarrow> js_error + 'db) \<Rightarrow>
   request \<Rightarrow> 'db \<Rightarrow> js_error + response \<times> 'db" where
  "deleteEvent findByPk destroy req db =
     (case get_prop (user req) ''type'' of
        Inl thrown \<Rightarrow> Inl thrown
      | Inr t \<Rightarrow>
          if t \<noteq> JStr ''admin''
          then Inr (send 401 ''Unauthorized. Only admin users can delete events.'', db)
          else
            (case findByPk (param_id req) of
               Inl error \<Rightarrow> Inr (internal_error error, db)
             | Inr event \<Rightarrow>
                 if \<not> truthy event then Inr (send 404 ''Event not found.'', db)
                 else
                   (case destroy event db of
                      Inl error \<Rightarrow> Inr (internal_error error, db)
                    | Inr db' \<Rightarrow> Inr (\<lparr>status = 204, body = JUndefined\<rparr>, db'))))"

section \<open>Project controller\<close>

text \<open>
  \<open>src/controllers/projectController.js\<close>. Every handler starts with the result of its
  validator chain and then tests \<open>currentUser.type !== "admin"\<close>, before its \<open>try\<close>
  block.

  \<open>exports.getAllProjects\<close>; \<open>page\<close> and \<open>limit\<close> are the values computed by lines
  124-127 (both at least 1), \<open>findAndCountAll\<close> is the query of lines 147-152.
\<close>

definition getAllProjects ::
  "nat \<Rightarrow> nat \<Rightarrow> (js_error + jsval list \<times> nat) \<Rightarrow> request \<Rightarrow> js_error + response" where
  "getAllProjects page limit findAndCountAll req =
     (if validation_errors req \<noteq> [] then Inr (validation_failed req)
      else
        case get_prop (user req) ''type'' of
          Inl thrown \<Rightarrow> Inl thrown
        | Inr t \<Rightarrow>
            if t \<noteq> JStr ''admin''
            then Inr (send 401 ''Unauthorized. Only admin users can view projects.'')
            else
              (case findAndCountAll of
                 Inl error \<Rightarrow> Inr (internal_error error)
               | Inr (projects, count) \<Rightarrow>
                   Inr (json 200 (JObj
                     [(''data'', JArr projects),
                      (''meta'', JObj [(''totalItems'', JNum (int count)),
                                       (''totalPages'', JNum (int ((count + limit - 1) div limit))),
                                       (''currentPage'', JNum (int page))])]))))"

text \<open>\<open>exports.getProjectById\<close>; \<open>findByPk\<close> is \<open>Project.findByPk\<close>.\<close>

definition getProjectById ::
  "(jsval \<Rightarrow> js_error + jsval) \<Rightarrow> request \<Rightarrow> js_error + response" where
  "getProjectById findByPk req =
     (if validation_errors req \<noteq> [] then Inr (validation_failed req)
      else
        case get_prop (user req) ''type'' of
          Inl thrown \<Rightarrow> Inl thrown
        | Inr t \<Rightarrow>
            if t \<noteq> JStr ''admin''
            then Inr (send 401 ''Unauthorized. Only admin users can view projects.'')
            else
              (case findByPk (param_id req) of
                 Inl error \<Rightarrow> Inr (internal_error error)
               | Inr project \<Rightarrow>
                   if \<not> truthy project then Inr (send 404 ''Project not found.'')
                   else Inr (json 200 project)))"

text \<open>
  \<open>exports.createProject\<close>; \<open>create\<close> is \<open>Project.create\<close>. The body is destructured
  after the role test and before the \<open>try\<close> block.
\<close>

definition createProject ::
  "(jsval \<Rightarrow> 'db \<Rightarrow> js_error + jsval \<times> 'db) \<Rightarrow> request \<Rightarrow> 'db \<Rightarrow> js_error + response \<times> 'db" where
  "createProject create req db =
     (if validation_errors req \<noteq> [] then Inr (validation_failed req, db)
      else
        case get_prop (user req) ''type'' of
          Inl thrown \<Rightarrow> Inl thrown
        | Inr t \<Rightarrow>
            if t \<noteq> JStr ''admin''
            then Inr (send 401 ''Unauthorized. Only admin users can create projects.'', db)
            else
              case get_prop (req_body req) ''name'' of Inl thrown \<Rightarrow> Inl thrown
              | Inr name_value \<Rightarrow>
              case get_prop (req_body req) ''description'' of Inl thrown \<Rightarrow> Inl thrown
              | Inr description \<Rightarrow>
              case get_prop (req_body req) ''startDate'' of Inl thrown \<Rightarrow> Inl thrown
              | Inr startDate \<Rightarrow>
              case get_prop (req_body req) ''endDate'' of Inl thrown \<Rightarrow> Inl thrown
              | Inr endDate \<Rightarrow>
              case get_prop (req_body req) ''createdBy'' of Inl thrown \<Rightarrow> Inl thrown
              | Inr createdBy \<Rightarrow>
                (case create (JObj [(''name'', name_value), (''description'', description),
                                    (''startDate'', startDate), (''endDate'', endDate),
                                    (''createdBy'', createdBy)]) db of
                   Inl error \<Rightarrow> Inr (internal_error error, db)
                 | Inr (newProject, db') \<Rightarrow> Inr (json 201 newProject, db')))"

text \<open>
  \<open>exports.updateProjectById\<close>: the four fields of the body are assigned to the loaded
  project unconditionally and \<open>save\<close> (\<open>project.save()\<close>) writes it back.
\<close>

definition updateProjectById ::
  "(jsval \<Rightarrow> js_error + jsval) \<Rightarrow> (jsval \<Rightarrow> 'db \<Rightarrow> js_error + 'db) \<Rightarrow>
   request \<Rightarrow> 'db \<Rightarrow> js_error + response \<times> 'db" where
  "updateProjectById findByPk save req db =
     (if validation_errors req \<noteq> [] then Inr (validation_failed req, db)
      else
        case get_prop (user req) ''type'' of
          Inl thrown \<Rightarrow> Inl thrown
        | Inr t \<Rightarrow>
            if t \<noteq> JStr ''admin''
            then Inr (send 401 ''Unauthorized. Only admin users can update projects.'', db)
            else
              case get_prop (req_body req) ''name'' of Inl thrown \<Rightarrow> Inl thrown
              | Inr name_value \<Rightarrow>
              case get_prop (req_body req) ''description'' of Inl thrown \<Rightarrow> Inl thrown
              | Inr description \<Rightarrow>
              case get_prop (req_body req) ''startDate'' of Inl thrown \<Rightarrow> Inl thrown
              | Inr startDate \<Rightarrow>
              case get_prop (req_body req) ''endDate'' of Inl thrown \<Rightarrow> Inl thrown
              | Inr endDate \<Rightarrow>
                (case findByPk (param_id req) of
                   Inl error \<Rightarrow> Inr (internal_error error, db)
                 | Inr project \<Rightarrow>
                     if \<not> truthy project then Inr (send 404 ''Project not found.'', db)
                     else
                       (let updated = set_prop ''endDate'' endDate
                                        (set_prop ''startDate'' startDate
                                          (set_prop ''description'' description
                                            (set_prop ''name'' name_value project)))
                        in case save updated db of
                             Inl error \<Rightarrow> Inr (internal_error error, db)
                           | Inr db' \<Rightarrow> Inr (json 200 updated, db'))))"

text \<open>\<open>exports.deleteProjectById\<close>; \<open>destroy\<close> is \<open>project.destroy()\<close>.\<close>

definition deleteProjectById ::
  "(jsval \<Rightarrow> js_error + jsval) \<Rightarrow> (jsval \<Rightarrow> 'db \<Rightarrow> js_error + 'db) \<Rightarrow>
   request \<Rightarrow> 'db \<Rightarrow> js_error + response \<times> 'db" where
  "deleteProjectById findByPk destroy req db =
     (if validation_errors req \<noteq> [] then Inr (validation_failed req, db)
      else
        case get_prop (user req) ''type'' of
          Inl thrown \<Rightarrow> Inl thrown
        | Inr t \<Rightarrow>
            if t \<noteq> JStr ''admin''
            then Inr (send 401 ''Unauthorized. Only admin users can delete projects.'', db)
            else
              (case findByPk (param_id req) of
                 Inl error \<Rightarrow> Inr (internal_error error, db)
               | Inr project \<Rightarrow>
                   if \<not> truthy project then Inr (send 404 ''Project not found.'', db)
                   else
                     (case destroy project db of
                        Inl error \<Rightarrow> Inr (internal_error error, db)
                      | Inr db' \<Rightarrow> Inr (\<lparr>status = 204, body = JUndefined\<rparr>, db'))))"

section \<open>Employee controller\<close>

text \<open>
  \<open>src/controllers/employeeController.js\<close>. Every handler starts with the result of its
  validator chain and then tests \<open>currentUser.type !== "admin"\<close>, before its \<open>try\<close>
  block. (\<open>src/routes/employeeRoutes.js\<close> mounts the handlers without the
  authentication middleware.)

  \<open>exports.getAllEmployees\<close>; \<open>page\<close> and \<open>limit\<close> are the values computed by lines
  136-139, \<open>findAndCountAll\<close> is the query of lines 156-163.
\<close>

definition getAllEmployees ::
  "nat \<Rightarrow> nat \<Rightarrow> (js_error + jsval list \<times> nat) \<Rightarrow> request \<Rightarrow> js_error + response" where
  "getAllEmployees page limit findAndCountAll req =
     (if validation_errors req \<noteq> [] then Inr (validation_failed req)
      else
        case get_prop (user req) ''type'' of
          Inl thrown \<Rightarrow> Inl thrown
        | Inr t \<Rightarrow>
            if t \<noteq> JStr ''admin''
            then Inr (send 401 ''Unauthorized. Only admin users can view employees.'')
            else
              (case findAndCountAll of
                 Inl error \<Rightarrow> Inr (internal_error error)
               | Inr (employees, count) \<Rightarrow>
                   Inr (json 200 (JObj
                     [(''data'', JArr employees),
                      (''meta'', JObj [(''totalItems'', JNum (int count)),
                                       (''totalPages'', JNum (int ((count + limit - 1) div limit))),
                                       (''currentPage'', JNum (int page))])]))))"

text \<open>\<open>exports.getEmployeeById\<close>; \<open>findByPk\<close> is \<open>Employee.findByPk\<close>.\<close>

definition getEmployeeById ::
  "(jsval \<Rightarrow> js_error + jsval) \<Rightarrow> request \<Rightarrow> js_error + response" where
  "getEmployeeById findByPk req =
     (if validation_errors req \<noteq> [] then Inr (validation_failed req)
      else
        case get_prop (user req) ''type'' of
          Inl thrown \<Rightarrow> Inl thrown
        | Inr t \<Rightarrow>
            if t \<noteq> JStr ''admin''
            then Inr (send 401 ''Unauthorized. Only admin users can view employees.'')
            else
              (case findByPk (param_id req) of
                 Inl error \<Rightarrow> Inr (internal_error error)
               | Inr employee \<Rightarrow>
                   if \<not> truthy employee then Inr (send 404 ''Employee not found.'')
                   else Inr (json 200 employee)))"

text \<open>\<open>exports.createEmployee\<close>; \<open>create\<close> is \<open>Employee.create\<close>.\<close>

definition createEmployee ::
  "(jsval \<Rightarrow> 'db \<Rightarrow> js_error + jsval \<times> 'db) \<Rightarrow> request \<Rightarrow> 'db \<Rightarrow> js_error + response \<times> 'db" where
  "createEmployee create req db =
     (if validation_errors req \<noteq> [] then Inr (validation_failed req, db)
      else
        case get_prop (user req) ''type'' of
          Inl thrown \<Rightarrow> Inl thrown
        | Inr t \<Rightarrow>
            if t \<noteq> JStr ''admin''
            then Inr (send 401 ''Unauthorized. Only admin users can create employees.'', db)
            else
              (case create (req_body req) db of
                 Inl error \<Rightarrow> Inr (internal_error error, db)
               | Inr (newEmployee, db') \<Rightarrow> Inr (json 201 newEmployee, db')))"

text \<open>
  \<open>exports.updateEmployee\<close>. \<open>update_where values id\<close> is
  \<open>Employee.update(employeeData, { where: { id }, returning: true })\<close>: it returns the
  number of rows it changed and the store after the write. The updated row is then read
  back with \<open>Employee.findByPk(id)\<close> (\<open>findByPk\<close>, on the store after the write) and sent,
  whatever the lookup returns.
\<close>

definition updateEmployee ::
  "(jsval \<Rightarrow> jsval \<Rightarrow> 'db \<Rightarrow> js_error + nat \<times> 'db) \<Rightarrow> ('db \<Rightarrow> jsval \<Rightarrow> js_error + jsval) \<Rightarrow>
   request \<Rightarrow> 'db \<Rightarrow> js_error + response \<times> 'db" where
  "updateEmployee update_where findByPk req db =
     (if validation_errors req \<noteq> [] then Inr (validation_failed req, db)
      else
        case get_prop (user req) ''type'' of
          Inl thrown \<Rightarrow> Inl thrown
        | Inr t \<Rightarrow>
            if t \<noteq> JStr ''admin''
            then Inr (send 401 ''Unauthorized. Only admin users can update employees.'', db)
            else
              (case update_where (req_body req) (param_id req) db of
                 Inl error \<Rightarrow> Inr (internal_error error, db)
               | Inr (updated, db') \<Rightarrow>
                   if updated = 0 then Inr (send 404 ''Employee not found.'', db')
                   else
                     (case findByPk db' (param_id req) of
                        Inl error \<Rightarrow> Inr (internal_error error, db')
                      | Inr updatedEmployee \<Rightarrow> Inr (json 200 updatedEmployee, db'))))"

text \<open>
  \<open>exports.deleteEmployee\<close>. \<open>destroy_where id\<close> is \<open>Employee.destroy({ where: { id } })\<close>:
  it returns the number of rows it deleted and the store after the delete.
\<close>

definition deleteEmployee ::
  "(jsval \<Rightarrow> 'db \<Rightarrow> js_error + nat \<times> 'db) \<Rightarrow> request \<Rightarrow> 'db \<Rightarrow> js_error + response \<times> 'db" where
  "deleteEmployee destroy_where req db =
     (if validation_errors req \<noteq> [] then Inr (validation_failed req, db)
      else
        case get_prop (user req) ''type'' of
          Inl thrown \<Rightarrow> Inl thrown
        | Inr t \<Rightarrow>
            if t \<noteq> JStr ''admin''
            then Inr (send 401 ''Unauthorized. Only admin users can delete employees.'', db)
            else
              (case destroy_where (param_id req) db of
                 Inl error \<Rightarrow> Inr (internal_error error, db)
               | Inr (deleted, db') \<Rightarrow>
                   if deleted = 0 then Inr (send 404 ''Employee not found.'', db')
                   else Inr (send 200 ''Employee deleted successfully.'', db')))"

section \<open>User controller\<close>

text \<open>
  The user controller (\<open>src/unnamed/part_010\<close>, lines 1-649). Every handler starts with
  the result of its validator chain and then tests \<open>currentUser.type !== "admin"\<close>,
  before its \<open>try\<close> block. The handlers that send a user delete
  \<open>dataValues.password\<close> first, \<open>deleteUser\<close> sends none.

  \<open>exports.getAllUsers\<close>; \<open>page\<close> and \<open>limit\<close> are the values computed by lines 165-168,
  \<open>findAndCountAll\<close> is the query of lines 207-214.
\<close>

definition getAllUsers ::
  "nat \<Rightarrow> nat \<Rightarrow> (js_error + jsval list \<times> nat) \<Rightarrow> request \<Rightarrow> js_error + response" where
  "getAllUsers page limit findAndCountAll req =
     (if validation_errors req \<noteq> [] then Inr (validation_failed req)
      else
        case get_prop (user req) ''type'' of
          Inl thrown \<Rightarrow> Inl thrown
        | Inr t \<Rightarrow>
            if t \<noteq> JStr ''admin''
            then Inr (send 401 ''Unauthorized. Only admin users can view users.'')
            else
              (case findAndCountAll of
                 Inl error \<Rightarrow> Inr (internal_error error)
               | Inr (users, count) \<Rightarrow>
                   Inr (json 200 (JObj
                     [(''data'', JArr (map (delete_prop ''password'') users)),
                      (''meta'', JObj [(''totalItems'', JNum (int count)),
                                       (''totalPages'', JNum (int ((count + limit - 1) div limit))),
                                       (''currentPage'', JNum (int page))])]))))"

text \<open>\<open>exports.getUserById\<close>; \<open>findByPk\<close> is \<open>User.findByPk\<close>.\<close>

definition getUserById ::
  "(jsval \<Rightarrow> js_error + jsval) \<Rightarrow> request \<Rightarrow> js_error + response" where
  "getUserById findByPk req =
     (if validation_errors req \<noteq> [] then Inr (validation_failed req)
      else
        case get_prop (user req) ''type'' of
          Inl thrown \<Rightarrow> Inl thrown
        | Inr t \<Rightarrow>
            if t \<noteq> JStr ''admin''
            then Inr (send 401 ''Unauthorized. Only admin users can view users.'')
            else
              (case findByPk (param_id req) of
                 Inl error \<Rightarrow> Inr (internal_error error)
               | Inr usr \<Rightarrow>
                   if \<not> truthy usr then Inr (send 404 ''User not found.'')
                   else Inr (json 200 (delete_prop ''password'' usr))))"

text \<open>\<open>exports.createUser\<close>; \<open>create\<close> is \<open>User.create\<close>.\<close>

definition createUser ::
  "(jsval \<Rightarrow> 'db \<Rightarrow> js_error + jsval \<times> 'db) \<Rightarrow> request \<Rightarrow> 'db \<Rightarrow> js_error + response \<times> 'db" where
  "createUser create req db =
     (if validation_errors req \<noteq> [] then Inr (validation_failed req, db)
      else
        case get_prop (user req) ''type'' of
          Inl thrown \<Rightarrow> Inl thrown
        | Inr t \<Rightarrow>
            if t \<noteq> JStr ''admin''
            then Inr (send 401 ''Unauthorized. Only admin users can create new users.'', db)
            else
              (case create (req_body req) db of
                 Inl error \<Rightarrow> Inr (internal_error error, db)
               | Inr (newUser, db') \<Rightarrow> Inr (json 201 (delete_prop ''password'' newUser), db')))"

text \<open>\<open>exports.updateUser\<close>; \<open>update\<close> is \<open>user.update(userData)\<close>.\<close>

definition updateUser ::
  "(jsval \<Rightarrow> js_error + jsval) \<Rightarrow> (jsval \<Rightarrow> jsval \<Rightarrow> 'db \<Rightarrow> js_error + jsval \<times> 'db) \<Rightarrow>
   request \<Rightarrow> 'db \<Rightarrow> js_error + response \<times> 'db" where
  "updateUser findByPk update req db =
     (if validation_errors req \<noteq> [] then Inr (validation_failed req, db)
      else
        case get_prop (user req) ''type'' of
          Inl thrown \<Rightarrow> Inl thrown
        | Inr t \<Rightarrow>
            if t \<noteq> JStr ''admin''
            then Inr (send 401 ''Unauthorized. Only admin users can update users.'', db)
            else
              (case findByPk (param_id req) of
                 Inl error \<Rightarrow> Inr (internal_error error, db)
               | Inr usr \<Rightarrow>
                   if \<not> truthy usr then Inr (send 404 ''User not found.'', db)
                   else
                     (case update usr (req_body req) db of
                        Inl error \<Rightarrow> Inr (internal_error error, db)
                      | Inr (updated, db') \<Rightarrow>
                          Inr (json 200 (delete_prop ''password'' updated), db'))))"

text \<open>\<open>exports.deleteUser\<close>; \<open>destroy\<close> is \<open>user.destroy()\<close>.\<close>

definition deleteUser ::
  "(jsval \<Rightarrow> js_error + jsval) \<Rightarrow> (jsval \<Rightarrow> 'db \<Rightarrow> js_error + 'db) \<Rightarrow>
   request \<Rightarrow> 'db \<Rightarrow> js_error + response \<times> 'db" where
  "deleteUser findByPk destroy req db =
     (if validation_errors req \<noteq> [] then Inr (validation_failed req, db)
      else
        case get_prop (user req) ''type'' of
          Inl thrown \<Rightarrow> Inl thrown
        | Inr t \<Rightarrow>
            if t \<noteq> JStr ''admin''
            then Inr (send 401 ''Unauthorized. Only admin users can delete users.'', db)
            else
              (case findByPk (param_id req) of
                 Inl error \<Rightarrow> Inr (internal_error error, db)
               | Inr usr \<Rightarrow>
                   if \<not> truthy usr then Inr (send 404 ''User not found.'', db)
                   else
                     (case destroy usr db of
                        Inl error \<Rightarrow> Inr (internal_error error, db)
                      | Inr db' \<Rightarrow> Inr (\<lparr>status = 204, body = JUndefined\<rparr>, db'))))"

section \<open>Admin controller\<close>

text \<open>
  \<open>src/controllers/adminController.js\<close>. \<open>getAllAdmins\<close> and \<open>getAdminById\<close> test no
  role and refuse nobody; the three handlers below test \<open>currentUser.type !== 'admin'\<close>
  before their \<open>try\<close> block, \<open>createAdmin\<close> and \<open>updateAdmin\<close> after their validator
  chain.

  \<open>exports.createAdmin\<close>; \<open>create\<close> is \<open>User.create\<close>.
\<close>

definition createAdmin ::
  "(jsval \<Rightarrow> 'db \<Rightarrow> js_error + jsval \<times> 'db) \<Rightarrow> request \<Rightarrow> 'db \<Rightarrow> js_error + response \<times> 'db" where
  "createAdmin create req db =
     (if validation_errors req \<noteq> [] then Inr (validation_failed req, db)
      else
        case get_prop (user req) ''type'' of
          Inl thrown \<Rightarrow> Inl thrown
        | Inr t \<Rightarrow>
            if t \<noteq> JStr ''admin''
            then Inr (send 401 ''Unauthorized. Only admin users can create other admins.'', db)
            else
              (case create (req_body req) db of
                 Inl error \<Rightarrow> Inr (internal_error error, db)
               | Inr (newAdmin, db') \<Rightarrow> Inr (json 201 newAdmin, db')))"

text \<open>\<open>exports.updateAdmin\<close>; \<open>update\<close> is \<open>admin.update(req.body)\<close>.\<close>

definition updateAdmin ::
  "(jsval \<Rightarrow> js_error + jsval) \<Rightarrow> (jsval \<Rightarrow> jsval \<Rightarrow> 'db \<Rightarrow> js_error + jsval \<times> 'db) \<Rightarrow>
   request \<Rightarrow> 'db \<Rightarrow> js_error + response \<times> 'db" where
  "updateAdmin findByPk update req db =
     (if validation_errors req \<noteq> [] then Inr (validation_failed req, db)
      else
        case get_prop (user req) ''type'' of
          Inl thrown \<Rightarrow> Inl thrown
        | Inr t \<Rightarrow>
            if t \<noteq> JStr ''admin''
            then Inr (send 401 ''Unauthorized. Only admin users can update admin details.'', db)
            else
              (case findByPk (param_id req) of
                 Inl error \<Rightarrow> Inr (internal_error error, db)
               | Inr admin \<Rightarrow>
                   if \<not> truthy admin then Inr (send 404 ''Admin not found.'', db)
                   else
                     (case update admin (req_body req) db of
                        Inl error \<Rightarrow> Inr (internal_error error, db)
                      | Inr (updatedAdmin, db') \<Rightarrow> Inr (json 200 updatedAdmin, db'))))"

text \<open>\<open>exports.deleteAdmin\<close>, which has no validator chain; \<open>destroy\<close> is \<open>admin.destroy()\<close>.\<close>

definition deleteAdmin ::
  "(jsval \<Rightarrow> js_error + jsval) \<Rightarrow> (jsval \<Rightarrow> 'db \<Rightarrow> js_error + 'db) \<Rightarrow>
   request \<Rightarrow> 'db \<Rightarrow> js_error + response \<times> 'db" where
  "deleteAdmin findByPk destroy req db =
     (case get_prop (user req) ''type'' of
        Inl thrown \<Rightarrow> Inl thrown
      | Inr t \<Rightarrow>
          if t \<noteq> JStr ''admin''
          then Inr (send 401 ''Unauthorized. Only admin users can delete admin accounts.'', db)
          else
            (case findByPk (param_id req) of
               Inl error \<Rightarrow> Inr (internal_error error, db)
             | Inr admin \<Rightarrow>
                 if \<not> truthy admin then Inr (send 404 ''Admin not found.'', db)
                 else
                   (case destroy admin db of
                      Inl error \<Rightarrow> Inr (internal_error error, db)
                    | Inr db' \<Rightarrow> Inr (\<lparr>status = 204, body = JUndefined\<rparr>, db'))))"

section \<open>Volunteer controller\<close>

text \<open>
  The volunteer controller (\<open>src/unnamed/part_010\<close>, lines 649-1164). Its handlers have
  no validator chain. Each starts, before its \<open>try\<close> block, with the test

  \<open>!["admin", "coordinator", "employee"].includes(currentUser.type) ||
   (currentUser.type === "coordinator" && !currentUser.isAssignedToVolunteerTask)\<close>

  and answers 401 when it holds: \<open>lacks_privileges\<close>. (\<open>src/unnamed/part_001\<close> mounts the
  handlers without the authentication middleware.)
\<close>

definition lacks_privileges :: "jsval \<Rightarrow> js_error + bool" where
  "lacks_privileges currentUser =
     (case get_prop currentUser ''type'' of
        Inl err \<Rightarrow> Inl err
      | Inr t \<Rightarrow>
          if t \<notin> set [JStr ''admin'', JStr ''coordinator'', JStr ''employee''] then Inr True
          else if t = JStr ''coordinator'' then
            (case get_prop currentUser ''isAssignedToVolunteerTask'' of
               Inl err \<Rightarrow> Inl err
             | Inr assigned \<Rightarrow> Inr (\<not> truthy assigned))
          else Inr False)"

text \<open>
  The test the by-id handlers run on the loaded volunteer:
  \<open>currentUser.type === "coordinator" && volunteer.task_id !== currentUser.task_id\<close>.
\<close>

definition other_task :: "jsval \<Rightarrow> jsval \<Rightarrow> js_error + bool" where
  "other_task currentUser volunteer =
     (case get_prop currentUser ''type'' of
        Inl err \<Rightarrow> Inl err
      | Inr t \<Rightarrow>
          if t = JStr ''coordinator'' then
            (case get_prop volunteer ''task_id'' of
               Inl err \<Rightarrow> Inl err
             | Inr volunteer_task \<Rightarrow>
                 (case get_prop currentUser ''task_id'' of
                    Inl err \<Rightarrow> Inl err
                  | Inr user_task \<Rightarrow> Inr (volunteer_task \<noteq> user_task)))
          else Inr False)"

text \<open>
  The file requires \<open>Op\<close>, \<open>Volunteer\<close> and \<open>User\<close> only (lines 649-651) and binds no
  \<open>Task\<close>: evaluating \<open>Task\<close> throws this \<open>ReferenceError\<close>. Every use of \<open>Task\<close> is
  inside a \<open>try\<close> block, so it is answered with 500.
\<close>

definition Task_is_not_defined :: js_error where
  "Task_is_not_defined = Error ''ReferenceError'' ''Task is not defined''"

text \<open>
  \<open>exports.getAllVolunteers\<close>; \<open>parsed_query\<close> stands for lines 754-790 (as in
  \<open>getAllDonors\<close>). The argument of \<open>Volunteer.findAndCountAll\<close> names \<open>Task\<close> (line
  805), so the query is never sent.
\<close>

definition getAllVolunteers :: "(js_error + nat \<times> nat) \<Rightarrow> request \<Rightarrow> js_error + response" where
  "getAllVolunteers parsed_query req =
     (case lacks_privileges (user req) of
        Inl thrown \<Rightarrow> Inl thrown
      | Inr refused \<Rightarrow>
          if refused then Inr (send 401 ''Unauthorized. User lacks the required privileges.'')
          else
            (case parsed_query of
               Inl thrown \<Rightarrow> Inl thrown
             | Inr (page, limit) \<Rightarrow> Inr (internal_error Task_is_not_defined)))"

text \<open>
  \<open>exports.getVolunteerById\<close>. The argument of \<open>Volunteer.findByPk\<close> names \<open>Task\<close> (line
  885), so the lookup is never made and the test of line 896 is never reached.
\<close>

definition getVolunteerById :: "request \<Rightarrow> js_error + response" where
  "getVolunteerById req =
     (case lacks_privileges (user req) of
        Inl thrown \<Rightarrow> Inl thrown
      | Inr refused \<Rightarrow>
          if refused then Inr (send 401 ''Unauthorized. User lacks the required privileges.'')
          else Inr (internal_error Task_is_not_defined))"

text \<open>
  \<open>exports.createVolunteer\<close>; \<open>User_findByPk\<close> is \<open>User.findByPk\<close>. The body is
  destructured before the \<open>try\<close> block. \<open>Task.findByPk\<close> (line 967) throws the
  \<open>ReferenceError\<close>, so the tests of lines 969 and 974 and \<open>Volunteer.create\<close> are never
  reached.
\<close>

definition createVolunteer ::
  "(jsval \<Rightarrow> js_error + jsval) \<Rightarrow> request \<Rightarrow> js_error + response" where
  "createVolunteer User_findByPk req =
     (case lacks_privileges (user req) of
        Inl thrown \<Rightarrow> Inl thrown
      | Inr refused \<Rightarrow>
          if refused then Inr (send 401 ''Unauthorized. User lacks the required privileges.'')
          else
            case get_prop (req_body req) ''user_id'' of Inl thrown \<Rightarrow> Inl thrown
            | Inr user_id \<Rightarrow>
            case get_prop (req_body req) ''task_id'' of Inl thrown \<Rightarrow> Inl thrown
            | Inr task_id \<Rightarrow>
              if \<not> truthy user_id \<or> \<not> truthy task_id
              then Inr (send 400 ''Bad request. User ID and Task ID are required.'')
              else
                (case User_findByPk user_id of
                   Inl error \<Rightarrow> Inr (internal_error error)
                 | Inr usr \<Rightarrow> Inr (internal_error Task_is_not_defined)))"

text \<open>
  \<open>exports.deleteVolunteerById\<close>; \<open>findByPk\<close> is \<open>Volunteer.findByPk\<close>, \<open>destroy\<close> is
  \<open>volunteer.destroy()\<close>. A successful delete answers 204 with no body.
\<close>

definition deleteVolunteerById ::
  "(jsval \<Rightarrow> js_error + jsval) \<Rightarrow> (jsval \<Rightarrow> 'db \<Rightarrow> js_error + 'db) \<Rightarrow>
   request \<Rightarrow> 'db \<Rightarrow> js_error + response \<times> 'db" where
  "deleteVolunteerById findByPk destroy req db =
     (case lacks_privileges (user req) of
        Inl thrown \<Rightarrow> Inl thrown
      | Inr refused \<Rightarrow>
          if refused
          then Inr (send 401 ''Unauthorized. User lacks the required privileges.'', db)
          else
            (case findByPk (param_id req) of
               Inl error \<Rightarrow> Inr (internal_error error, db)
             | Inr volunteer \<Rightarrow>
                 if \<not> truthy volunteer then Inr (send 404 ''Volunteer not found.'', db)
                 else
                   (case other_task (user req) volunteer of
                      Inl error \<Rightarrow> Inr (internal_error error, db)
                    | Inr outside \<Rightarrow>
                        if outside
                        then Inr (send 401 ''Unauthorized. User lacks the required privileges.'', db)
                        else
                          (case destroy volunteer db of
                             Inl error \<Rightarrow> Inr (internal_error error, db)
                           | Inr db' \<Rightarrow> Inr (\<lparr>status = 204, body = JUndefined\<rparr>, db')))))"

text \<open>
  \<open>exports.updateVolunteerById\<close>; \<open>save\<close> is \<open>volunteer.save()\<close>. The body is
  destructured before the \<open>try\<close> block. After the save, the argument of the second
  \<open>Volunteer.findByPk\<close> names \<open>Task\<close> (line 1150): the record is written and the
  request is answered with 500.
\<close>

definition updateVolunteerById ::
  "(jsval \<Rightarrow> js_error + jsval) \<Rightarrow> (jsval \<Rightarrow> 'db \<Rightarrow> js_error + 'db) \<Rightarrow>
   request \<Rightarrow> 'db \<Rightarrow> js_error + response \<times> 'db" where
  "updateVolunteerById findByPk save req db =
     (case lacks_privileges (user req) of
        Inl thrown \<Rightarrow> Inl thrown
      | Inr refused \<Rightarrow>
          if refused
          then Inr (send 401 ''Unauthorized. User lacks the required privileges.'', db)
          else
            case get_prop (req_body req) ''user_id'' of Inl thrown \<Rightarrow> Inl thrown
            | Inr user_id \<Rightarrow>
            case get_prop (req_body req) ''task_id'' of Inl thrown \<Rightarrow> Inl thrown
            | Inr task_id \<Rightarrow>
              if \<not> truthy user_id \<or> \<not> truthy task_id
              then Inr (send 400 ''Bad request. User ID and Task ID are required.'', db)
              else
                (case findByPk (param_id req) of
                   Inl error \<Rightarrow> Inr (internal_error error, db)
                 | Inr volunteer \<Rightarrow>
                     if \<not> truthy volunteer then Inr (send 404 ''Volunteer not found.'', db)
                     else
                       (case other_task (user req) volunteer of
                          Inl error \<Rightarrow> Inr (internal_error error, db)
                        | Inr outside \<Rightarrow>
                            if outside
                            then Inr (send 401 ''Unauthorized. User lacks the required privileges.'', db)
                            else
                              (case save (set_prop ''task_id'' task_id
                                           (set_prop ''user_id'' user_id volunteer)) db of
                                 Inl error \<Rightarrow> Inr (internal_error error, db)
                               | Inr db' \<Rightarrow> Inr (internal_error Task_is_not_defined, db')))))"

section \<open>Password hasher and token issuer\<close>

text \<open>
  Modelled from the spec: the Password Hasher of section 4.1. The repository calls
  \<open>bcrypt.hashSync(password, 8)\<close> and \<open>bcrypt.compareSync\<close> of the bcryptjs package,
  whose code is not under \<open>src/\<close>. The spec's words: \<open>hash\<close> has a deterministic format
  and embeds a fresh random salt, its cost factor is a constant, and it fails with a
  validation error on an empty or missing plaintext; \<open>verify\<close> recomputes with the salt
  embedded in the hash string and compares, and returns false on a malformed hash.

  The one-way function is the parameter \<open>kdf cost salt plaintext\<close>. The hash string is
  the bcrypt layout: the prefix, two decimal digits of cost, a separator, 22 characters
  of salt, then the digest.
\<close>

definition cost_digits :: "nat \<Rightarrow> string" where
  "cost_digits n = [char_of (48 + n div 10), char_of (48 + n mod 10)]"

definition digit_value :: "char \<Rightarrow> nat option" where
  "digit_value c =
     (let n = (of_char c :: nat) in if 48 \<le> n \<and> n \<le> 57 then Some (n - 48) else None)"

definition format_hash :: "nat \<Rightarrow> string \<Rightarrow> string \<Rightarrow> string" where
  "format_hash cost salt digest = ''$2a$'' @ cost_digits cost @ ''$'' @ salt @ digest"

definition parse_hash :: "string \<Rightarrow> (nat \<times> string \<times> string) option" where
  "parse_hash h =
     (if take 4 h = ''$2a$'' \<and> 29 \<le> length h \<and> h ! 6 = CHR ''$'' then
        (case (digit_value (h ! 4), digit_value (h ! 5)) of
           (Some a, Some b) \<Rightarrow> Some (10 * a + b, take 22 (drop 7 h), drop 29 h)
         | other \<Rightarrow> None)
      else None)"

definition bcrypt_hashSync ::
  "(nat \<Rightarrow> string \<Rightarrow> string \<Rightarrow> string) \<Rightarrow> string \<Rightarrow> jsval \<Rightarrow> nat \<Rightarrow> js_error + string" where
  "bcrypt_hashSync kdf salt password rounds =
     (case password of
        JStr p \<Rightarrow>
          if p = [] then Inl (Error ''ValidationError'' ''empty plaintext'')
          else Inr (format_hash rounds salt (kdf rounds salt p))
      | other \<Rightarrow> Inl (Error ''ValidationError'' ''missing plaintext''))"

definition bcrypt_compareSync ::
  "(nat \<Rightarrow> string \<Rightarrow> string \<Rightarrow> string) \<Rightarrow> jsval \<Rightarrow> jsval \<Rightarrow> js_error + bool" where
  "bcrypt_compareSync kdf password hash =
     (case password of
        JStr p \<Rightarrow>
          (case hash of
             JStr h \<Rightarrow>
               (case parse_hash h of
                  Some (cost, salt, digest) \<Rightarrow> Inr (kdf cost salt p = digest)
                | None \<Rightarrow> Inr False)
           | other \<Rightarrow> Inr False)
      | other \<Rightarrow> Inl (Error ''ValidationError'' ''missing plaintext''))"

text \<open>
  One call of \<open>hash\<close> as the repository makes it (cost 8), drawing its salt from a source
  of salts: \<open>gen n\<close> is the salt of the \<open>n\<close>-th draw, and the state counts the draws.
\<close>

definition hash_call ::
  "(nat \<Rightarrow> string \<Rightarrow> string \<Rightarrow> string) \<Rightarrow> (nat \<Rightarrow> string) \<Rightarrow> jsval \<Rightarrow> nat \<Rightarrow>
   (js_error + string) \<times> nat" where
  "hash_call kdf gen password n = (bcrypt_hashSync kdf (gen n) password 8, Suc n)"

text \<open>
  Modelled from the spec: the Token Issuer of section 4.2. The repository calls
  \<open>jwt.sign(payload, process.env.SECRET, { expiresIn })\<close> of the jsonwebtoken
  package, whose code is not under \<open>src/\<close>. The spec's words: the token carries the
  payload with \<open>issuedAt = now\<close> and \<open>expiresAt = now + TTL\<close>, is signed with the
  process-wide secret, has three segments, and issuing fails when the secret is unset.
  \<open>enc\<close> serialises a segment and \<open>mac\<close> signs the first two segments with the secret.
\<close>

definition jsonwebtoken_sign ::
  "(jsval \<Rightarrow> string) \<Rightarrow> (string \<Rightarrow> string \<Rightarrow> string) \<Rightarrow> string option \<Rightarrow> int \<Rightarrow>
   jsval \<Rightarrow> nat \<Rightarrow> js_error + string" where
  "jsonwebtoken_sign enc mac secret now payload expiresIn =
     (case secret of
        None \<Rightarrow> Inl (Error ''Error'' ''secretOrPrivateKey must have a value'')
      | Some key \<Rightarrow>
          if key = [] then Inl (Error ''Error'' ''secretOrPrivateKey must have a value'')
          else
            (case payload of
               JObj kvs \<Rightarrow>
                 (let claims = JObj (kvs @ [(''iat'', JNum now), (''exp'', JNum (now + int expiresIn))]);
                      signing_input =
                        enc (JObj [(''alg'', JStr ''HS256''), (''typ'', JStr ''JWT'')]) @ ''.'' @ enc claims
                  in Inr (signing_input @ ''.'' @ mac key signing_input))
             | other \<Rightarrow> Inl (Error ''Error'' ''invalid expiresIn option for this payload'')))"

section \<open>An in-memory table\<close>

text \<open>
  A table as the list of its rows, used to run the handlers on concrete inputs:
  \<open>mem_create\<close> appends the row and returns it, \<open>mem_findByPk\<close> and \<open>mem_findOne\<close>
  return the first row with the given \<open>id\<close> or \<open>username\<close>, or \<open>null\<close>.
\<close>

definition mem_create :: "jsval \<Rightarrow> jsval list \<Rightarrow> js_error + jsval \<times> jsval list" where
  "mem_create row tbl = Inr (row, tbl @ [row])"

definition mem_find :: "string \<Rightarrow> jsval list \<Rightarrow> jsval \<Rightarrow> js_error + jsval" where
  "mem_find k tbl v =
     (case filter (\<lambda>row. get_prop row k = Inr v) tbl of
        [] \<Rightarrow> Inr JNull
      | row # rest \<Rightarrow> Inr row)"

definition mem_findByPk :: "jsval list \<Rightarrow> jsval \<Rightarrow> js_error + jsval" where
  "mem_findByPk tbl v = mem_find ''id'' tbl v"

definition mem_findOne :: "jsval list \<Rightarrow> jsval \<Rightarrow> js_error + jsval" where
  "mem_findOne tbl v = mem_find ''username'' tbl v"

text \<open>A store whose connection is down: every lookup throws.\<close>

definition store_down :: "jsval \<Rightarrow> js_error + jsval" where
  "store_down v = Inl (Error ''SequelizeConnectionError'' ''connect ECONNREFUSED'')"

text \<open>
  An inbound request as the router hands it to the first handler: the given
  \<open>Authorization\<close> header and body, no validation error, and no \<open>req.user\<close> yet.
\<close>

definition inbound :: "string option \<Rightarrow> jsval \<Rightarrow> request" where
  "inbound header payload =
     \<lparr>authorization = header, req_body = payload, param_id = JUndefined,
      validation_errors = [], user = JUndefined\<rparr>"

text \<open>
  The data of the concrete runs: a stand-in for the one-way function, a salt of 22
  characters, and a credential table seeded with two users. \<open>alice\<close> has the password
  \<open>secret123\<close>, stored hashed, and the \<open>type\<close> \<open>admin\<close>; \<open>nadia\<close> is an \<open>ngo_admin\<close>
  whose row names the organisation 5.
\<close>

definition demo_kdf :: "nat \<Rightarrow> string \<Rightarrow> string \<Rightarrow> string" where
  "demo_kdf cost salt plaintext = rev plaintext @ take 9 salt"

definition demo_salt :: string where
  "demo_salt = ''abcdefghijklmnopqrstuv''"

definition alice :: jsval where
  "alice = JObj [(''id'', JNum 7), (''username'', JStr ''alice''),
                 (''password'', JStr (format_hash 8 demo_salt (demo_kdf 8 demo_salt ''secret123''))),
                 (''type'', JStr ''admin'')]"

definition nadia :: jsval where
  "nadia = JObj [(''id'', JNum 8), (''username'', JStr ''nadia''),
                 (''password'', JStr (format_hash 8 demo_salt (demo_kdf 8 demo_salt ''pw''))),
                 (''type'', JStr ''ngo_admin''), (''ngo_id'', JNum 5)]"

definition seeded_users :: "jsval list" where
  "seeded_users = [alice, nadia]"

text \<open>
  A verifier that accepts two tokens: \<open>stale\<close>, issued to alice while she was a
  volunteer, and \<open>nadia\<close>, issued to nadia.
\<close>

definition demo_verify :: "string \<Rightarrow> js_error + jsval" where
  "demo_verify t =
     (if t = ''stale''
      then Inr (JObj [(''id'', JNum 7), (''type'', JStr ''volunteer''),
                      (''iat'', JNum 0), (''exp'', JNum 86400)])
      else if t = ''nadia''
      then Inr (JObj [(''id'', JNum 8), (''type'', JStr ''ngo_admin''),
                      (''iat'', JNum 0), (''exp'', JNum 86400)])
      else Inl (Error ''JsonWebTokenError'' ''jwt malformed''))"

text \<open>A report table with the single report 3, which belongs to the organisation 5.\<close>

definition report3 :: jsval where
  "report3 = JObj [(''id'', JNum 3), (''beneficiary_id'', JNum 11), (''aid_amount'', JNum 250),
                   (''aid_date'', JStr ''2024-05-01''), (''ngo_id'', JNum 5)]"

definition demo_reports :: "jsval \<Rightarrow> js_error + jsval" where
  "demo_reports i = (if i = JStr ''3'' then Inr report3 else Inr JNull)"

text \<open>An attendance table with the single record 3, of batch 2 in school 1.\<close>

definition attendance3 :: jsval where
  "attendance3 = JObj [(''id'', JNum 3), (''batch_id'', JNum 2), (''volunteer_id'', JNum 9),
                       (''status'', JBool True), (''date'', JStr ''2024-05-02''),
                       (''Batch'', JObj [(''id'', JNum 2), (''school_id'', JNum 1)])]"

definition demo_attendance :: "jsval \<Rightarrow> js_error + jsval" where
  "demo_attendance i = (if i = JStr ''3'' then Inr attendance3 else Inr JNull)"

text \<open>
  A request of the authenticated volunteer carol: it addresses the resource 3 and
  carries a registration body.
\<close>

definition carol_request :: request where
  "carol_request =
     \<lparr>authorization = Some ''Bearer carol'',
      req_body = JObj [(''username'', JStr ''dave''), (''password'', JStr ''pw'')],
      param_id = JStr ''3'', validation_errors = [],
      user = JObj [(''id'', JNum 9), (''type'', JStr ''volunteer'')]\<rparr>"

text \<open>
  The bodies of carol's other requests, each one accepted by the validator chain of the
  handler it is sent to (\<open>createBeneficiary\<close>, \<open>createUser\<close>, \<open>createAdmin\<close>,
  \<open>createProject\<close> and \<open>updateProjectById\<close>, \<open>createEmployee\<close>), the body of an
  attendance record, and a body without a password.
\<close>

definition beneficiary_payload :: jsval where
  "beneficiary_payload =
     JObj [(''username'', JStr ''ben''), (''password'', JStr ''hunter2''),
           (''type'', JStr ''beneficiary''), (''email'', JStr ''ben@example.org'')]"

definition user_payload :: jsval where
  "user_payload =
     JObj [(''username'', JStr ''erin''), (''password'', JStr ''hunter2''),
           (''type'', JStr ''employee''), (''email'', JStr ''erin@example.org''),
           (''phone'', JStr ''0123456789''), (''firstName'', JStr ''Erin''),
           (''lastName'', JStr ''Shaw''), (''address'', JStr ''1 Main Street''),
           (''city'', JStr ''Pune''), (''state'', JStr ''Maharashtra''),
           (''pincode'', JStr ''411001''), (''country'', JStr ''India''),
           (''dateOfBirth'', JStr ''1990-01-31''), (''gender'', JStr ''female'')]"

definition admin_payload :: jsval where
  "admin_payload =
     JObj [(''username'', JStr ''frank''), (''password'', JStr ''hunter2''),
           (''type'', JStr ''admin''), (''email'', JStr ''frank@example.org'')]"

definition project_payload :: jsval where
  "project_payload =
     JObj [(''name'', JStr ''Wells''), (''description'', JStr ''Ten wells''),
           (''startDate'', JStr ''2024-06-01''), (''endDate'', JStr ''2024-09-30''),
           (''createdBy'', JNum 7)]"

definition employee_payload :: jsval where
  "employee_payload =
     JObj [(''user_id'', JNum 9), (''role'', JStr ''Manager''),
           (''dateOfJoining'', JStr ''2024-06-01'')]"

definition attendance_payload :: jsval where
  "attendance_payload =
     JObj [(''batch_id'', JNum 2), (''volunteer_id'', JNum 9), (''status'', JBool True),
           (''date'', JStr ''2024-05-03'')]"

definition no_password_payload :: jsval where
  "no_password_payload = JObj [(''username'', JStr ''dave'')]"

text \<open>
  A table with the single row 3, standing for the table of any of the admin-only
  controllers, and a volunteer table with the single volunteer 3, who works on task 2.
\<close>

definition row3 :: jsval where
  "row3 = JObj [(''id'', JNum 3), (''name'', JStr ''three'')]"

definition demo_rows :: "jsval \<Rightarrow> js_error + jsval" where
  "demo_rows i = (if i = JStr ''3'' then Inr row3 else Inr JNull)"

definition volunteer3 :: jsval where
  "volunteer3 = JObj [(''id'', JNum 3), (''user_id'', JNum 9), (''task_id'', JNum 2)]"

definition demo_volunteers :: "jsval \<Rightarrow> js_error + jsval" where
  "demo_volunteers i = (if i = JStr ''3'' then Inr volunteer3 else Inr JNull)"

text \<open>
  A request of the coordinator omar, who is assigned to task 1: it addresses the
  volunteer 3 and carries a new assignment.
\<close>

definition omar_request :: request where
  "omar_request =
     \<lparr>authorization = Some ''Bearer omar'',
      req_body = JObj [(''user_id'', JNum 9), (''task_id'', JNum 1)],
      param_id = JStr ''3'', validation_errors = [],
      user = JObj [(''id'', JNum 10), (''type'', JStr ''coordinator''),
                   (''isAssignedToVolunteerTask'', JBool True), (''task_id'', JNum 1)]\<rparr>"

section \<open>The credential model\<close>

text \<open>
  \<open>src/unnamed/part_005\<close> and \<open>src/unnamed/part_006\<close>: the two copies of
  \<open>models/User.js\<close> declare the same attributes, listed here in the order of the
  files. The role of a credential is the attribute \<open>role\<close>; no attribute is called
  \<open>type\<close>. An instance that \<open>User.findByPk\<close> builds from a row of this model has
  exactly the declared attributes (\<open>null\<close> where the column is empty).
\<close>

definition User_attributes :: "string list" where
  "User_attributes =
     [''id'', ''username'', ''password'', ''role'', ''email'', ''phone'', ''firstName'',
      ''lastName'', ''address'', ''city'', ''state'', ''pincode'', ''country'', ''dateOfBirth'',
      ''gender'', ''profilePicture'', ''emergencyContactName'', ''emergencyContactPhone'',
      ''emergencyContactRelation'', ''occupation'', ''organization'', ''createdAt'',
      ''updatedAt'']"

definition User_instance :: "jsval \<Rightarrow> bool" where
  "User_instance v = (keys v = User_attributes)"

text \<open>
  The row of alice as this model stores it, after her role was changed from
  \<open>volunteer\<close> (the default of the column) to \<open>admin\<close>.
\<close>

definition promoted_alice :: jsval where
  "promoted_alice =
     JObj [(''id'', JNum 7), (''username'', JStr ''alice''),
           (''password'', JStr (format_hash 8 demo_salt (demo_kdf 8 demo_salt ''secret123''))),
           (''role'', JStr ''admin''), (''email'', JStr ''alice@example.org''),
           (''phone'', JNull), (''firstName'', JStr ''Alice''), (''lastName'', JNull),
           (''address'', JNull), (''city'', JNull), (''state'', JNull), (''pincode'', JNull),
           (''country'', JNull), (''dateOfBirth'', JNull), (''gender'', JNull),
           (''profilePicture'', JNull), (''emergencyContactName'', JNull),
           (''emergencyContactPhone'', JNull), (''emergencyContactRelation'', JNull),
           (''occupation'', JNull), (''organization'', JNull),
           (''createdAt'', JStr ''2024-01-01T00:00:00.000Z''),
           (''updatedAt'', JStr ''2024-05-01T00:00:00.000Z'')]"

section \<open>Properties of the authentication middleware\<close>

lemma truthy_get_prop: "truthy v \<Longrightarrow> \<exists>w. get_prop v k = Inr w"
  by (cases v) auto

lemma defined_get_prop: "v \<noteq> JUndefined \<Longrightarrow> v \<noteq> JNull \<Longrightarrow> \<exists>w. get_prop v k = Inr w"
  by (cases v) auto

text \<open>
  The middleware of \<open>src/middleware/authMiddleware.js\<close> answers with one of three fixed
  responses, or calls \<open>next()\<close>.
\<close>

lemma authMiddleware_responses:
  "authMiddleware jwt_verify findByPk req = Responded res \<Longrightarrow>
     res = send 401 ''Access denied. No token provided.'' \<or>
     res = send 400 ''Invalid token.'' \<or>
     res = send 404 ''User not found.''"
  by (auto simp: authMiddleware_def split: option.splits sum.splits if_splits)

lemma authMiddleware_no_header:
  "authorization req = None \<or> authorization req = Some [] \<Longrightarrow>
   authMiddleware jwt_verify findByPk req =
     Responded (send 401 ''Access denied. No token provided.'')"
  by (auto simp: authMiddleware_def)

lemma authMiddleware_verify_fails:
  "authorization req = Some token \<Longrightarrow> token \<noteq> [] \<Longrightarrow> tokenWithoutBearer token = Some t \<Longrightarrow>
   jwt_verify t = Inl ex \<Longrightarrow>
   authMiddleware jwt_verify findByPk req = Responded (send 400 ''Invalid token.'')"
  by (auto simp: authMiddleware_def)

lemma authMiddleware_user_not_found:
  "authorization req = Some token \<Longrightarrow> token \<noteq> [] \<Longrightarrow> tokenWithoutBearer token = Some t \<Longrightarrow>
   jwt_verify t = Inr decoded \<Longrightarrow> get_prop decoded ''id'' = Inr decoded_id \<Longrightarrow>
   findByPk decoded_id = Inr usr \<Longrightarrow> \<not> truthy usr \<Longrightarrow>
   authMiddleware jwt_verify findByPk req = Responded (send 404 ''User not found.'')"
  by (auto simp: authMiddleware_def)

lemma authMiddleware_authenticated:
  "authorization req = Some token \<Longrightarrow> token \<noteq> [] \<Longrightarrow> tokenWithoutBearer token = Some t \<Longrightarrow>
   jwt_verify t = Inr decoded \<Longrightarrow> get_prop decoded ''id'' = Inr decoded_id \<Longrightarrow>
   findByPk decoded_id = Inr usr \<Longrightarrow> truthy usr \<Longrightarrow>
   \<exists>user_type. get_prop usr ''type'' = Inr user_type \<and>
     authMiddleware jwt_verify findByPk req =
       Next (req\<lparr>user := JObj [(''id'', decoded_id), (''type'', user_type)]\<rparr>)"
  using truthy_get_prop[of usr "''type''"] by (auto simp: authMiddleware_def)

text \<open>
  Whatever the store throws during the lookup is caught by the same \<open>catch\<close> block as a
  failed verification.
\<close>

lemma authMiddleware_store_throws:
  "authorization req = Some token \<Longrightarrow> token \<noteq> [] \<Longrightarrow> tokenWithoutBearer token = Some t \<Longrightarrow>
   jwt_verify t = Inr decoded \<Longrightarrow> get_prop decoded ''id'' = Inr decoded_id \<Longrightarrow>
   findByPk decoded_id = Inl ex \<Longrightarrow>
   authMiddleware jwt_verify findByPk req = Responded (send 400 ''Invalid token.'')"
  by (auto simp: authMiddleware_def)

lemma authMiddleware_Next:
  assumes "authMiddleware jwt_verify findByPk req = Next req'"
  shows "\<exists>token bare decoded decoded_id usr user_type.
           authorization req = Some token \<and> tokenWithoutBearer token = Some bare \<and>
           jwt_verify bare = Inr decoded \<and> get_prop decoded ''id'' = Inr decoded_id \<and>
           findByPk decoded_id = Inr usr \<and> truthy usr \<and> get_prop usr ''type'' = Inr user_type \<and>
           req' = req\<lparr>user := JObj [(''id'', decoded_id), (''type'', user_type)]\<rparr>"
  using assms
  by (auto simp: authMiddleware_def split: option.splits sum.splits if_splits)

text \<open>
  The copy of \<open>src/unnamed/part_000\<close> answers with the same three statuses and attaches
  the same principal.
\<close>

lemma authMiddleware_part_000_statuses:
  "authMiddleware_part_000 jwt_verify findByPk req = Responded res \<Longrightarrow>
     status res = 401 \<or> status res = 400 \<or> status res = 404"
  by (auto simp: authMiddleware_part_000_def Let_def send_def json_def
      split: option.splits sum.splits if_splits)

lemma authMiddleware_part_000_Next:
  assumes "authMiddleware_part_000 jwt_verify findByPk req = Next req'"
  shows "\<exists>token bare decoded decoded_id usr user_type.
           authorization req = Some token \<and> index_js (split_js CHR '' '' token) 1 = Some bare \<and>
           jwt_verify bare = Inr decoded \<and> get_prop decoded ''id'' = Inr decoded_id \<and>
           findByPk decoded_id = Inr usr \<and> truthy usr \<and> get_prop usr ''type'' = Inr user_type \<and>
           req' = req\<lparr>user := JObj [(''id'', decoded_id), (''type'', user_type)]\<rparr>"
  using assms
  by (auto simp: authMiddleware_part_000_def Let_def split: option.splits sum.splits if_splits)

text \<open>
  The outcome depends on the verified token only through \<open>decoded.id\<close>: two verifiers
  that accept the same tokens with the same \<open>id\<close> give the same outcome, whatever else
  the payloads carry.
\<close>

lemma authMiddleware_cong:
  assumes "\<And>t. map_sum (\<lambda>e. ()) (\<lambda>d. get_prop d ''id'') (jwt_verify t) =
                map_sum (\<lambda>e. ()) (\<lambda>d. get_prop d ''id'') (jwt_verify' t)"
  shows "authMiddleware jwt_verify findByPk req = authMiddleware jwt_verify' findByPk req"
proof (cases "authorization req")
  case None
  then show ?thesis by (simp add: authMiddleware_def)
next
  case (Some token)
  show ?thesis
  proof (cases "tokenWithoutBearer token")
    case None
    with Some show ?thesis by (simp add: authMiddleware_def)
  next
    case (Some bare)
    from assms[of bare] have
      "(case jwt_verify bare of Inl ex \<Rightarrow> Responded (send 400 ''Invalid token.'')
        | Inr decoded \<Rightarrow> f (get_prop decoded ''id'')) =
       (case jwt_verify' bare of Inl ex \<Rightarrow> Responded (send 400 ''Invalid token.'')
        | Inr decoded \<Rightarrow> f (get_prop decoded ''id''))" for f
      by (cases "jwt_verify bare"; cases "jwt_verify' bare") auto
    with Some \<open>authorization req = Some token\<close> show ?thesis
      by (simp add: authMiddleware_def)
  qed
qed

text \<open>
  Claim C1. The claim: every request ends in one of the spec's outcomes, and a token that
  fails verification is answered with 400 and a generic body that does not tell an
  expired token from an invalid one and carries no internal error detail. The copy of the
  middleware in \<open>src/unnamed/part_000\<close> breaks this: on the header \<open>Bearer abc\<close> its
  \<open>catch\<close> block sends \<open>error.message\<close>, so an expired token is answered with
  \<open>jwt expired\<close> and a badly signed one with \<open>invalid signature\<close>. The copy in
  \<open>src/middleware/authMiddleware.js\<close> sends the fixed string (lemma
  \<open>authMiddleware_verify_fails\<close>).
\<close>

theorem part_000_error_message_in_body:
  "authMiddleware_part_000 (\<lambda>t. Inl (Error ''TokenExpiredError'' ''jwt expired'')) store_down
     (inbound (Some ''Bearer abc'') JUndefined)
   = Responded \<lparr>status = 400,
        body = JObj [(''message'', JStr ''Invalid token.''), (''error'', JStr ''jwt expired'')]\<rparr>
   \<and>
   authMiddleware_part_000 (\<lambda>t. Inl (Error ''JsonWebTokenError'' ''invalid signature'')) store_down
     (inbound (Some ''Bearer abc'') JUndefined)
   = Responded \<lparr>status = 400,
        body = JObj [(''message'', JStr ''Invalid token.''), (''error'', JStr ''invalid signature'')]\<rparr>"
  by (simp add: authMiddleware_part_000_def inbound_def index_js_def json_def)

text \<open>
  Claim C9. The claim: when the token verifies and the lookup of the principal fails
  with a store error, the answer is a 500-class status. Both copies of the middleware
  answer 400 instead: the lookup is inside the \<open>try\<close> block whose \<open>catch\<close> answers
  "Invalid token.". Here the token \<open>stale\<close> verifies and the store is down.
\<close>

theorem store_failure_answered_400:
  "authMiddleware demo_verify store_down (inbound (Some ''Bearer stale'') JUndefined)
     = Responded \<lparr>status = 400, body = JStr ''Invalid token.''\<rparr>
   \<and>
   authMiddleware_part_000 demo_verify store_down (inbound (Some ''Bearer stale'') JUndefined)
     = Responded \<lparr>status = 400,
          body = JObj [(''message'', JStr ''Invalid token.''),
                       (''error'', JStr ''connect ECONNREFUSED'')]\<rparr>"
  by (simp add: authMiddleware_def authMiddleware_part_000_def tokenWithoutBearer_def
        startsWith_def index_js_def send_def json_def store_down_def inbound_def demo_verify_def)

text \<open>
  What the middleware attaches when it reaches \<open>next()\<close>: the \<open>id\<close> the lookup used and
  the property \<open>type\<close> of the row the lookup returned in this request.
\<close>

lemma authMiddleware_attaches_type_property:
  assumes "authMiddleware jwt_verify findByPk req = Next req'"
  shows "\<exists>bare decoded decoded_id usr.
           jwt_verify bare = Inr decoded \<and> get_prop decoded ''id'' = Inr decoded_id \<and>
           findByPk decoded_id = Inr usr \<and> truthy usr \<and>
           get_prop (user req') ''id'' = Inr decoded_id \<and>
           get_prop (user req') ''type'' = get_prop usr ''type''"
  using authMiddleware_Next[OF assms] by fastforce

text \<open>
  An instance of the declared model has a \<open>role\<close> and no \<open>type\<close>: reading \<open>user.type\<close>
  gives \<open>undefined\<close>. So whenever the store returns instances of the declared model,
  the principal that either copy of the middleware attaches has the \<open>type\<close>
  \<open>undefined\<close>, whatever role the row stores.
\<close>

lemma User_instance_has_no_type:
  assumes "User_instance usr"
  shows "get_prop usr ''type'' = Inr JUndefined"
proof (cases usr)
  case (JObj kvs)
  with assms have "map fst kvs = User_attributes" by (simp add: User_instance_def)
  then have "''type'' \<notin> set (map fst kvs)" by (simp add: User_attributes_def)
  then have "map_of kvs ''type'' = None" by (simp add: map_of_eq_None_iff)
  with JObj show ?thesis by simp
qed (use assms in \<open>simp_all add: User_instance_def User_attributes_def\<close>)

lemma authMiddleware_on_User_instance:
  assumes "authMiddleware jwt_verify findByPk req = Next req'"
    and "\<And>i usr. findByPk i = Inr usr \<Longrightarrow> truthy usr \<Longrightarrow> User_instance usr"
  shows "get_prop (user req') ''type'' = Inr JUndefined"
proof -
  from authMiddleware_attaches_type_property[OF assms(1)] obtain decoded_id usr where
    u: "findByPk decoded_id = Inr usr" "truthy usr"
       "get_prop (user req') ''type'' = get_prop usr ''type''" by blast
  from assms(2)[OF u(1) u(2)] have "User_instance usr" .
  with u(3) show ?thesis by (simp add: User_instance_has_no_type)
qed

lemma authMiddleware_part_000_on_User_instance:
  assumes "authMiddleware_part_000 jwt_verify findByPk req = Next req'"
    and "\<And>i usr. findByPk i = Inr usr \<Longrightarrow> truthy usr \<Longrightarrow> User_instance usr"
  shows "get_prop (user req') ''type'' = Inr JUndefined"
proof -
  from authMiddleware_part_000_Next[OF assms(1)] obtain decoded_id usr user_type where
    u: "findByPk decoded_id = Inr usr" "truthy usr" "get_prop usr ''type'' = Inr user_type"
       "req' = req\<lparr>user := JObj [(''id'', decoded_id), (''type'', user_type)]\<rparr>" by blast
  from assms(2)[OF u(1) u(2)] have "User_instance usr" .
  with u(3) have "user_type = JUndefined" by (simp add: User_instance_has_no_type)
  with u(4) show ?thesis by simp
qed

text \<open>
  Claim C3. The claim: the role in the principal attached to an authenticated request is
  the role currently stored in the credential record fetched during that request, so
  that after a change of role the handlers see the new role. The code reads the role
  from the property \<open>type\<close> of the fetched record (\<open>user.type\<close>, under the comment
  "assuming 'type' is a field in your User model" in \<open>src/unnamed/part_000\<close>), and the
  model of the repository stores it in \<open>role\<close>. Here the stored record of alice is an
  instance of the declared model whose role is now \<open>admin\<close>, and her token \<open>stale\<close> was
  issued while she was a volunteer. Both copies of the middleware reach \<open>next()\<close> with
  the principal \<open>{ id: 7, type: undefined }\<close>: it carries neither the stored role nor
  any role, and \<open>adminMiddleware\<close> refuses the stored admin.
\<close>

theorem stored_role_not_attached:
  "User_instance promoted_alice \<and>
   get_prop promoted_alice ''role'' = Inr (JStr ''admin'') \<and>
   authMiddleware demo_verify (mem_findByPk [promoted_alice])
       (inbound (Some ''Bearer stale'') JUndefined)
     = Next (inbound (Some ''Bearer stale'') JUndefined
               \<lparr>user := JObj [(''id'', JNum 7), (''type'', JUndefined)]\<rparr>) \<and>
   authMiddleware_part_000 demo_verify (mem_findByPk [promoted_alice])
       (inbound (Some ''Bearer stale'') JUndefined)
     = Next (inbound (Some ''Bearer stale'') JUndefined
               \<lparr>user := JObj [(''id'', JNum 7), (''type'', JUndefined)]\<rparr>) \<and>
   adminMiddleware (inbound (Some ''Bearer stale'') JUndefined
               \<lparr>user := JObj [(''id'', JNum 7), (''type'', JUndefined)]\<rparr>)
     = Inr (Responded \<lparr>status = 401,
              body = JStr ''Unauthorized. Only admin users can access this resource.''\<rparr>)"
  by (simp add: User_instance_def User_attributes_def promoted_alice_def
        authMiddleware_def authMiddleware_part_000_def adminMiddleware_def
        tokenWithoutBearer_def startsWith_def index_js_def send_def json_def inbound_def
        demo_verify_def mem_findByPk_def mem_find_def)

text \<open>
  Claim C10. The principal the middleware attaches has exactly the properties \<open>id\<close> and
  \<open>type\<close>, so \<open>currentUser.ngo_id\<close> is \<open>undefined\<close>. For every report whose \<open>ngo_id\<close> is
  neither \<open>null\<close> nor \<open>undefined\<close> the scoped-owner condition is false for such a
  principal, and a report that \<open>createReport\<close> creates for such a principal is passed to the
  store with \<open>ngo_id\<close> \<open>undefined\<close>.
\<close>

theorem principal_has_no_ngo_id:
  assumes "authMiddleware jwt_verify findByPk req = Next req'"
  shows "keys (user req') = [''id'', ''type''] \<and>
         get_prop (user req') ''ngo_id'' = Inr JUndefined \<and>
         (\<forall>report ngo. get_prop report ''ngo_id'' = Inr ngo \<and> ngo \<noteq> JNull \<and> ngo \<noteq> JUndefined \<longrightarrow>
             scoped_owner (user req') report = Inr False) \<and>
         (\<forall>create db res db'.
             createReport create req' db = Inr (res, db') \<and> status res = 201 \<longrightarrow>
             (\<exists>b a d. create (JObj [(''beneficiary_id'', b), (''aid_amount'', a),
                                    (''aid_date'', d), (''ngo_id'', JUndefined)]) db
                        = Inr (body res, db')))"
proof -
  from authMiddleware_Next[OF assms] obtain decoded_id user_type where
    r: "req' = req\<lparr>user := JObj [(''id'', decoded_id), (''type'', user_type)]\<rparr>" by blast
  have k: "keys (user req') = [''id'', ''type'']" using r by simp
  have n: "get_prop (user req') ''ngo_id'' = Inr JUndefined" using r by simp
  have s: "\<forall>report ngo. get_prop report ''ngo_id'' = Inr ngo \<and> ngo \<noteq> JNull \<and> ngo \<noteq> JUndefined \<longrightarrow>
             scoped_owner (user req') report = Inr False"
    using r by (auto simp: scoped_owner_def)
  have c: "\<forall>create db res db'.
             createReport create req' db = Inr (res, db') \<and> status res = 201 \<longrightarrow>
             (\<exists>b a d. create (JObj [(''beneficiary_id'', b), (''aid_amount'', a),
                                    (''aid_date'', d), (''ngo_id'', JUndefined)]) db
                        = Inr (body res, db'))"
    using n by (auto simp: createReport_def validation_failed_def internal_error_def json_def
                split: if_splits sum.splits prod.splits)
  from k n s c show ?thesis by blast
qed

text \<open>
  A run of the theorem of C10: nadia's row names the organisation 5 and report 3 belongs
  to it, yet her principal has no \<open>ngo_id\<close>, the scoped-owner condition is false on
  report 3, she is refused the report, and the report she creates has no organisation.
\<close>

theorem principal_has_no_ngo_id_witness:
  "authMiddleware demo_verify (mem_findByPk seeded_users)
       (inbound (Some ''Bearer nadia'')
          (JObj [(''beneficiary_id'', JNum 11), (''aid_amount'', JNum 40),
                 (''aid_date'', JStr ''2024-06-01'')]))
     = Next (inbound (Some ''Bearer nadia'')
          (JObj [(''beneficiary_id'', JNum 11), (''aid_amount'', JNum 40),
                 (''aid_date'', JStr ''2024-06-01'')])
          \<lparr>user := JObj [(''id'', JNum 8), (''type'', JStr ''ngo_admin'')]\<rparr>) \<and>
   get_prop nadia ''ngo_id'' = Inr (JNum 5) \<and>
   get_prop report3 ''ngo_id'' = Inr (JNum 5) \<and>
   scoped_owner (JObj [(''id'', JNum 8), (''type'', JStr ''ngo_admin'')]) report3 = Inr False \<and>
   getReportById demo_reports
       (inbound (Some ''Bearer nadia'') JUndefined
          \<lparr>user := JObj [(''id'', JNum 8), (''type'', JStr ''ngo_admin'')], param_id := JStr ''3''\<rparr>)
     = \<lparr>status = 401, body = JStr ''Unauthorized. You do not have access to this report.''\<rparr> \<and>
   createReport mem_create
       (inbound (Some ''Bearer nadia'')
          (JObj [(''beneficiary_id'', JNum 11), (''aid_amount'', JNum 40),
                 (''aid_date'', JStr ''2024-06-01'')])
          \<lparr>user := JObj [(''id'', JNum 8), (''type'', JStr ''ngo_admin'')]\<rparr>) []
     = Inr (\<lparr>status = 201,
              body = JObj [(''beneficiary_id'', JNum 11), (''aid_amount'', JNum 40),
                           (''aid_date'', JStr ''2024-06-01''), (''ngo_id'', JUndefined)]\<rparr>,
            [JObj [(''beneficiary_id'', JNum 11), (''aid_amount'', JNum 40),
                   (''aid_date'', JStr ''2024-06-01''), (''ngo_id'', JUndefined)]])"
proof -
  have run: "authMiddleware demo_verify (mem_findByPk seeded_users)
       (inbound (Some ''Bearer nadia'')
          (JObj [(''beneficiary_id'', JNum 11), (''aid_amount'', JNum 40),
                 (''aid_date'', JStr ''2024-06-01'')]))
     = Next (inbound (Some ''Bearer nadia'')
          (JObj [(''beneficiary_id'', JNum 11), (''aid_amount'', JNum 40),
                 (''aid_date'', JStr ''2024-06-01'')])
          \<lparr>user := JObj [(''id'', JNum 8), (''type'', JStr ''ngo_admin'')]\<rparr>)"
    by (simp add: authMiddleware_def tokenWithoutBearer_def
        startsWith_def index_js_def send_def json_def inbound_def demo_verify_def
        mem_findByPk_def mem_find_def seeded_users_def alice_def nadia_def)
  have rep: "get_prop report3 ''ngo_id'' = Inr (JNum 5)"
    by (simp add: report3_def)
  have refused: "getReportById demo_reports
       (inbound (Some ''Bearer nadia'') JUndefined
          \<lparr>user := JObj [(''id'', JNum 8), (''type'', JStr ''ngo_admin'')], param_id := JStr ''3''\<rparr>)
     = \<lparr>status = 401, body = JStr ''Unauthorized. You do not have access to this report.''\<rparr>"
    by (simp add: getReportById_def inbound_def demo_reports_def report3_def report_access_def
          scoped_owner_def send_def)
  have created: "createReport mem_create
       (inbound (Some ''Bearer nadia'')
          (JObj [(''beneficiary_id'', JNum 11), (''aid_amount'', JNum 40),
                 (''aid_date'', JStr ''2024-06-01'')])
          \<lparr>user := JObj [(''id'', JNum 8), (''type'', JStr ''ngo_admin'')]\<rparr>) []
     = Inr (\<lparr>status = 201,
              body = JObj [(''beneficiary_id'', JNum 11), (''aid_amount'', JNum 40),
                           (''aid_date'', JStr ''2024-06-01''), (''ngo_id'', JUndefined)]\<rparr>,
            [JObj [(''beneficiary_id'', JNum 11), (''aid_amount'', JNum 40),
                   (''aid_date'', JStr ''2024-06-01''), (''ngo_id'', JUndefined)]])"
    by (simp add: createReport_def inbound_def mem_create_def json_def)
  from principal_has_no_ngo_id[OF run]
  have "get_prop report3 ''ngo_id'' = Inr (JNum 5) \<and> JNum 5 \<noteq> JNull \<and> JNum 5 \<noteq> JUndefined \<longrightarrow>
        scoped_owner (user (inbound (Some ''Bearer nadia'')
          (JObj [(''beneficiary_id'', JNum 11), (''aid_amount'', JNum 40),
                 (''aid_date'', JStr ''2024-06-01'')])
          \<lparr>user := JObj [(''id'', JNum 8), (''type'', JStr ''ngo_admin'')]\<rparr>)) report3 = Inr False"
    by blast
  with rep
  have "scoped_owner (JObj [(''id'', JNum 8), (''type'', JStr ''ngo_admin'')]) report3 = Inr False"
    by simp
  with run rep refused created show ?thesis
    by (simp add: nadia_def)
qed

section \<open>Properties of the by-id handlers\<close>

lemma attendance_check_refusal:
  "attendance_check u r a b c = Inr (Some x) \<Longrightarrow> \<exists>y. attendance_check u r a' b' c' = Inr (Some y)"
  unfolding attendance_check_def
  by (cases "get_prop u ''type''"; cases "get_prop r ''Batch''"; cases "get_prop r ''batch_id''";
      cases "get_prop u ''batch_id''"; cases "get_prop u ''school_id''")
     (auto split: sum.splits if_splits)



section \<open>Status of a denial\<close>

text \<open>
  Claim C4, as stated: every authenticated principal that fails the predicate of a
  protected operation is answered with 401, never 403. It fails on
  \<open>ngoAdminRegister\<close>: the volunteer carol is answered with 403.
\<close>

theorem ngoAdminRegister_denial_is_403:
  "\<not> requester_is_admin carol_request \<and>
   ngoAdminRegister (bcrypt_hashSync demo_kdf demo_salt) mem_create carol_request seeded_users
     = (\<lparr>status = 403, body = JStr ''Access denied. Only admin can create school admins.''\<rparr>,
        seeded_users)"
  by (simp add: ngoAdminRegister_def requester_is_admin_def carol_request_def
        bcrypt_hashSync_def send_def)

text \<open>
  The denials of the repository, handler by handler. Every handler that tests a role is
  covered; \<open>getAllReports\<close>, \<open>createReport\<close>, \<open>getAllAdmins\<close>, \<open>getAdminById\<close> and
  \<open>getAllVolunteerAttendance\<close> test none and refuse nobody.

  The handlers without a validator chain that admit \<open>admin\<close> only: \<open>adminMiddleware\<close>,
  the donor and event handlers and \<open>deleteAdmin\<close>.
\<close>

lemma get_prop_other: "get_prop v k = Inr w \<Longrightarrow> \<exists>w'. get_prop v k' = Inr w'"
  by (cases v) auto

lemma admin_only_denied:
  assumes "get_prop (user req) ''type'' = Inr t"
  shows
  "(t \<noteq> JStr ''admin'' \<longrightarrow>
      adminMiddleware req =
        Inr (Responded (send 401 ''Unauthorized. Only admin users can access this resource.'')) \<and>
      getAllDonors parsed_query found req =
        Inr (send 401 ''Unauthorized. Only admin users can view donors.'') \<and>
      getDonorById findByPk req =
        Inr (send 401 ''Unauthorized. Only admin users can view donors.'') \<and>
      createDonor create req db =
        Inr (send 401 ''Unauthorized. Only admin users can create new donors.'', db) \<and>
      updateDonor findByPk update req db =
        Inr (send 401 ''Unauthorized. Only admin users can update donors.'', db) \<and>
      deleteDonor findByPk destroy req db =
        Inr (send 401 ''Unauthorized. Only admin users can delete donors.'', db) \<and>
      getAllEvents parsed_query found req =
        Inr (send 401 ''Unauthorized. Only admin users can view events.'') \<and>
      getEventById findByPk req =
        Inr (send 401 ''Unauthorized. Only admin users can view events.'') \<and>
      createEvent create req db =
        Inr (send 401 ''Unauthorized. Only admin users can create new events.'', db) \<and>
      updateEvent findByPk update req db =
        Inr (send 401 ''Unauthorized. Only admin users can update events.'', db) \<and>
      deleteEvent findByPk destroy req db =
        Inr (send 401 ''Unauthorized. Only admin users can delete events.'', db) \<and>
      deleteAdmin findByPk destroy req db =
        Inr (send 401 ''Unauthorized. Only admin users can delete admin accounts.'', db))"
  using assms
  by (simp add: adminMiddleware_def getAllDonors_def getDonorById_def createDonor_def
      updateDonor_def deleteDonor_def getAllEvents_def getEventById_def
      createEvent_def updateEvent_def deleteEvent_def deleteAdmin_def)

text \<open>
  The handlers that admit \<open>admin\<close> only after their validator chain: the beneficiary,
  project, employee and user handlers, \<open>createAdmin\<close> and \<open>updateAdmin\<close>.
\<close>

lemma validated_admin_only_denied:
  assumes "get_prop (user req) ''type'' = Inr t"
  shows
  "(t \<noteq> JStr ''admin'' \<and> validation_errors req = [] \<longrightarrow>
      getAllBeneficiaries page limit found req =
        Inr (send 401 ''Unauthorized. Only admin users can view beneficiaries.'') \<and>
      getBeneficiaryById findByPk req =
        Inr (send 401 ''Unauthorized. Only admin users can view beneficiaries.'') \<and>
      createBeneficiary create req db =
        Inr (send 401 ''Unauthorized. Only admin users can create beneficiaries.'', db) \<and>
      updateBeneficiary findByPk update req db =
        Inr (send 401 ''Unauthorized. Only admin users can update beneficiaries.'', db) \<and>
      deleteBeneficiary findByPk destroy req db =
        Inr (send 401 ''Unauthorized. Only admin users can delete beneficiaries.'', db) \<and>
      getAllProjects page limit found req =
        Inr (send 401 ''Unauthorized. Only admin users can view projects.'') \<and>
      getProjectById findByPk req =
        Inr (send 401 ''Unauthorized. Only admin users can view projects.'') \<and>
      createProject create req db =
        Inr (send 401 ''Unauthorized. Only admin users can create projects.'', db) \<and>
      updateProjectById findByPk save req db =
        Inr (send 401 ''Unauthorized. Only admin users can update projects.'', db) \<and>
      deleteProjectById findByPk destroy req db =
        Inr (send 401 ''Unauthorized. Only admin users can delete projects.'', db) \<and>
      getAllEmployees page limit found req =
        Inr (send 401 ''Unauthorized. Only admin users can view employees.'') \<and>
      getEmployeeById findByPk req =
        Inr (send 401 ''Unauthorized. Only admin users can view employees.'') \<and>
      createEmployee create req db =
        Inr (send 401 ''Unauthorized. Only admin users can create employees.'', db) \<and>
      updateEmployee update_where findByPk_after req db =
        Inr (send 401 ''Unauthorized. Only admin users can update employees.'', db) \<and>
      deleteEmployee destroy_where req db =
        Inr (send 401 ''Unauthorized. Only admin users can delete employees.'', db) \<and>
      getAllUsers page limit found req =
        Inr (send 401 ''Unauthorized. Only admin users can view users.'') \<and>
      getUserById findByPk req =
        Inr (send 401 ''Unauthorized. Only admin users can view users.'') \<and>
      createUser create req db =
        Inr (send 401 ''Unauthorized. Only admin users can create new users.'', db) \<and>
      updateUser findByPk update req db =
        Inr (send 401 ''Unauthorized. Only admin users can update users.'', db) \<and>
      deleteUser findByPk destroy req db =
        Inr (send 401 ''Unauthorized. Only admin users can delete users.'', db) \<and>
      createAdmin create req db =
        Inr (send 401 ''Unauthorized. Only admin users can create other admins.'', db) \<and>
      updateAdmin findByPk update req db =
        Inr (send 401 ''Unauthorized. Only admin users can update admin details.'', db))"
  using assms
  by (simp add: getAllBeneficiaries_def getBeneficiaryById_def createBeneficiary_def
      updateBeneficiary_def deleteBeneficiary_def getAllProjects_def
      getProjectById_def createProject_def updateProjectById_def deleteProjectById_def
      getAllEmployees_def getEmployeeById_def createEmployee_def updateEmployee_def
      deleteEmployee_def getAllUsers_def getUserById_def createUser_def updateUser_def
      deleteUser_def createAdmin_def updateAdmin_def)

text \<open>The by-id report handlers, whose condition reads the loaded report.\<close>

lemma report_denied:
  "(validation_errors req = [] \<and> findByPk (param_id req) = Inr report \<and> truthy report \<and>
    report_access (user req) report = Inr False \<longrightarrow>
      getReportById findByPk req =
        send 401 ''Unauthorized. You do not have access to this report.'' \<and>
      deleteReportById findByPk destroy req db =
        (send 401 ''Unauthorized. You do not have access to delete this report.'', db) \<and>
      (req_body req \<noteq> JUndefined \<and> req_body req \<noteq> JNull \<longrightarrow>
         updateReportById findByPk save req db =
           Inr (send 401 ''Unauthorized. You do not have access to update this report.'', db)))"
proof (intro conjI impI)
  assume a: "validation_errors req = [] \<and> findByPk (param_id req) = Inr report \<and> truthy report \<and>
          report_access (user req) report = Inr False"
  then show "getReportById findByPk req =
      send 401 ''Unauthorized. You do not have access to this report.''"
    by (simp add: getReportById_def)
  from a show "deleteReportById findByPk destroy req db =
      (send 401 ''Unauthorized. You do not have access to delete this report.'', db)"
    by (simp add: deleteReportById_def)
  assume "req_body req \<noteq> JUndefined \<and> req_body req \<noteq> JNull"
  then have ex: "\<exists>w. get_prop (req_body req) k = Inr w" for k
    using defined_get_prop by blast
  obtain b where b: "get_prop (req_body req) ''beneficiary_id'' = Inr b" using ex by blast
  obtain am where am: "get_prop (req_body req) ''aid_amount'' = Inr am" using ex by blast
  obtain d where d: "get_prop (req_body req) ''aid_date'' = Inr d" using ex by blast
  from a b am d show "updateReportById findByPk save req db =
      Inr (send 401 ''Unauthorized. You do not have access to update this report.'', db)"
    by (simp add: updateReportById_def)
qed

text \<open>The by-id volunteer-attendance handlers, whose tests read the loaded record.\<close>

lemma attendance_denied:
  "(findByPk (param_id req) = Inr attendance \<and> truthy attendance \<and>
    attendance_check (user req) attendance school_msg batch_msg role_msg = Inr (Some refusal) \<longrightarrow>
      status (getVolunteerAttendanceById findByPk req) = 401 \<and>
      status (fst (deleteVolunteerAttendance findByPk destroy req db)) = 401 \<and>
      (req_body req \<noteq> JUndefined \<and> req_body req \<noteq> JNull \<longrightarrow>
         (\<exists>res. updateVolunteerAttendance findByPk save req db = Inr (res, db) \<and>
                status res = 401)))"
proof (intro conjI impI)
  assume a: "findByPk (param_id req) = Inr attendance \<and> truthy attendance \<and>
          attendance_check (user req) attendance school_msg batch_msg role_msg = Inr (Some refusal)"
  then have c: "attendance_check (user req) attendance school_msg batch_msg role_msg = Inr (Some refusal)" by simp
  from attendance_check_refusal[OF c] obtain y where
    "attendance_check (user req) attendance
        ''Unauthorized. You can only view volunteer attendance for your school's batches.''
        ''Unauthorized. You can only view volunteer attendance for your batch.''
        ''Unauthorized. Only admins, school admins, and employees can view volunteer attendance.''
      = Inr (Some y)" by blast
  with a show "status (getVolunteerAttendanceById findByPk req) = 401"
    by (simp add: getVolunteerAttendanceById_def send_def)
  from attendance_check_refusal[OF c] obtain z where
    "attendance_check (user req) attendance
        ''Unauthorized. You can only delete volunteer attendance for your school's batches.''
        ''Unauthorized. You can only delete volunteer attendance for your batch.''
        ''Unauthorized. Only admins, school admins, and employees can delete volunteer attendance.''
      = Inr (Some z)" by blast
  with a show "status (fst (deleteVolunteerAttendance findByPk destroy req db)) = 401"
    by (simp add: deleteVolunteerAttendance_def send_def)
  assume "req_body req \<noteq> JUndefined \<and> req_body req \<noteq> JNull"
  then have ex: "\<exists>w. get_prop (req_body req) k = Inr w" for k
    using defined_get_prop by blast
  obtain b where b: "get_prop (req_body req) ''batch_id'' = Inr b" using ex by blast
  obtain v where v: "get_prop (req_body req) ''volunteer_id'' = Inr v" using ex by blast
  obtain st where st: "get_prop (req_body req) ''status'' = Inr st" using ex by blast
  obtain d where d: "get_prop (req_body req) ''date'' = Inr d" using ex by blast
  from attendance_check_refusal[OF c] obtain w where
    "attendance_check (user req) attendance
        ''Unauthorized. You can only update volunteer attendance for your school's batches.''
        ''Unauthorized. You can only update volunteer attendance for your batch.''
        ''Unauthorized. Only admins, school admins, and employees can update volunteer attendance.''
      = Inr (Some w)" by blast
  with a b v st d show "\<exists>res. updateVolunteerAttendance findByPk save req db = Inr (res, db) \<and>
                      status res = 401"
    by (simp add: updateVolunteerAttendance_def send_def)
qed

text \<open>
  \<open>createVolunteerAttendance\<close>, whose tests read the batch named in the body. Every
  message of \<open>create_attendance_check\<close> is sent with 401.
\<close>

lemma create_attendance_denied:
  "(get_prop (req_body req) ''batch_id'' = Inr batch_id \<and>
    create_attendance_check Batch_findByPk (user req) batch_id = Inr (Some create_refusal) \<longrightarrow>
      createVolunteerAttendance Batch_findByPk create req db = Inr (send 401 create_refusal, db))"
proof
  assume a: "get_prop (req_body req) ''batch_id'' = Inr batch_id \<and>
    create_attendance_check Batch_findByPk (user req) batch_id = Inr (Some create_refusal)"
  then have ex: "\<exists>w. get_prop (req_body req) k = Inr w" for k
    using get_prop_other by blast
  obtain v where v: "get_prop (req_body req) ''volunteer_id'' = Inr v" using ex by blast
  obtain st where st: "get_prop (req_body req) ''status'' = Inr st" using ex by blast
  obtain d where d: "get_prop (req_body req) ''date'' = Inr d" using ex by blast
  from a v st d show
    "createVolunteerAttendance Batch_findByPk create req db = Inr (send 401 create_refusal, db)"
    by (simp add: createVolunteerAttendance_def)
qed

text \<open>The volunteer handlers: the test every handler starts with.\<close>

lemma volunteer_gate_denied:
  "(lacks_privileges (user req) = Inr True \<longrightarrow>
      getAllVolunteers parsed_query req =
        Inr (send 401 ''Unauthorized. User lacks the required privileges.'') \<and>
      getVolunteerById req =
        Inr (send 401 ''Unauthorized. User lacks the required privileges.'') \<and>
      createVolunteer User_findByPk req =
        Inr (send 401 ''Unauthorized. User lacks the required privileges.'') \<and>
      deleteVolunteerById findByPk destroy req db =
        Inr (send 401 ''Unauthorized. User lacks the required privileges.'', db) \<and>
      updateVolunteerById findByPk save req db =
        Inr (send 401 ''Unauthorized. User lacks the required privileges.'', db))"
  by (simp add: getAllVolunteers_def getVolunteerById_def createVolunteer_def
      deleteVolunteerById_def updateVolunteerById_def)

text \<open>
  The volunteer handlers: the test on the loaded volunteer, for a coordinator who passed
  the first test. Only \<open>deleteVolunteerById\<close> and \<open>updateVolunteerById\<close> reach it.
\<close>

lemma volunteer_scope_denied:
  "(lacks_privileges (user req) = Inr False \<and> findByPk (param_id req) = Inr volunteer \<and>
    truthy volunteer \<and> other_task (user req) volunteer = Inr True \<longrightarrow>
      deleteVolunteerById findByPk destroy req db =
        Inr (send 401 ''Unauthorized. User lacks the required privileges.'', db) \<and>
      (get_prop (req_body req) ''user_id'' = Inr user_id \<and> truthy user_id \<and>
       get_prop (req_body req) ''task_id'' = Inr task_id \<and> truthy task_id \<longrightarrow>
         updateVolunteerById findByPk save req db =
           Inr (send 401 ''Unauthorized. User lacks the required privileges.'', db)))"
  by (simp add: deleteVolunteerById_def updateVolunteerById_def)

text \<open>
  Once the first test has passed, \<open>getVolunteerById\<close> and \<open>createVolunteer\<close> refuse
  nobody: they answer 500 or 400.
\<close>

lemma volunteer_read_and_create_never_refuse:
  assumes "lacks_privileges (user req) = Inr False"
  shows "(\<forall>res. getVolunteerById req = Inr res \<longrightarrow> status res = 500) \<and>
         (\<forall>res. createVolunteer User_findByPk req = Inr res \<longrightarrow> status res = 500 \<or> status res = 400)"
  using assms
  by (auto simp: getVolunteerById_def createVolunteer_def internal_error_def json_def send_def
      split: sum.splits if_splits)

text \<open>
  The registration handlers hash the password before they test the role: a requester
  who is not an admin is answered with 403 when the hash is computed, and with 500 when
  reading the body or hashing throws. The store is left as it was.
\<close>

lemma registration_denied:
  assumes "get_prop (user req) ''type'' = Inr t"
  shows
  "(t \<noteq> JStr ''admin'' \<longrightarrow>
      (get_prop (req_body req) ''username'' = Inr username \<and>
       get_prop (req_body req) ''password'' = Inr password \<and>
       hashSync password 8 = Inr hashed \<longrightarrow>
         ngoAdminRegister hashSync create req db =
           (send 403 ''Access denied. Only admin can create school admins.'', db) \<and>
         volunteerRegister hashSync create req db =
           (send 403 ''Access denied. Only admin can create volunteers.'', db)) \<and>
      (get_prop (req_body req) ''username'' = Inr username \<and>
       get_prop (req_body req) ''password'' = Inr password \<and>
       hashSync password 8 = Inl thrown \<longrightarrow>
         ngoAdminRegister hashSync create req db = (send 500 ''Error on the server.'', db) \<and>
         volunteerRegister hashSync create req db = (send 500 ''Error on the server.'', db)) \<and>
      (get_prop (req_body req) ''username'' = Inl thrown \<longrightarrow>
         ngoAdminRegister hashSync create req db = (send 500 ''Error on the server.'', db) \<and>
         volunteerRegister hashSync create req db = (send 500 ''Error on the server.'', db)))"
proof -
  have n: "\<not> requester_is_admin req" if "t \<noteq> JStr ''admin''"
    using that assms by (simp add: requester_is_admin_def)
  show ?thesis
    by (auto simp: n ngoAdminRegister_def volunteerRegister_def)
qed

text \<open>
  Claim C4, amended. An authenticated principal (\<open>req.user\<close> is an object, with the
  \<open>type\<close> \<open>t\<close>) that fails the predicate of an operation is answered

  \<^item> with 401 by every handler that admits \<open>admin\<close> only, once the validator chain of the
    handler, where it has one, has passed;
  \<^item> with 401 by the by-id report handlers and the by-id volunteer-attendance handlers,
    once the resource is loaded, and by \<open>createVolunteerAttendance\<close> (the two update
    handlers and the create handler destructure the body first, so the body must be an
    object);
  \<^item> with 401 by the volunteer handlers, on the test of the role and on the test of the
    task of the loaded volunteer;
  \<^item> by the registration handlers \<open>ngoAdminRegister\<close> and \<open>volunteerRegister\<close> with 403
    when the password of the body has been hashed, and with 500 when reading the body or
    hashing it throws, which happens before the role is tested; no record is created.
\<close>

theorem denial_statuses:
  assumes "get_prop (user req) ''type'' = Inr t"
  shows
  "(t \<noteq> JStr ''admin'' \<longrightarrow>
      adminMiddleware req =
        Inr (Responded (send 401 ''Unauthorized. Only admin users can access this resource.'')) \<and>
      getAllDonors parsed_query found req =
        Inr (send 401 ''Unauthorized. Only admin users can view donors.'') \<and>
      getDonorById findByPk req =
        Inr (send 401 ''Unauthorized. Only admin users can view donors.'') \<and>
      createDonor create req db =
        Inr (send 401 ''Unauthorized. Only admin users can create new donors.'', db) \<and>
      updateDonor findByPk update req db =
        Inr (send 401 ''Unauthorized. Only admin users can update donors.'', db) \<and>
      deleteDonor findByPk destroy req db =
        Inr (send 401 ''Unauthorized. Only admin users can delete donors.'', db) \<and>
      getAllEvents parsed_query found req =
        Inr (send 401 ''Unauthorized. Only admin users can view events.'') \<and>
      getEventById findByPk req =
        Inr (send 401 ''Unauthorized. Only admin users can view events.'') \<and>
      createEvent create req db =
        Inr (send 401 ''Unauthorized. Only admin users can create new events.'', db) \<and>
      updateEvent findByPk update req db =
        Inr (send 401 ''Unauthorized. Only admin users can update events.'', db) \<and>
      deleteEvent findByPk destroy req db =
        Inr (send 401 ''Unauthorized. Only admin users can delete events.'', db) \<and>
      deleteAdmin findByPk destroy req db =
        Inr (send 401 ''Unauthorized. Only admin users can delete admin accounts.'', db)) \<and>
   (t \<noteq> JStr ''admin'' \<and> validation_errors req = [] \<longrightarrow>
      getAllBeneficiaries page limit found req =
        Inr (send 401 ''Unauthorized. Only admin users can view beneficiaries.'') \<and>
      getBeneficiaryById findByPk req =
        Inr (send 401 ''Unauthorized. Only admin users can view beneficiaries.'') \<and>
      createBeneficiary create req db =
        Inr (send 401 ''Unauthorized. Only admin users can create beneficiaries.'', db) \<and>
      updateBeneficiary findByPk update req db =
        Inr (send 401 ''Unauthorized. Only admin users can update beneficiaries.'', db) \<and>
      deleteBeneficiary findByPk destroy req db =
        Inr (send 401 ''Unauthorized. Only admin users can delete beneficiaries.'', db) \<and>
      getAllProjects page limit found req =
        Inr (send 401 ''Unauthorized. Only admin users can view projects.'') \<and>
      getProjectById findByPk req =
        Inr (send 401 ''Unauthorized. Only admin users can view projects.'') \<and>
      createProject create req db =
        Inr (send 401 ''Unauthorized. Only admin users can create projects.'', db) \<and>
      updateProjectById findByPk save req db =
        Inr (send 401 ''Unauthorized. Only admin users can update projects.'', db) \<and>
      deleteProjectById findByPk destroy req db =
        Inr (send 401 ''Unauthorized. Only admin users can delete projects.'', db) \<and>
      getAllEmployees page limit found req =
        Inr (send 401 ''Unauthorized. Only admin users can view employees.'') \<and>
      getEmployeeById findByPk req =
        Inr (send 401 ''Unauthorized. Only admin users can view employees.'') \<and>
      createEmployee create req db =
        Inr (send 401 ''Unauthorized. Only admin users can create employees.'', db) \<and>
      updateEmployee update_where findByPk_after req db =
        Inr (send 401 ''Unauthorized. Only admin users can update employees.'', db) \<and>
      deleteEmployee destroy_where req db =
        Inr (send 401 ''Unauthorized. Only admin users can delete employees.'', db) \<and>
      getAllUsers page limit found req =
        Inr (send 401 ''Unauthorized. Only admin users can view users.'') \<and>
      getUserById findByPk req =
        Inr (send 401 ''Unauthorized. Only admin users can view users.'') \<and>
      createUser create req db =
        Inr (send 401 ''Unauthorized. Only admin users can create new users.'', db) \<and>
      updateUser findByPk update req db =
        Inr (send 401 ''Unauthorized. Only admin users can update users.'', db) \<and>
      deleteUser findByPk destroy req db =
        Inr (send 401 ''Unauthorized. Only admin users can delete users.'', db) \<and>
      createAdmin create req db =
        Inr (send 401 ''Unauthorized. Only admin users can create other admins.'', db) \<and>
      updateAdmin findByPk update req db =
        Inr (send 401 ''Unauthorized. Only admin users can update admin details.'', db)) \<and>
   (validation_errors req = [] \<and> findByPk (param_id req) = Inr report \<and> truthy report \<and>
    report_access (user req) report = Inr False \<longrightarrow>
      getReportById findByPk req =
        send 401 ''Unauthorized. You do not have access to this report.'' \<and>
      deleteReportById findByPk destroy req db =
        (send 401 ''Unauthorized. You do not have access to delete this report.'', db) \<and>
      (req_body req \<noteq> JUndefined \<and> req_body req \<noteq> JNull \<longrightarrow>
         updateReportById findByPk save req db =
           Inr (send 401 ''Unauthorized. You do not have access to update this report.'', db))) \<and>
   (findByPk (param_id req) = Inr attendance \<and> truthy attendance \<and>
    attendance_check (user req) attendance school_msg batch_msg role_msg = Inr (Some refusal) \<longrightarrow>
      status (getVolunteerAttendanceById findByPk req) = 401 \<and>
      status (fst (deleteVolunteerAttendance findByPk destroy req db)) = 401 \<and>
      (req_body req \<noteq> JUndefined \<and> req_body req \<noteq> JNull \<longrightarrow>
         (\<exists>res. updateVolunteerAttendance findByPk save req db = Inr (res, db) \<and>
                status res = 401))) \<and>
   (get_prop (req_body req) ''batch_id'' = Inr batch_id \<and>
    create_attendance_check Batch_findByPk (user req) batch_id = Inr (Some create_refusal) \<longrightarrow>
      createVolunteerAttendance Batch_findByPk create req db = Inr (send 401 create_refusal, db)) \<and>
   (lacks_privileges (user req) = Inr True \<longrightarrow>
      getAllVolunteers parsed_query req =
        Inr (send 401 ''Unauthorized. User lacks the required privileges.'') \<and>
      getVolunteerById req =
        Inr (send 401 ''Unauthorized. User lacks the required privileges.'') \<and>
      createVolunteer User_findByPk req =
        Inr (send 401 ''Unauthorized. User lacks the required privileges.'') \<and>
      deleteVolunteerById findByPk destroy req db =
        Inr (send 401 ''Unauthorized. User lacks the required privileges.'', db) \<and>
      updateVolunteerById findByPk save req db =
        Inr (send 401 ''Unauthorized. User lacks the required privileges.'', db)) \<and>
   (lacks_privileges (user req) = Inr False \<and> findByPk (param_id req) = Inr volunteer \<and>
    truthy volunteer \<and> other_task (user req) volunteer = Inr True \<longrightarrow>
      deleteVolunteerById findByPk destroy req db =
        Inr (send 401 ''Unauthorized. User lacks the required privileges.'', db) \<and>
      (get_prop (req_body req) ''user_id'' = Inr user_id \<and> truthy user_id \<and>
       get_prop (req_body req) ''task_id'' = Inr task_id \<and> truthy task_id \<longrightarrow>
         updateVolunteerById findByPk save req db =
           Inr (send 401 ''Unauthorized. User lacks the required privileges.'', db))) \<and>
   (t \<noteq> JStr ''admin'' \<longrightarrow>
      (get_prop (req_body req) ''username'' = Inr username \<and>
       get_prop (req_body req) ''password'' = Inr password \<and>
       hashSync password 8 = Inr hashed \<longrightarrow>
         ngoAdminRegister hashSync create req db =
           (send 403 ''Access denied. Only admin can create school admins.'', db) \<and>
         volunteerRegister hashSync create req db =
           (send 403 ''Access denied. Only admin can create volunteers.'', db)) \<and>
      (get_prop (req_body req) ''username'' = Inr username \<and>
       get_prop (req_body req) ''password'' = Inr password \<and>
       hashSync password 8 = Inl thrown \<longrightarrow>
         ngoAdminRegister hashSync create req db = (send 500 ''Error on the server.'', db) \<and>
         volunteerRegister hashSync create req db = (send 500 ''Error on the server.'', db)) \<and>
      (get_prop (req_body req) ''username'' = Inl thrown \<longrightarrow>
         ngoAdminRegister hashSync create req db = (send 500 ''Error on the server.'', db) \<and>
         volunteerRegister hashSync create req db = (send 500 ''Error on the server.'', db)))"
  by (intro conjI)
     (rule admin_only_denied[OF assms], rule validated_admin_only_denied[OF assms],
      rule report_denied, rule attendance_denied, rule create_attendance_denied,
      rule volunteer_gate_denied, rule volunteer_scope_denied,
      rule registration_denied[OF assms])

text \<open>
  A run of the amended C4. The volunteer carol sends every operation a request that
  passes its validator chain, where it has one (by-id, listing and update requests, and
  create requests with the bodies above); the coordinator omar, assigned to task 1,
  addresses the volunteer 3, who works on task 2.
\<close>

theorem denial_statuses_witness:
  "adminMiddleware carol_request =
     Inr (Responded \<lparr>status = 401, body = JStr ''Unauthorized. Only admin users can access this resource.''\<rparr>) \<and>
   getAllDonors (Inr (1, 10)) (Inr ([row3], 1)) carol_request =
     Inr \<lparr>status = 401, body = JStr ''Unauthorized. Only admin users can view donors.''\<rparr> \<and>
   getDonorById demo_rows carol_request =
     Inr \<lparr>status = 401, body = JStr ''Unauthorized. Only admin users can view donors.''\<rparr> \<and>
   createDonor mem_create carol_request [row3] =
     Inr (\<lparr>status = 401, body = JStr ''Unauthorized. Only admin users can create new donors.''\<rparr>, [row3]) \<and>
   updateDonor demo_rows (\<lambda>row values tbl. Inr (row, tbl)) carol_request [row3] =
     Inr (\<lparr>status = 401, body = JStr ''Unauthorized. Only admin users can update donors.''\<rparr>, [row3]) \<and>
   deleteDonor demo_rows (\<lambda>r tbl. Inr (removeAll r tbl)) carol_request [row3] =
     Inr (\<lparr>status = 401, body = JStr ''Unauthorized. Only admin users can delete donors.''\<rparr>, [row3]) \<and>
   getAllEvents (Inr (1, 10)) (Inr ([row3], 1)) carol_request =
     Inr \<lparr>status = 401, body = JStr ''Unauthorized. Only admin users can view events.''\<rparr> \<and>
   getEventById demo_rows carol_request =
     Inr \<lparr>status = 401, body = JStr ''Unauthorized. Only admin users can view events.''\<rparr> \<and>
   createEvent mem_create carol_request [row3] =
     Inr (\<lparr>status = 401, body = JStr ''Unauthorized. Only admin users can create new events.''\<rparr>, [row3]) \<and>
   updateEvent demo_rows (\<lambda>row values tbl. Inr (row, tbl)) carol_request [row3] =
     Inr (\<lparr>status = 401, body = JStr ''Unauthorized. Only admin users can update events.''\<rparr>, [row3]) \<and>
   deleteEvent demo_rows (\<lambda>r tbl. Inr (removeAll r tbl)) carol_request [row3] =
     Inr (\<lparr>status = 401, body = JStr ''Unauthorized. Only admin users can delete events.''\<rparr>, [row3]) \<and>
   deleteAdmin demo_rows (\<lambda>r tbl. Inr (removeAll r tbl)) carol_request [row3] =
     Inr (\<lparr>status = 401, body = JStr ''Unauthorized. Only admin users can delete admin accounts.''\<rparr>, [row3]) \<and>
   getAllBeneficiaries 1 10 (Inr ([row3], 1)) carol_request =
     Inr \<lparr>status = 401, body = JStr ''Unauthorized. Only admin users can view beneficiaries.''\<rparr> \<and>
   getBeneficiaryById demo_rows carol_request =
     Inr \<lparr>status = 401, body = JStr ''Unauthorized. Only admin users can view beneficiaries.''\<rparr> \<and>
   updateBeneficiary demo_rows (\<lambda>row values tbl. Inr (row, tbl)) carol_request [row3] =
     Inr (\<lparr>status = 401, body = JStr ''Unauthorized. Only admin users can update beneficiaries.''\<rparr>, [row3]) \<and>
   deleteBeneficiary demo_rows (\<lambda>r tbl. Inr (removeAll r tbl)) carol_request [row3] =
     Inr (\<lparr>status = 401, body = JStr ''Unauthorized. Only admin users can delete beneficiaries.''\<rparr>, [row3]) \<and>
   getAllProjects 1 10 (Inr ([row3], 1)) carol_request =
     Inr \<lparr>status = 401, body = JStr ''Unauthorized. Only admin users can view projects.''\<rparr> \<and>
   getProjectById demo_rows carol_request =
     Inr \<lparr>status = 401, body = JStr ''Unauthorized. Only admin users can view projects.''\<rparr> \<and>
   deleteProjectById demo_rows (\<lambda>r tbl. Inr (removeAll r tbl)) carol_request [row3] =
     Inr (\<lparr>status = 401, body = JStr ''Unauthorized. Only admin users can delete projects.''\<rparr>, [row3]) \<and>
   getAllEmployees 1 10 (Inr ([row3], 1)) carol_request =
     Inr \<lparr>status = 401, body = JStr ''Unauthorized. Only admin users can view employees.''\<rparr> \<and>
   getEmployeeById demo_rows carol_request =
     Inr \<lparr>status = 401, body = JStr ''Unauthorized. Only admin users can view employees.''\<rparr> \<and>
   updateEmployee (\<lambda>values i tbl. Inr (0, tbl)) (\<lambda>tbl. demo_rows) carol_request [row3] =
     Inr (\<lparr>status = 401, body = JStr ''Unauthorized. Only admin users can update employees.''\<rparr>, [row3]) \<and>
   deleteEmployee (\<lambda>i tbl. Inr (0, tbl)) carol_request [row3] =
     Inr (\<lparr>status = 401, body = JStr ''Unauthorized. Only admin users can delete employees.''\<rparr>, [row3]) \<and>
   getAllUsers 1 10 (Inr ([row3], 1)) carol_request =
     Inr \<lparr>status = 401, body = JStr ''Unauthorized. Only admin users can view users.''\<rparr> \<and>
   getUserById demo_rows carol_request =
     Inr \<lparr>status = 401, body = JStr ''Unauthorized. Only admin users can view users.''\<rparr> \<and>
   updateUser demo_rows (\<lambda>row values tbl. Inr (row, tbl)) carol_request [row3] =
     Inr (\<lparr>status = 401, body = JStr ''Unauthorized. Only admin users can update users.''\<rparr>, [row3]) \<and>
   deleteUser demo_rows (\<lambda>r tbl. Inr (removeAll r tbl)) carol_request [row3] =
     Inr (\<lparr>status = 401, body = JStr ''Unauthorized. Only admin users can delete users.''\<rparr>, [row3]) \<and>
   updateAdmin demo_rows (\<lambda>row values tbl. Inr (row, tbl)) carol_request [row3] =
     Inr (\<lparr>status = 401, body = JStr ''Unauthorized. Only admin users can update admin details.''\<rparr>, [row3]) \<and>
   createBeneficiary mem_create (carol_request\<lparr>req_body := beneficiary_payload\<rparr>) [row3] =
     Inr (\<lparr>status = 401, body = JStr ''Unauthorized. Only admin users can create beneficiaries.''\<rparr>, [row3]) \<and>
   createProject mem_create (carol_request\<lparr>req_body := project_payload\<rparr>) [row3] =
     Inr (\<lparr>status = 401, body = JStr ''Unauthorized. Only admin users can create projects.''\<rparr>, [row3]) \<and>
   updateProjectById demo_rows (\<lambda>r tbl. Inr (r # tbl)) (carol_request\<lparr>req_body := project_payload\<rparr>) [row3] =
     Inr (\<lparr>status = 401, body = JStr ''Unauthorized. Only admin users can update projects.''\<rparr>, [row3]) \<and>
   createEmployee mem_create (carol_request\<lparr>req_body := employee_payload\<rparr>) [row3] =
     Inr (\<lparr>status = 401, body = JStr ''Unauthorized. Only admin users can create employees.''\<rparr>, [row3]) \<and>
   createUser mem_create (carol_request\<lparr>req_body := user_payload\<rparr>) [row3] =
     Inr (\<lparr>status = 401, body = JStr ''Unauthorized. Only admin users can create new users.''\<rparr>, [row3]) \<and>
   createAdmin mem_create (carol_request\<lparr>req_body := admin_payload\<rparr>) [row3] =
     Inr (\<lparr>status = 401, body = JStr ''Unauthorized. Only admin users can create other admins.''\<rparr>, [row3]) \<and>
   getReportById demo_reports carol_request =
     \<lparr>status = 401, body = JStr ''Unauthorized. You do not have access to this report.''\<rparr> \<and>
   deleteReportById demo_reports (\<lambda>r tbl. Inr (removeAll r tbl)) carol_request [report3] =
     (\<lparr>status = 401, body = JStr ''Unauthorized. You do not have access to delete this report.''\<rparr>, [report3]) \<and>
   updateReportById demo_reports (\<lambda>r tbl. Inr (r # tbl)) carol_request [report3] =
     Inr (\<lparr>status = 401, body = JStr ''Unauthorized. You do not have access to update this report.''\<rparr>, [report3]) \<and>
   status (getVolunteerAttendanceById demo_attendance carol_request) = 401 \<and>
   status (fst (deleteVolunteerAttendance demo_attendance (\<lambda>r tbl. Inr (removeAll r tbl))
                  carol_request [attendance3])) = 401 \<and>
   (\<exists>res. updateVolunteerAttendance demo_attendance (\<lambda>r tbl. Inr (r # tbl)) carol_request [attendance3]
            = Inr (res, [attendance3]) \<and> status res = 401) \<and>
   createVolunteerAttendance demo_rows mem_create (carol_request\<lparr>req_body := attendance_payload\<rparr>) [row3] =
     Inr (\<lparr>status = 401, body = JStr ''Unauthorized. Only admins, school admins, and employees can create volunteer attendance.''\<rparr>, [row3]) \<and>
   getAllVolunteers (Inr (1, 10)) carol_request =
     Inr \<lparr>status = 401, body = JStr ''Unauthorized. User lacks the required privileges.''\<rparr> \<and>
   getVolunteerById carol_request =
     Inr \<lparr>status = 401, body = JStr ''Unauthorized. User lacks the required privileges.''\<rparr> \<and>
   createVolunteer (mem_findByPk seeded_users) carol_request =
     Inr \<lparr>status = 401, body = JStr ''Unauthorized. User lacks the required privileges.''\<rparr> \<and>
   deleteVolunteerById demo_rows (\<lambda>r tbl. Inr (removeAll r tbl)) carol_request [row3] =
     Inr (\<lparr>status = 401, body = JStr ''Unauthorized. User lacks the required privileges.''\<rparr>, [row3]) \<and>
   updateVolunteerById demo_rows (\<lambda>r tbl. Inr (r # tbl)) carol_request [row3] =
     Inr (\<lparr>status = 401, body = JStr ''Unauthorized. User lacks the required privileges.''\<rparr>, [row3]) \<and>
   deleteVolunteerById demo_volunteers (\<lambda>r tbl. Inr (removeAll r tbl)) omar_request [volunteer3] =
     Inr (\<lparr>status = 401, body = JStr ''Unauthorized. User lacks the required privileges.''\<rparr>, [volunteer3]) \<and>
   updateVolunteerById demo_volunteers (\<lambda>r tbl. Inr (r # tbl)) omar_request [volunteer3] =
     Inr (\<lparr>status = 401, body = JStr ''Unauthorized. User lacks the required privileges.''\<rparr>, [volunteer3]) \<and>
   ngoAdminRegister (bcrypt_hashSync demo_kdf demo_salt) mem_create carol_request seeded_users =
     (\<lparr>status = 403, body = JStr ''Access denied. Only admin can create school admins.''\<rparr>, seeded_users) \<and>
   volunteerRegister (bcrypt_hashSync demo_kdf demo_salt) mem_create carol_request seeded_users =
     (\<lparr>status = 403, body = JStr ''Access denied. Only admin can create volunteers.''\<rparr>, seeded_users) \<and>
   ngoAdminRegister (bcrypt_hashSync demo_kdf demo_salt) mem_create (carol_request\<lparr>req_body := no_password_payload\<rparr>) seeded_users =
     (\<lparr>status = 500, body = JStr ''Error on the server.''\<rparr>, seeded_users) \<and>
   volunteerRegister (bcrypt_hashSync demo_kdf demo_salt) mem_create (carol_request\<lparr>req_body := no_password_payload\<rparr>) seeded_users =
     (\<lparr>status = 500, body = JStr ''Error on the server.''\<rparr>, seeded_users)"
proof -
  have t: "get_prop (user carol_request) ''type'' = Inr (JStr ''volunteer'')"
    by (simp add: carol_request_def)
  have t': "get_prop (user (carol_request\<lparr>req_body := payload\<rparr>)) ''type'' = Inr (JStr ''volunteer'')"
    for payload by (simp add: carol_request_def)
  have o: "get_prop (user omar_request) ''type'' = Inr (JStr ''coordinator'')"
    by (simp add: omar_request_def)
  have v: "validation_errors carol_request = []"
    by (simp add: carol_request_def)
  have v': "validation_errors (carol_request\<lparr>req_body := payload\<rparr>) = []" for payload
    by (simp add: carol_request_def)
  have r: "validation_errors carol_request = [] \<and> demo_reports (param_id carol_request) = Inr report3 \<and>
           truthy report3 \<and> report_access (user carol_request) report3 = Inr False"
    by (simp add: carol_request_def demo_reports_def report3_def report_access_def scoped_owner_def)
  have b: "req_body carol_request \<noteq> JUndefined \<and> req_body carol_request \<noteq> JNull"
    by (simp add: carol_request_def)
  have h: "get_prop (req_body carol_request) ''username'' = Inr (JStr ''dave'') \<and>
           get_prop (req_body carol_request) ''password'' = Inr (JStr ''pw'') \<and>
           bcrypt_hashSync demo_kdf demo_salt (JStr ''pw'') 8 =
             Inr (format_hash 8 demo_salt (demo_kdf 8 demo_salt ''pw''))"
    by (simp add: carol_request_def bcrypt_hashSync_def)
  have att: "demo_attendance (param_id carol_request) = Inr attendance3 \<and> truthy attendance3 \<and>
      attendance_check (user carol_request) attendance3 ''a'' ''b'' ''c'' = Inr (Some ''c'')"
    by (simp add: carol_request_def demo_attendance_def attendance3_def attendance_check_def)
  have p1:
    "adminMiddleware carol_request =
       Inr (Responded \<lparr>status = 401, body = JStr ''Unauthorized. Only admin users can access this resource.''\<rparr>) \<and>
     getAllDonors (Inr (1, 10)) (Inr ([row3], 1)) carol_request =
       Inr \<lparr>status = 401, body = JStr ''Unauthorized. Only admin users can view donors.''\<rparr> \<and>
     getDonorById demo_rows carol_request =
       Inr \<lparr>status = 401, body = JStr ''Unauthorized. Only admin users can view donors.''\<rparr> \<and>
     createDonor mem_create carol_request [row3] =
       Inr (\<lparr>status = 401, body = JStr ''Unauthorized. Only admin users can create new donors.''\<rparr>, [row3]) \<and>
     updateDonor demo_rows (\<lambda>row values tbl. Inr (row, tbl)) carol_request [row3] =
       Inr (\<lparr>status = 401, body = JStr ''Unauthorized. Only admin users can update donors.''\<rparr>, [row3]) \<and>
     deleteDonor demo_rows (\<lambda>r tbl. Inr (removeAll r tbl)) carol_request [row3] =
       Inr (\<lparr>status = 401, body = JStr ''Unauthorized. Only admin users can delete donors.''\<rparr>, [row3]) \<and>
     getAllEvents (Inr (1, 10)) (Inr ([row3], 1)) carol_request =
       Inr \<lparr>status = 401, body = JStr ''Unauthorized. Only admin users can view events.''\<rparr> \<and>
     getEventById demo_rows carol_request =
       Inr \<lparr>status = 401, body = JStr ''Unauthorized. Only admin users can view events.''\<rparr> \<and>
     createEvent mem_create carol_request [row3] =
       Inr (\<lparr>status = 401, body = JStr ''Unauthorized. Only admin users can create new events.''\<rparr>, [row3]) \<and>
     updateEvent demo_rows (\<lambda>row values tbl. Inr (row, tbl)) carol_request [row3] =
       Inr (\<lparr>status = 401, body = JStr ''Unauthorized. Only admin users can update events.''\<rparr>, [row3]) \<and>
     deleteEvent demo_rows (\<lambda>r tbl. Inr (removeAll r tbl)) carol_request [row3] =
       Inr (\<lparr>status = 401, body = JStr ''Unauthorized. Only admin users can delete events.''\<rparr>, [row3]) \<and>
     deleteAdmin demo_rows (\<lambda>r tbl. Inr (removeAll r tbl)) carol_request [row3] =
       Inr (\<lparr>status = 401, body = JStr ''Unauthorized. Only admin users can delete admin accounts.''\<rparr>, [row3])"
    using denial_statuses[where req="carol_request" and db="[row3]" and parsed_query="Inr (1, 10)" and
        found="Inr ([row3], 1)" and findByPk="demo_rows" and create="mem_create" and
        update="\<lambda>row values tbl. Inr (row, tbl)" and
        destroy="\<lambda>r tbl. Inr (removeAll r tbl)" and t="JStr ''volunteer''",
        OF t, THEN conjunct1]
    by (simp add: send_def)
  have p2:
    "getAllBeneficiaries 1 10 (Inr ([row3], 1)) carol_request =
       Inr \<lparr>status = 401, body = JStr ''Unauthorized. Only admin users can view beneficiaries.''\<rparr> \<and>
     getBeneficiaryById demo_rows carol_request =
       Inr \<lparr>status = 401, body = JStr ''Unauthorized. Only admin users can view beneficiaries.''\<rparr> \<and>
     updateBeneficiary demo_rows (\<lambda>row values tbl. Inr (row, tbl)) carol_request [row3] =
       Inr (\<lparr>status = 401, body = JStr ''Unauthorized. Only admin users can update beneficiaries.''\<rparr>, [row3]) \<and>
     deleteBeneficiary demo_rows (\<lambda>r tbl. Inr (removeAll r tbl)) carol_request [row3] =
       Inr (\<lparr>status = 401, body = JStr ''Unauthorized. Only admin users can delete beneficiaries.''\<rparr>, [row3]) \<and>
     getAllProjects 1 10 (Inr ([row3], 1)) carol_request =
       Inr \<lparr>status = 401, body = JStr ''Unauthorized. Only admin users can view projects.''\<rparr> \<and>
     getProjectById demo_rows carol_request =
       Inr \<lparr>status = 401, body = JStr ''Unauthorized. Only admin users can view projects.''\<rparr> \<and>
     deleteProjectById demo_rows (\<lambda>r tbl. Inr (removeAll r tbl)) carol_request [row3] =
       Inr (\<lparr>status = 401, body = JStr ''Unauthorized. Only admin users can delete projects.''\<rparr>, [row3]) \<and>
     getAllEmployees 1 10 (Inr ([row3], 1)) carol_request =
       Inr \<lparr>status = 401, body = JStr ''Unauthorized. Only admin users can view employees.''\<rparr> \<and>
     getEmployeeById demo_rows carol_request =
       Inr \<lparr>status = 401, body = JStr ''Unauthorized. Only admin users can view employees.''\<rparr> \<and>
     updateEmployee (\<lambda>values i tbl. Inr (0, tbl)) (\<lambda>tbl. demo_rows) carol_request [row3] =
       Inr (\<lparr>status = 401, body = JStr ''Unauthorized. Only admin users can update employees.''\<rparr>, [row3]) \<and>
     deleteEmployee (\<lambda>i tbl. Inr (0, tbl)) carol_request [row3] =
       Inr (\<lparr>status = 401, body = JStr ''Unauthorized. Only admin users can delete employees.''\<rparr>, [row3]) \<and>
     getAllUsers 1 10 (Inr ([row3], 1)) carol_request =
       Inr \<lparr>status = 401, body = JStr ''Unauthorized. Only admin users can view users.''\<rparr> \<and>
     getUserById demo_rows carol_request =
       Inr \<lparr>status = 401, body = JStr ''Unauthorized. Only admin users can view users.''\<rparr> \<and>
     updateUser demo_rows (\<lambda>row values tbl. Inr (row, tbl)) carol_request [row3] =
       Inr (\<lparr>status = 401, body = JStr ''Unauthorized. Only admin users can update users.''\<rparr>, [row3]) \<and>
     deleteUser demo_rows (\<lambda>r tbl. Inr (removeAll r tbl)) carol_request [row3] =
       Inr (\<lparr>status = 401, body = JStr ''Unauthorized. Only admin users can delete users.''\<rparr>, [row3]) \<and>
     updateAdmin demo_rows (\<lambda>row values tbl. Inr (row, tbl)) carol_request [row3] =
       Inr (\<lparr>status = 401, body = JStr ''Unauthorized. Only admin users can update admin details.''\<rparr>, [row3])"
    using denial_statuses[where req="carol_request" and db="[row3]" and page="1" and limit="10" and
        found="Inr ([row3], 1)" and findByPk="demo_rows" and create="mem_create" and
        update="\<lambda>row values tbl. Inr (row, tbl)" and
        save="\<lambda>r tbl. Inr (r # tbl)" and
        destroy="\<lambda>r tbl. Inr (removeAll r tbl)" and
        update_where="\<lambda>values i tbl. Inr (0, tbl)" and
        findByPk_after="\<lambda>tbl. demo_rows" and
        destroy_where="\<lambda>i tbl. Inr (0, tbl)" and t="JStr ''volunteer''",
        OF t, THEN conjunct2, THEN conjunct1] v
    by (simp add: send_def)
  have q1:
    "createBeneficiary mem_create (carol_request\<lparr>req_body := beneficiary_payload\<rparr>) [row3] =
       Inr (\<lparr>status = 401, body = JStr ''Unauthorized. Only admin users can create beneficiaries.''\<rparr>, [row3])"
    using denial_statuses[where req="carol_request\<lparr>req_body := beneficiary_payload\<rparr>" and
        db="[row3]" and page="1" and limit="10" and found="Inr ([row3], 1)" and
        findByPk="demo_rows" and create="mem_create" and
        update="\<lambda>row values tbl. Inr (row, tbl)" and
        save="\<lambda>r tbl. Inr (r # tbl)" and
        destroy="\<lambda>r tbl. Inr (removeAll r tbl)" and
        update_where="\<lambda>values i tbl. Inr (0, tbl)" and
        findByPk_after="\<lambda>tbl. demo_rows" and
        destroy_where="\<lambda>i tbl. Inr (0, tbl)" and t="JStr ''volunteer''",
        OF t', THEN conjunct2, THEN conjunct1] v'
    by (simp add: send_def)
  have q2:
    "createProject mem_create (carol_request\<lparr>req_body := project_payload\<rparr>) [row3] =
       Inr (\<lparr>status = 401, body = JStr ''Unauthorized. Only admin users can create projects.''\<rparr>, [row3]) \<and>
     updateProjectById demo_rows (\<lambda>r tbl. Inr (r # tbl)) (carol_request\<lparr>req_body := project_payload\<rparr>) [row3] =
       Inr (\<lparr>status = 401, body = JStr ''Unauthorized. Only admin users can update projects.''\<rparr>, [row3])"
    using denial_statuses[where req="carol_request\<lparr>req_body := project_payload\<rparr>" and
        db="[row3]" and page="1" and limit="10" and found="Inr ([row3], 1)" and
        findByPk="demo_rows" and create="mem_create" and
        update="\<lambda>row values tbl. Inr (row, tbl)" and
        save="\<lambda>r tbl. Inr (r # tbl)" and
        destroy="\<lambda>r tbl. Inr (removeAll r tbl)" and
        update_where="\<lambda>values i tbl. Inr (0, tbl)" and
        findByPk_after="\<lambda>tbl. demo_rows" and
        destroy_where="\<lambda>i tbl. Inr (0, tbl)" and t="JStr ''volunteer''",
        OF t', THEN conjunct2, THEN conjunct1] v'
    by (simp add: send_def)
  have q3:
    "createEmployee mem_create (carol_request\<lparr>req_body := employee_payload\<rparr>) [row3] =
       Inr (\<lparr>status = 401, body = JStr ''Unauthorized. Only admin users can create employees.''\<rparr>, [row3])"
    using denial_statuses[where req="carol_request\<lparr>req_body := employee_payload\<rparr>" and
        db="[row3]" and page="1" and limit="10" and found="Inr ([row3], 1)" and
        findByPk="demo_rows" and create="mem_create" and
        update="\<lambda>row values tbl. Inr (row, tbl)" and
        save="\<lambda>r tbl. Inr (r # tbl)" and
        destroy="\<lambda>r tbl. Inr (removeAll r tbl)" and
        update_where="\<lambda>values i tbl. Inr (0, tbl)" and
        findByPk_after="\<lambda>tbl. demo_rows" and
        destroy_where="\<lambda>i tbl. Inr (0, tbl)" and t="JStr ''volunteer''",
        OF t', THEN conjunct2, THEN conjunct1] v'
    by (simp add: send_def)
  have q4:
    "createUser mem_create (carol_request\<lparr>req_body := user_payload\<rparr>) [row3] =
       Inr (\<lparr>status = 401, body = JStr ''Unauthorized. Only admin users can create new users.''\<rparr>, [row3])"
    using denial_statuses[where req="carol_request\<lparr>req_body := user_payload\<rparr>" and
        db="[row3]" and page="1" and limit="10" and found="Inr ([row3], 1)" and
        findByPk="demo_rows" and create="mem_create" and
        update="\<lambda>row values tbl. Inr (row, tbl)" and
        save="\<lambda>r tbl. Inr (r # tbl)" and
        destroy="\<lambda>r tbl. Inr (removeAll r tbl)" and
        update_where="\<lambda>values i tbl. Inr (0, tbl)" and
        findByPk_after="\<lambda>tbl. demo_rows" and
        destroy_where="\<lambda>i tbl. Inr (0, tbl)" and t="JStr ''volunteer''",
        OF t', THEN conjunct2, THEN conjunct1] v'
    by (simp add: send_def)
  have q5:
    "createAdmin mem_create (carol_request\<lparr>req_body := admin_payload\<rparr>) [row3] =
       Inr (\<lparr>status = 401, body = JStr ''Unauthorized. Only admin users can create other admins.''\<rparr>, [row3])"
    using denial_statuses[where req="carol_request\<lparr>req_body := admin_payload\<rparr>" and
        db="[row3]" and page="1" and limit="10" and found="Inr ([row3], 1)" and
        findByPk="demo_rows" and create="mem_create" and
        update="\<lambda>row values tbl. Inr (row, tbl)" and
        save="\<lambda>r tbl. Inr (r # tbl)" and
        destroy="\<lambda>r tbl. Inr (removeAll r tbl)" and
        update_where="\<lambda>values i tbl. Inr (0, tbl)" and
        findByPk_after="\<lambda>tbl. demo_rows" and
        destroy_where="\<lambda>i tbl. Inr (0, tbl)" and t="JStr ''volunteer''",
        OF t', THEN conjunct2, THEN conjunct1] v'
    by (simp add: send_def)
  have p3:
    "getReportById demo_reports carol_request =
       \<lparr>status = 401, body = JStr ''Unauthorized. You do not have access to this report.''\<rparr> \<and>
     deleteReportById demo_reports (\<lambda>r tbl. Inr (removeAll r tbl)) carol_request [report3] =
       (\<lparr>status = 401, body = JStr ''Unauthorized. You do not have access to delete this report.''\<rparr>, [report3]) \<and>
     updateReportById demo_reports (\<lambda>r tbl. Inr (r # tbl)) carol_request [report3] =
       Inr (\<lparr>status = 401, body = JStr ''Unauthorized. You do not have access to update this report.''\<rparr>, [report3])"
    using denial_statuses[where req="carol_request" and db="[report3]" and findByPk="demo_reports" and
        save="\<lambda>r tbl. Inr (r # tbl)" and
        destroy="\<lambda>r tbl. Inr (removeAll r tbl)" and t="JStr ''volunteer''" and
        report=report3,
        OF t, THEN conjunct2, THEN conjunct2, THEN conjunct1] r b
    by (simp add: send_def)
  have p4:
    "status (getVolunteerAttendanceById demo_attendance carol_request) = 401 \<and>
     status (fst (deleteVolunteerAttendance demo_attendance (\<lambda>r tbl. Inr (removeAll r tbl))
                    carol_request [attendance3])) = 401 \<and>
     (\<exists>res. updateVolunteerAttendance demo_attendance (\<lambda>r tbl. Inr (r # tbl)) carol_request [attendance3]
              = Inr (res, [attendance3]) \<and> status res = 401)"
    using denial_statuses[where req="carol_request" and db="[attendance3]" and findByPk="demo_attendance" and
        save="\<lambda>r tbl. Inr (r # tbl)" and
        destroy="\<lambda>r tbl. Inr (removeAll r tbl)" and t="JStr ''volunteer''" and
        attendance=attendance3 and school_msg="''a''" and batch_msg="''b''" and
        role_msg="''c''" and refusal="''c''",
        OF t, THEN conjunct2, THEN conjunct2, THEN conjunct2, THEN conjunct1] att b
    by simp
  have p5:
    "createVolunteerAttendance demo_rows mem_create (carol_request\<lparr>req_body := attendance_payload\<rparr>) [row3] =
       Inr (\<lparr>status = 401, body = JStr ''Unauthorized. Only admins, school admins, and employees can create volunteer attendance.''\<rparr>, [row3])"
    using denial_statuses[where req="carol_request\<lparr>req_body := attendance_payload\<rparr>" and
        db="[row3]" and create="mem_create" and Batch_findByPk="demo_rows" and
        t="JStr ''volunteer''" and batch_id="JNum 2" and
        create_refusal="''Unauthorized. Only admins, school admins, and employees can create volunteer attendance.''",
        OF t', THEN conjunct2, THEN conjunct2, THEN conjunct2, THEN conjunct2,
        THEN conjunct1]
    by (simp add: send_def create_attendance_check_def carol_request_def attendance_payload_def)
  have p6:
    "getAllVolunteers (Inr (1, 10)) carol_request =
       Inr \<lparr>status = 401, body = JStr ''Unauthorized. User lacks the required privileges.''\<rparr> \<and>
     getVolunteerById carol_request =
       Inr \<lparr>status = 401, body = JStr ''Unauthorized. User lacks the required privileges.''\<rparr> \<and>
     createVolunteer (mem_findByPk seeded_users) carol_request =
       Inr \<lparr>status = 401, body = JStr ''Unauthorized. User lacks the required privileges.''\<rparr> \<and>
     deleteVolunteerById demo_rows (\<lambda>r tbl. Inr (removeAll r tbl)) carol_request [row3] =
       Inr (\<lparr>status = 401, body = JStr ''Unauthorized. User lacks the required privileges.''\<rparr>, [row3]) \<and>
     updateVolunteerById demo_rows (\<lambda>r tbl. Inr (r # tbl)) carol_request [row3] =
       Inr (\<lparr>status = 401, body = JStr ''Unauthorized. User lacks the required privileges.''\<rparr>, [row3])"
    using denial_statuses[where req="carol_request" and db="[row3]" and parsed_query="Inr (1, 10)" and
        findByPk="demo_rows" and save="\<lambda>r tbl. Inr (r # tbl)" and
        destroy="\<lambda>r tbl. Inr (removeAll r tbl)" and
        User_findByPk="mem_findByPk seeded_users" and t="JStr ''volunteer''",
        OF t, THEN conjunct2, THEN conjunct2, THEN conjunct2, THEN conjunct2,
        THEN conjunct2, THEN conjunct1]
    by (simp add: send_def lacks_privileges_def carol_request_def)
  have p7:
    "deleteVolunteerById demo_volunteers (\<lambda>r tbl. Inr (removeAll r tbl)) omar_request [volunteer3] =
       Inr (\<lparr>status = 401, body = JStr ''Unauthorized. User lacks the required privileges.''\<rparr>, [volunteer3]) \<and>
     updateVolunteerById demo_volunteers (\<lambda>r tbl. Inr (r # tbl)) omar_request [volunteer3] =
       Inr (\<lparr>status = 401, body = JStr ''Unauthorized. User lacks the required privileges.''\<rparr>, [volunteer3])"
    using denial_statuses[where req="omar_request" and db="[volunteer3]" and findByPk="demo_volunteers" and
        save="\<lambda>r tbl. Inr (r # tbl)" and
        destroy="\<lambda>r tbl. Inr (removeAll r tbl)" and
        t="JStr ''coordinator''" and volunteer=volunteer3 and user_id="JNum 9" and
        task_id="JNum 1",
        OF o, THEN conjunct2, THEN conjunct2, THEN conjunct2, THEN conjunct2,
        THEN conjunct2, THEN conjunct2, THEN conjunct1]
    by (simp add: send_def lacks_privileges_def other_task_def omar_request_def
          demo_volunteers_def volunteer3_def)
  have p8:
    "ngoAdminRegister (bcrypt_hashSync demo_kdf demo_salt) mem_create carol_request seeded_users =
       (\<lparr>status = 403, body = JStr ''Access denied. Only admin can create school admins.''\<rparr>, seeded_users) \<and>
     volunteerRegister (bcrypt_hashSync demo_kdf demo_salt) mem_create carol_request seeded_users =
       (\<lparr>status = 403, body = JStr ''Access denied. Only admin can create volunteers.''\<rparr>, seeded_users)"
    using denial_statuses[where req="carol_request" and db="seeded_users" and create="mem_create" and
        hashSync="bcrypt_hashSync demo_kdf demo_salt" and t="JStr ''volunteer''" and
        username="JStr ''dave''" and password="JStr ''pw''" and
        hashed="format_hash 8 demo_salt (demo_kdf 8 demo_salt ''pw'')" and
        thrown="Error ''ValidationError'' ''missing plaintext''",
        OF t, THEN conjunct2, THEN conjunct2, THEN conjunct2, THEN conjunct2,
        THEN conjunct2, THEN conjunct2, THEN conjunct2] h
    by (simp add: send_def)
  have p9:
    "ngoAdminRegister (bcrypt_hashSync demo_kdf demo_salt) mem_create (carol_request\<lparr>req_body := no_password_payload\<rparr>) seeded_users =
       (\<lparr>status = 500, body = JStr ''Error on the server.''\<rparr>, seeded_users) \<and>
     volunteerRegister (bcrypt_hashSync demo_kdf demo_salt) mem_create (carol_request\<lparr>req_body := no_password_payload\<rparr>) seeded_users =
       (\<lparr>status = 500, body = JStr ''Error on the server.''\<rparr>, seeded_users)"
    using denial_statuses[where req="carol_request\<lparr>req_body := no_password_payload\<rparr>" and
        db="seeded_users" and create="mem_create" and
        hashSync="bcrypt_hashSync demo_kdf demo_salt" and t="JStr ''volunteer''" and
        username="JStr ''dave''" and password=JUndefined and hashed="''''" and
        thrown="Error ''ValidationError'' ''missing plaintext''",
        OF t', THEN conjunct2, THEN conjunct2, THEN conjunct2, THEN conjunct2,
        THEN conjunct2, THEN conjunct2, THEN conjunct2]
    by (simp add: send_def carol_request_def no_password_payload_def bcrypt_hashSync_def)
  from p1 p2 q1 q2 q3 q4 q5 p3 p4 p5 p6 p7 p8 p9
  show ?thesis by simp
qed

section \<open>Properties of the beneficiary handlers\<close>

text \<open>
  The response of a successful \<open>createBeneficiary\<close> is the created row as the store
  returned it; the two read handlers delete \<open>password\<close> from every row they send.
\<close>

lemma createBeneficiary_body_is_created_row:
  "createBeneficiary create req db = Inr (res, db') \<Longrightarrow> status res = 201 \<Longrightarrow>
   create (req_body req) db = Inr (body res, db')"
  by (auto simp: createBeneficiary_def validation_failed_def internal_error_def json_def send_def
      split: if_splits sum.splits prod.splits)

lemma keys_delete_prop: "k \<notin> set (keys (delete_prop k v))"
  by (cases v) auto

lemma getBeneficiaryById_strips_password:
  "getBeneficiaryById findByPk req = Inr res \<Longrightarrow> status res = 200 \<Longrightarrow>
   ''password'' \<notin> set (keys (body res))"
  by (auto simp: getBeneficiaryById_def validation_failed_def internal_error_def json_def send_def
        keys_delete_prop split: if_splits sum.splits)

lemma getAllBeneficiaries_strips_password:
  "getAllBeneficiaries page limit found req = Inr res \<Longrightarrow> status res = 200 \<Longrightarrow>
   \<exists>rows. get_prop (body res) ''data'' = Inr (JArr rows) \<and>
          (\<forall>row \<in> set rows. ''password'' \<notin> set (keys row))"
  by (auto simp: getAllBeneficiaries_def validation_failed_def internal_error_def json_def send_def
        keys_delete_prop split: if_splits sum.splits prod.splits)

text \<open>
  Claim C6. The claim: no response body carries the password stored in a credential
  record; every response that serialises a user or beneficiary record has the password
  removed. \<open>createBeneficiary\<close> breaks it: the admin alice creates the beneficiary
  \<open>ben\<close>, and the 201 response is the stored row, \<open>password\<close> included.
\<close>

theorem createBeneficiary_returns_password:
  "createBeneficiary mem_create
     ((inbound (Some ''Bearer stale'')
        (JObj [(''username'', JStr ''ben''), (''password'', JStr ''hunter2''),
               (''type'', JStr ''beneficiary''), (''email'', JStr ''ben@example.org'')]))
      \<lparr>user := JObj [(''id'', JNum 7), (''type'', JStr ''admin'')]\<rparr>) []
   = Inr (\<lparr>status = 201,
            body = JObj [(''username'', JStr ''ben''), (''password'', JStr ''hunter2''),
                         (''type'', JStr ''beneficiary''), (''email'', JStr ''ben@example.org'')]\<rparr>,
          [JObj [(''username'', JStr ''ben''), (''password'', JStr ''hunter2''),
                 (''type'', JStr ''beneficiary''), (''email'', JStr ''ben@example.org'')]])"
  by (simp add: createBeneficiary_def inbound_def mem_create_def json_def)

section \<open>Properties of the registration handlers\<close>

lemma ngoAdminRegister_requires_admin:
  assumes "\<not> requester_is_admin req"
  shows "snd (ngoAdminRegister hashSync create req db) = db \<and>
         (status (fst (ngoAdminRegister hashSync create req db)) = 403 \<or>
          status (fst (ngoAdminRegister hashSync create req db)) = 500)"
  using assms by (auto simp: ngoAdminRegister_def send_def Let_def split: sum.splits)

lemma volunteerRegister_requires_admin:
  assumes "\<not> requester_is_admin req"
  shows "snd (volunteerRegister hashSync create req db) = db \<and>
         (status (fst (volunteerRegister hashSync create req db)) = 403 \<or>
          status (fst (volunteerRegister hashSync create req db)) = 500)"
  using assms by (auto simp: volunteerRegister_def send_def Let_def split: sum.splits)

text \<open>A request the authentication middleware rejects never reaches \<open>ngoAdminRegister\<close>.\<close>

lemma route_register_ngoadmin_rejected:
  "authMiddleware jwt_verify findByPk req = Responded res \<Longrightarrow>
   route_register_ngoadmin jwt_verify findByPk hashSync create req db = (res, db)"
  by (simp add: route_register_ngoadmin_def)

text \<open>\<open>adminRegister\<close> does the same whatever \<open>req.user\<close> is.\<close>

lemma adminRegister_ignores_principal:
  "adminRegister hashSync create (req\<lparr>user := u\<rparr>) db = adminRegister hashSync create req db"
  by (simp add: adminRegister_def Let_def split: sum.splits)

lemma stored_hash_pw:
  "format_hash 8 demo_salt (demo_kdf 8 demo_salt ''pw'') = ''$2a$08$abcdefghijklmnopqrstuvwpabcdefghi''"
  by code_simp

text \<open>
  Claim C7. The claim: a credential record with an elevated role is created only for an
  authenticated admin, and a request without an admin principal is denied and creates
  no record. The route \<open>POST /register/admin\<close> breaks it: a request with no
  \<open>Authorization\<close> header and no principal is answered with 200, and a row of type
  \<open>admin\<close> is added to the table. \<open>ngoAdminRegister\<close> and \<open>volunteerRegister\<close> in the same
  controller do test for an admin (lemmas \<open>ngoAdminRegister_requires_admin\<close> and
  \<open>volunteerRegister_requires_admin\<close>).
\<close>

theorem register_admin_without_principal:
  "authorization (inbound None (JObj [(''username'', JStr ''mallory''), (''password'', JStr ''pw'')])) = None \<and>
   user (inbound None (JObj [(''username'', JStr ''mallory''), (''password'', JStr ''pw'')])) = JUndefined \<and>
   route_register_admin (bcrypt_hashSync demo_kdf demo_salt) mem_create
     (inbound None (JObj [(''username'', JStr ''mallory''), (''password'', JStr ''pw'')])) seeded_users
   = (\<lparr>status = 200,
        body = JObj [(''message'', JStr ''User registered successfully as admin.''),
                     (''username'', JStr ''mallory'')]\<rparr>,
      seeded_users @
        [JObj [(''username'', JStr ''mallory''),
               (''password'', JStr ''$2a$08$abcdefghijklmnopqrstuvwpabcdefghi''),
               (''type'', JStr ''admin'')]])"
  by (simp add: route_register_admin_def adminRegister_def inbound_def bcrypt_hashSync_def
        stored_hash_pw mem_create_def json_def)

section \<open>Properties of login\<close>

lemma jsonwebtoken_sign_nonempty:
  "jsonwebtoken_sign enc mac secret now payload expiresIn = Inr token \<Longrightarrow> token \<noteq> []"
  by (auto simp: jsonwebtoken_sign_def Let_def split: option.splits if_splits jsval.splits)

lemma jsonwebtoken_sign_succeeds:
  "secret = Some key \<Longrightarrow> key \<noteq> [] \<Longrightarrow>
   \<exists>token. jsonwebtoken_sign enc mac secret now (JObj kvs) expiresIn = Inr token"
  by (auto simp: jsonwebtoken_sign_def Let_def)

text \<open>
  Claim C2. For a login request whose body is an object and whose lookup returns
  (\<open>findOne username = Inr usr\<close>), in both copies of \<open>login\<close>: no row gives 404; a row whose
  stored hash the password does not verify against gives 401 with the body
  \<open>{auth: false, token: null}\<close>; a row whose stored hash the password verifies against
  gives 200 with the body \<open>{auth: true, token}\<close>, the token a non-empty string, when
  the signing secret is set. The bodies have exactly the properties \<open>auth\<close> and \<open>token\<close>.
\<close>

theorem login_outcomes:
  assumes "get_prop (req_body req) ''username'' = Inr username"
      and "get_prop (req_body req) ''password'' = Inr password"
      and "findOne username = Inr usr"
  shows "(\<not> truthy usr \<longrightarrow>
            status (login findOne compareSync jwt_sign req) = 404 \<and>
            status (login_part_009 findOne compareSync jwt_sign req) = 404) \<and>
         (truthy usr \<and> get_prop usr ''password'' = Inr stored \<and>
          compareSync password stored = Inr False \<longrightarrow>
            login findOne compareSync jwt_sign req =
              \<lparr>status = 401, body = JObj [(''auth'', JBool False), (''token'', JNull)]\<rparr> \<and>
            login_part_009 findOne compareSync jwt_sign req =
              \<lparr>status = 401, body = JObj [(''auth'', JBool False), (''token'', JNull)]\<rparr>) \<and>
         (truthy usr \<and> get_prop usr ''password'' = Inr stored \<and>
          compareSync password stored = Inr True \<and> secret = Some key \<and> key \<noteq> [] \<longrightarrow>
            (\<exists>token. token \<noteq> [] \<and>
               login findOne compareSync (jsonwebtoken_sign enc mac secret now) req =
                 \<lparr>status = 200, body = JObj [(''auth'', JBool True), (''token'', JStr token)]\<rparr>) \<and>
            (\<exists>token. token \<noteq> [] \<and>
               login_part_009 findOne compareSync (jsonwebtoken_sign enc mac secret now) req =
                 \<lparr>status = 200, body = JObj [(''auth'', JBool True), (''token'', JStr token)]\<rparr>))"
proof (intro conjI impI)
  assume "\<not> truthy usr"
  then show "status (login findOne compareSync jwt_sign req) = 404"
    using assms by (simp add: login_def json_def)
next
  assume "\<not> truthy usr"
  then show "status (login_part_009 findOne compareSync jwt_sign req) = 404"
    using assms by (simp add: login_part_009_def send_def)
next
  assume "truthy usr \<and> get_prop usr ''password'' = Inr stored \<and>
          compareSync password stored = Inr False"
  then show "login findOne compareSync jwt_sign req =
              \<lparr>status = 401, body = JObj [(''auth'', JBool False), (''token'', JNull)]\<rparr>"
    using assms by (simp add: login_def json_def)
next
  assume "truthy usr \<and> get_prop usr ''password'' = Inr stored \<and>
          compareSync password stored = Inr False"
  then show "login_part_009 findOne compareSync jwt_sign req =
              \<lparr>status = 401, body = JObj [(''auth'', JBool False), (''token'', JNull)]\<rparr>"
    using assms by (simp add: login_part_009_def json_def)
next
  assume a: "truthy usr \<and> get_prop usr ''password'' = Inr stored \<and>
          compareSync password stored = Inr True \<and> secret = Some key \<and> key \<noteq> []"
  from a obtain uid uty where u: "get_prop usr ''id'' = Inr uid" "get_prop usr ''type'' = Inr uty"
    using truthy_get_prop by blast
  from a obtain token where
    t: "jsonwebtoken_sign enc mac secret now (JObj [(''id'', uid), (''type'', uty)]) 86400 = Inr token"
    using jsonwebtoken_sign_succeeds by blast
  have "token \<noteq> []" using jsonwebtoken_sign_nonempty[OF t] .
  moreover have "login findOne compareSync (jsonwebtoken_sign enc mac secret now) req =
      \<lparr>status = 200, body = JObj [(''auth'', JBool True), (''token'', JStr token)]\<rparr>"
    using assms a u t by (simp add: login_def json_def)
  ultimately show "\<exists>token. token \<noteq> [] \<and>
               login findOne compareSync (jsonwebtoken_sign enc mac secret now) req =
                 \<lparr>status = 200, body = JObj [(''auth'', JBool True), (''token'', JStr token)]\<rparr>"
    by blast
next
  assume a: "truthy usr \<and> get_prop usr ''password'' = Inr stored \<and>
          compareSync password stored = Inr True \<and> secret = Some key \<and> key \<noteq> []"
  from a obtain uid where u: "get_prop usr ''id'' = Inr uid"
    using truthy_get_prop by blast
  from a obtain token where
    t: "jsonwebtoken_sign enc mac secret now (JObj [(''id'', uid)]) 86400 = Inr token"
    using jsonwebtoken_sign_succeeds by blast
  have "token \<noteq> []" using jsonwebtoken_sign_nonempty[OF t] .
  moreover have "login_part_009 findOne compareSync (jsonwebtoken_sign enc mac secret now) req =
      \<lparr>status = 200, body = JObj [(''auth'', JBool True), (''token'', JStr token)]\<rparr>"
    using assms a u t by (simp add: login_part_009_def json_def)
  ultimately show "\<exists>token. token \<noteq> [] \<and>
               login_part_009 findOne compareSync (jsonwebtoken_sign enc mac secret now) req =
                 \<lparr>status = 200, body = JObj [(''auth'', JBool True), (''token'', JStr token)]\<rparr>"
    by blast
qed

lemma alice_stored_hash:
  "format_hash 8 demo_salt (demo_kdf 8 demo_salt ''secret123'') =
     ''$2a$08$abcdefghijklmnopqrstuv321tercesabcdefghi''"
  by code_simp

lemma parse_alice_stored_hash:
  "parse_hash ''$2a$08$abcdefghijklmnopqrstuv321tercesabcdefghi'' =
     Some (8, ''abcdefghijklmnopqrstuv'', ''321tercesabcdefghi'')"
  by code_simp

text \<open>
  A run of the theorem of C2 on the seeded table: the unknown user \<open>bob\<close>, alice with a
  wrong password, and alice with \<open>secret123\<close>.
\<close>

theorem login_outcomes_witness:
  "status (login (mem_findOne seeded_users) (bcrypt_compareSync demo_kdf)
            (jsonwebtoken_sign (\<lambda>v. ''e30'') (\<lambda>k s. ''c2ln'') (Some ''s3cr3t'') 0)
            (inbound None (JObj [(''username'', JStr ''bob''), (''password'', JStr ''secret123'')]))) = 404 \<and>
   login (mem_findOne seeded_users) (bcrypt_compareSync demo_kdf)
            (jsonwebtoken_sign (\<lambda>v. ''e30'') (\<lambda>k s. ''c2ln'') (Some ''s3cr3t'') 0)
            (inbound None (JObj [(''username'', JStr ''alice''), (''password'', JStr ''letmein'')]))
     = \<lparr>status = 401, body = JObj [(''auth'', JBool False), (''token'', JNull)]\<rparr> \<and>
   (\<exists>token. token \<noteq> [] \<and>
      login (mem_findOne seeded_users) (bcrypt_compareSync demo_kdf)
            (jsonwebtoken_sign (\<lambda>v. ''e30'') (\<lambda>k s. ''c2ln'') (Some ''s3cr3t'') 0)
            (inbound None (JObj [(''username'', JStr ''alice''), (''password'', JStr ''secret123'')]))
     = \<lparr>status = 200, body = JObj [(''auth'', JBool True), (''token'', JStr token)]\<rparr>)"
proof -
  have find_bob: "mem_findOne seeded_users (JStr ''bob'') = Inr JNull"
    by (simp add: mem_findOne_def mem_find_def seeded_users_def alice_def nadia_def)
  have find_alice: "mem_findOne seeded_users (JStr ''alice'') = Inr alice"
    by (simp add: mem_findOne_def mem_find_def seeded_users_def alice_def nadia_def)
  have stored: "get_prop alice ''password'' =
      Inr (JStr ''$2a$08$abcdefghijklmnopqrstuv321tercesabcdefghi'')"
    by (simp add: alice_def alice_stored_hash)
  have al: "truthy alice" by (simp add: alice_def)
  have cmp_right: "bcrypt_compareSync demo_kdf (JStr ''secret123'')
      (JStr ''$2a$08$abcdefghijklmnopqrstuv321tercesabcdefghi'') = Inr True"
    by (simp add: bcrypt_compareSync_def parse_alice_stored_hash demo_kdf_def)
  have cmp_wrong: "bcrypt_compareSync demo_kdf (JStr ''letmein'')
      (JStr ''$2a$08$abcdefghijklmnopqrstuv321tercesabcdefghi'') = Inr False"
    by (simp add: bcrypt_compareSync_def parse_alice_stored_hash demo_kdf_def)
  note unknown = login_outcomes[where
      req="inbound None (JObj [(''username'', JStr ''bob''), (''password'', JStr ''secret123'')])"
      and username="JStr ''bob''" and password="JStr ''secret123''"
      and findOne="mem_findOne seeded_users" and usr=JNull
      and compareSync="bcrypt_compareSync demo_kdf"
      and jwt_sign="jsonwebtoken_sign (\<lambda>v. ''e30'') (\<lambda>k s. ''c2ln'') (Some ''s3cr3t'') 0"]
  note wrong = login_outcomes[where
      req="inbound None (JObj [(''username'', JStr ''alice''), (''password'', JStr ''letmein'')])"
      and username="JStr ''alice''" and password="JStr ''letmein''"
      and findOne="mem_findOne seeded_users" and usr=alice
      and stored="JStr ''$2a$08$abcdefghijklmnopqrstuv321tercesabcdefghi''"
      and compareSync="bcrypt_compareSync demo_kdf"
      and jwt_sign="jsonwebtoken_sign (\<lambda>v. ''e30'') (\<lambda>k s. ''c2ln'') (Some ''s3cr3t'') 0"]
  note right = login_outcomes[where
      req="inbound None (JObj [(''username'', JStr ''alice''), (''password'', JStr ''secret123'')])"
      and username="JStr ''alice''" and password="JStr ''secret123''"
      and findOne="mem_findOne seeded_users" and usr=alice
      and stored="JStr ''$2a$08$abcdefghijklmnopqrstuv321tercesabcdefghi''"
      and compareSync="bcrypt_compareSync demo_kdf"
      and secret="Some ''s3cr3t''" and key="''s3cr3t''"
      and enc="\<lambda>v. ''e30''" and mac="\<lambda>k s. ''c2ln''" and now=0]
  show ?thesis
    using unknown wrong right find_bob find_alice stored al cmp_right cmp_wrong
    by (simp add: inbound_def)
qed

section \<open>Properties of the password hasher\<close>

lemma cost_digits_8: "cost_digits 8 = ''08''"
  by code_simp

lemma digit_value_0: "digit_value CHR ''0'' = Some 0"
  by code_simp

lemma digit_value_8: "digit_value CHR ''8'' = Some 8"
  by code_simp

lemma format_hash_8: "format_hash 8 salt digest = ''$2a$08$'' @ salt @ digest"
  by (simp add: format_hash_def cost_digits_8)

text \<open>A hash string of cost 8 is read back into its cost, its salt and its digest.\<close>

lemma parse_format_hash:
  "length salt = 22 \<Longrightarrow> parse_hash (format_hash 8 salt digest) = Some (8, salt, digest)"
  by (simp add: format_hash_8 parse_hash_def digit_value_0 digit_value_8)

lemma compareSync_hashSync:
  assumes "p \<noteq> []" and "length salt = 22"
  shows "\<exists>h. bcrypt_hashSync kdf salt (JStr p) 8 = Inr h \<and>
             parse_hash h = Some (8, salt, kdf 8 salt p) \<and>
             bcrypt_compareSync kdf (JStr p) (JStr h) = Inr True"
  using assms by (simp add: bcrypt_hashSync_def bcrypt_compareSync_def parse_format_hash)

text \<open>
  The registration handlers call \<open>hashSync\<close> with the cost 8 only: two hashers that agree
  at cost 8 give the same run.
\<close>

lemma registration_hashes_with_cost_8:
  assumes "\<And>pw. hashSync pw 8 = hashSync' pw 8"
  shows "adminRegister hashSync create req db = adminRegister hashSync' create req db"
    and "ngoAdminRegister hashSync create req db = ngoAdminRegister hashSync' create req db"
    and "volunteerRegister hashSync create req db = volunteerRegister hashSync' create req db"
  by (simp_all add: adminRegister_def ngoAdminRegister_def volunteerRegister_def assms
        cong: sum.case_cong)

text \<open>
  Claim C8. For a plaintext the hasher accepts (a non-empty string), two successive
  calls of \<open>hash\<close> that draw two different salts of 22 characters return two different
  hash strings; \<open>verify\<close> returns true for the plaintext on each of them, and each
  records the cost 8. The registration handlers of the repository hash with the cost 8
  and no other.
\<close>

theorem hash_verifies_and_is_salted:
  assumes "p \<noteq> []"
      and "length (gen n) = 22" and "length (gen (Suc n)) = 22"
      and "gen (Suc n) \<noteq> gen n"
  shows "(\<exists>h1 h2.
            hash_call kdf gen (JStr p) n = (Inr h1, Suc n) \<and>
            hash_call kdf gen (JStr p) (Suc n) = (Inr h2, Suc (Suc n)) \<and>
            h1 \<noteq> h2 \<and>
            bcrypt_compareSync kdf (JStr p) (JStr h1) = Inr True \<and>
            bcrypt_compareSync kdf (JStr p) (JStr h2) = Inr True \<and>
            map_option fst (parse_hash h1) = Some 8 \<and>
            map_option fst (parse_hash h2) = Some 8) \<and>
         ((\<forall>pw. hashSync pw 8 = hashSync' pw 8) \<longrightarrow>
            adminRegister hashSync create req db = adminRegister hashSync' create req db \<and>
            ngoAdminRegister hashSync create req db = ngoAdminRegister hashSync' create req db \<and>
            volunteerRegister hashSync create req db = volunteerRegister hashSync' create req db)"
proof (intro conjI impI)
  from compareSync_hashSync[OF assms(1,2), of kdf] obtain h1 where
    h1: "bcrypt_hashSync kdf (gen n) (JStr p) 8 = Inr h1"
        "parse_hash h1 = Some (8, gen n, kdf 8 (gen n) p)"
        "bcrypt_compareSync kdf (JStr p) (JStr h1) = Inr True" by blast
  from compareSync_hashSync[OF assms(1,3), of kdf] obtain h2 where
    h2: "bcrypt_hashSync kdf (gen (Suc n)) (JStr p) 8 = Inr h2"
        "parse_hash h2 = Some (8, gen (Suc n), kdf 8 (gen (Suc n)) p)"
        "bcrypt_compareSync kdf (JStr p) (JStr h2) = Inr True" by blast
  have "h1 \<noteq> h2" using h1(2) h2(2) assms(4) by auto
  then show "\<exists>h1 h2.
            hash_call kdf gen (JStr p) n = (Inr h1, Suc n) \<and>
            hash_call kdf gen (JStr p) (Suc n) = (Inr h2, Suc (Suc n)) \<and>
            h1 \<noteq> h2 \<and>
            bcrypt_compareSync kdf (JStr p) (JStr h1) = Inr True \<and>
            bcrypt_compareSync kdf (JStr p) (JStr h2) = Inr True \<and>
            map_option fst (parse_hash h1) = Some 8 \<and>
            map_option fst (parse_hash h2) = Some 8"
    using h1 h2 by (auto simp: hash_call_def)
next
  assume a: "\<forall>pw. hashSync pw 8 = hashSync' pw 8"
  then show "adminRegister hashSync create req db = adminRegister hashSync' create req db"
    using registration_hashes_with_cost_8(1)[of hashSync hashSync'] by simp
  from a show "ngoAdminRegister hashSync create req db = ngoAdminRegister hashSync' create req db"
    using registration_hashes_with_cost_8(2)[of hashSync hashSync'] by simp
  from a show "volunteerRegister hashSync create req db = volunteerRegister hashSync' create req db"
    using registration_hashes_with_cost_8(3)[of hashSync hashSync'] by simp
qed

text \<open>
  A run of the theorem of C8: the password \<open>secret123\<close> hashed twice, with the salt
  \<open>demo_salt\<close> and then with its reverse; and \<open>adminRegister\<close> run with a hasher that
  fails at every cost but 8.
\<close>

theorem hash_verifies_and_is_salted_witness:
  "(\<exists>h1 h2.
      hash_call demo_kdf (\<lambda>n. if n = 0 then demo_salt else rev demo_salt) (JStr ''secret123'') 0
        = (Inr h1, Suc 0) \<and>
      hash_call demo_kdf (\<lambda>n. if n = 0 then demo_salt else rev demo_salt) (JStr ''secret123'') (Suc 0)
        = (Inr h2, Suc (Suc 0)) \<and>
      h1 \<noteq> h2 \<and>
      bcrypt_compareSync demo_kdf (JStr ''secret123'') (JStr h1) = Inr True \<and>
      bcrypt_compareSync demo_kdf (JStr ''secret123'') (JStr h2) = Inr True \<and>
      map_option fst (parse_hash h1) = Some 8 \<and>
      map_option fst (parse_hash h2) = Some 8) \<and>
   adminRegister (bcrypt_hashSync demo_kdf demo_salt) mem_create
       (inbound None (JObj [(''username'', JStr ''root''), (''password'', JStr ''pw'')])) [] =
   adminRegister (\<lambda>pw rounds. if rounds = 8 then bcrypt_hashSync demo_kdf demo_salt pw 8
                               else Inl (Error ''Error'' ''another cost''))
       mem_create (inbound None (JObj [(''username'', JStr ''root''), (''password'', JStr ''pw'')])) []"
proof -
  have "(''secret123''::string) \<noteq> []" by simp
  moreover have "length (if (0::nat) = 0 then demo_salt else rev demo_salt) = 22"
    by (simp add: demo_salt_def)
  moreover have "length (if Suc 0 = 0 then demo_salt else rev demo_salt) = 22"
    by (simp add: demo_salt_def)
  moreover have "(if Suc 0 = 0 then demo_salt else rev demo_salt) \<noteq>
                 (if (0::nat) = 0 then demo_salt else rev demo_salt)"
    by (simp add: demo_salt_def)
  moreover have "\<forall>pw. bcrypt_hashSync demo_kdf demo_salt pw 8 =
      (if (8::nat) = 8 then bcrypt_hashSync demo_kdf demo_salt pw 8
       else Inl (Error ''Error'' ''another cost''))"
    by simp
  ultimately show ?thesis
    using hash_verifies_and_is_salted[where p="''secret123''"
        and gen="\<lambda>n. if n = 0 then demo_salt else rev demo_salt" and n=0 and kdf=demo_kdf
        and hashSync="bcrypt_hashSync demo_kdf demo_salt"
        and hashSync'="\<lambda>pw rounds. if rounds = 8 then bcrypt_hashSync demo_kdf demo_salt pw 8
                               else Inl (Error ''Error'' ''another cost'')"
        and create=mem_create
        and req="inbound None (JObj [(''username'', JStr ''root''), (''password'', JStr ''pw'')])"
        and db="[]"]
    by simp
qed

end
